theory Spec2Isabelle
  imports Main "HOL-Library.Word"
begin

unbundle bit_operations_syntax

section \<open>C strings and cursors\<close>

text \<open>
  The decoder walks NUL-terminated strings through a cursor \<open>const char **pp\<close>.  A cursor
  is modelled by the text that is still ahead of it: \<open>cur p\<close> is \<open>*p\<close> (the terminating
  NUL once the text is used up), \<open>tl p\<close> is \<open>p + 1\<close>.  The limit \<open>p_end\<close> of the source is
  always \<open>string + strlen (string)\<close>, so \<open>orig >= p_end\<close> is \<open>p = []\<close>.
\<close>

type_synonym vma = "64 word"   \<comment> \<open>\<open>bfd_vma\<close>; \<open>bfd_signed_vma\<close> is read through \<open>sint\<close>\<close>
type_synonym cint = "32 word"  \<comment> \<open>\<open>int\<close> and \<open>unsigned int\<close> (\<open>SIZEOF_INT 4\<close>)\<close>

definition NUL :: char where
  "NUL = CHR 0x00"

definition cstr :: "string \<Rightarrow> string" where
  "cstr s = takeWhile (\<lambda>c. c \<noteq> NUL) s"

fun cur :: "string \<Rightarrow> char" where
  "cur [] = NUL"
| "cur (c # cs) = c"

definition ISDIGIT :: "char \<Rightarrow> bool" where
  "ISDIGIT c = (48 \<le> (of_char c :: nat) \<and> (of_char c :: nat) \<le> 57)"

definition isspace :: "char \<Rightarrow> bool" where
  "isspace c = ((of_char c :: nat) = 32 \<or> (9 \<le> (of_char c :: nat) \<and> (of_char c :: nat) \<le> 13))"

definition startswith :: "string \<Rightarrow> string \<Rightarrow> bool" where
  "startswith s pre = (take (length pre) s = pre)"

text \<open>\<open>strchr (s, c)\<close>: the text from the first \<open>c\<close> on, \<open>None\<close> for \<open>NULL\<close>.\<close>

fun strchr :: "string \<Rightarrow> char \<Rightarrow> string option" where
  "strchr [] c = None"
| "strchr (x # xs) c = (if x = c then Some (x # xs) else strchr xs c)"

section \<open>Diagnostics written to stderr\<close>

datatype diag =
    Bad_stab string
  | Warn_stab string string
  | Bad_demangle string
  | Message string

section \<open>Reading a number\<close>

text \<open>
  \<open>strtoul\<close> of the C library with base 0 and a 64-bit \<open>unsigned long\<close>
  (\<open>SIZEOF_LONG 8\<close> in config.h): white space, an optional sign, the base prefix, then
  every digit of the base.  The result is the value, the text after the number and whether
  \<open>errno\<close> was set to \<open>ERANGE\<close>.
\<close>

definition ULONG_MAX :: nat where
  "ULONG_MAX = 2 ^ 64 - 1"

definition digit_val :: "char \<Rightarrow> nat option" where
  "digit_val c = (let n = (of_char c :: nat) in
     if 48 \<le> n \<and> n \<le> 57 then Some (n - 48)
     else if 97 \<le> n \<and> n \<le> 122 then Some (n - 87)
     else if 65 \<le> n \<and> n \<le> 90 then Some (n - 55)
     else None)"

definition is_digit_of :: "nat \<Rightarrow> char \<Rightarrow> bool" where
  "is_digit_of base c = (case digit_val c of None \<Rightarrow> False | Some d \<Rightarrow> d < base)"

fun strtoul_digits :: "nat \<Rightarrow> nat \<Rightarrow> string \<Rightarrow> nat \<times> string" where
  "strtoul_digits base acc [] = (acc, [])"
| "strtoul_digits base acc (c # cs) =
     (case digit_val c of
        None \<Rightarrow> (acc, c # cs)
      | Some d \<Rightarrow> if d < base then strtoul_digits base (acc * base + d) cs else (acc, c # cs))"

definition strtoul :: "string \<Rightarrow> vma \<times> string \<times> bool" where
  "strtoul s =
     (let s1 = dropWhile isspace s;
          neg = (cur s1 = CHR ''-'');
          s2 = (if cur s1 = CHR ''-'' \<or> cur s1 = CHR ''+'' then tl s1 else s1);
          hex = (cur s2 = CHR ''0'' \<and> (cur (tl s2) = CHR ''x'' \<or> cur (tl s2) = CHR ''X'')
                 \<and> is_digit_of 16 (cur (tl (tl s2))));
          base = (if hex then 16 else if cur s2 = CHR ''0'' then 8 else 10);
          s3 = (if hex then tl (tl s2) else s2)
      in if \<not> is_digit_of base (cur s3) then (0, s, False)
         else (case strtoul_digits base 0 s3 of
                 (n, rest) \<Rightarrow>
                   if ULONG_MAX < n then (- 1, rest, True)
                   else (if neg then - of_nat n else of_nat n, rest, False)))"

text \<open>
  \<open>parse_number (pp, poverflow, p_end)\<close>.  \<open>flag\<close> says whether \<open>poverflow\<close> is a real
  pointer.  The block guarded by \<open>sizeof (bfd_vma) > sizeof (unsigned long long)\<close> is not
  compiled in: both are 8 bytes.  The casts \<open>(bfd_vma) (bfd_signed_vma) (long long) ul\<close> keep
  all 64 bits.
\<close>

record number_result =
  nr_value :: vma
  nr_rest :: string
  nr_overflow :: bool
  nr_errs :: "diag list"

definition parse_number :: "string \<Rightarrow> bool \<Rightarrow> number_result" where
  "parse_number pp flag =
     (if pp = [] then \<lparr>nr_value = 0, nr_rest = pp, nr_overflow = False, nr_errs = []\<rparr>
      else if cur pp = NUL then \<lparr>nr_value = 0, nr_rest = pp, nr_overflow = False, nr_errs = []\<rparr>
      else (case strtoul pp of
              (ul, rest, erange) \<Rightarrow>
                if ul + 1 \<noteq> 0 \<or> \<not> erange
                then \<lparr>nr_value = ul, nr_rest = rest, nr_overflow = False, nr_errs = []\<rparr>
                else if flag
                then \<lparr>nr_value = 0, nr_rest = rest, nr_overflow = True, nr_errs = []\<rparr>
                else \<lparr>nr_value = 0, nr_rest = rest, nr_overflow = False,
                       nr_errs = [Warn_stab ''numeric overflow'' pp]\<rparr>))"

section \<open>The sink\<close>

text \<open>
  Types are built by the generic debugging-information sink (\<open>debug_make_..._type\<close>) and
  handed back as opaque handles.  A handle is modelled by the term that built it;
  \<open>DEBUG_TYPE_NULL\<close> is \<open>None\<close>.  An indirect type holds the address of the slot that
  will receive the real type: a cell of a \<open>struct stab_types\<close> chunk or the \<open>slot\<close> field of a
  \<open>struct stab_tag\<close>.
\<close>

datatype slot_ref =
    Type_slot nat nat   \<comment> \<open>\<open>chunk->types + i\<close>\<close>
  | Tag_slot nat        \<comment> \<open>\<open>&st->slot\<close>\<close>

datatype debug_type_kind =
    DEBUG_KIND_ILLEGAL
  | DEBUG_KIND_INDIRECT
  | DEBUG_KIND_VOID
  | DEBUG_KIND_INT
  | DEBUG_KIND_FLOAT
  | DEBUG_KIND_COMPLEX
  | DEBUG_KIND_BOOL
  | DEBUG_KIND_STRUCT
  | DEBUG_KIND_UNION
  | DEBUG_KIND_CLASS
  | DEBUG_KIND_UNION_CLASS
  | DEBUG_KIND_ENUM
  | DEBUG_KIND_POINTER
  | DEBUG_KIND_FUNCTION
  | DEBUG_KIND_REFERENCE
  | DEBUG_KIND_RANGE
  | DEBUG_KIND_ARRAY
  | DEBUG_KIND_SET
  | DEBUG_KIND_OFFSET
  | DEBUG_KIND_METHOD
  | DEBUG_KIND_CONST
  | DEBUG_KIND_VOLATILE
  | DEBUG_KIND_NAMED
  | DEBUG_KIND_TAGGED

datatype debug_var_kind =
    DEBUG_GLOBAL
  | DEBUG_STATIC
  | DEBUG_LOCAL_STATIC
  | DEBUG_LOCAL
  | DEBUG_REGISTER

datatype debug_parm_kind =
    DEBUG_PARM_STACK
  | DEBUG_PARM_REG
  | DEBUG_PARM_REFERENCE
  | DEBUG_PARM_REF_REG

datatype debug_visibility =
    DEBUG_VISIBILITY_PUBLIC
  | DEBUG_VISIBILITY_PROTECTED
  | DEBUG_VISIBILITY_PRIVATE
  | DEBUG_VISIBILITY_IGNORE

datatype debug_type =
    Void_type
  | Int_type cint bool           \<comment> \<open>size, \<open>unsignedp\<close>\<close>
  | Float_type cint
  | Complex_type cint
  | Bool_type cint
  | Indirect_type slot_ref "string option"
  | Pointer_type debug_type
  | Reference_type debug_type
  | Function_type debug_type
  | Const_type debug_type
  | Volatile_type debug_type
  | Offset_type debug_type debug_type
  | Method_type debug_type "debug_type option" "debug_type list option" bool
  | Range_type debug_type vma vma
  | Array_type debug_type debug_type vma vma bool
  | Set_type debug_type bool
  | Enum_type "string list" "vma list"
  | Struct_type bool vma "debug_field list"
  | Object_type bool vma "debug_field list" "debug_baseclass list option"
      "debug_method list option" "debug_type option" bool
  | Named_type string debug_type
  | Tagged_type string debug_type
and debug_field =
    Field string debug_type vma vma debug_visibility
  | Static_member string debug_type string debug_visibility
and debug_baseclass =
    Baseclass debug_type vma bool debug_visibility
and debug_method =
    Method string "debug_method_variant list"
and debug_method_variant =
    Method_variant string debug_type debug_visibility bool bool vma "debug_type option"
  | Static_method_variant string debug_type debug_visibility bool bool

type_synonym dtype = "debug_type option"

text \<open>The calls into the sink that report success or failure.\<close>

datatype sink_call =
    Set_filename string
  | Start_source "string option"
  | Start_block vma
  | End_block vma
  | End_function vma
  | Record_line cint vma
  | Start_common_block string
  | End_common_block string
  | Record_function "string option" debug_type bool vma
  | Record_variable "string option" dtype debug_var_kind vma
  | Record_parameter "string option" debug_type debug_parm_kind vma
  | Record_label "string option" debug_type vma
  | Record_int_const "string option" cint
  | Record_float_const "string option" string
  | Record_typed_const "string option" debug_type cint
  | Record_type_size debug_type cint
  | Name_type string debug_type
  | Tag_type string debug_type

section \<open>The decoder's state\<close>

record stab_pending_var =
  pv_name :: "string option"
  pv_type :: dtype
  pv_kind :: debug_var_kind
  pv_val :: vma

definition STAB_TYPES_SLOTS :: cint where
  "STAB_TYPES_SLOTS = 16"

record stab_types =
  st_next :: "nat option"
  base_index :: cint
  types :: "dtype list"

record stab_tag =
  tag_name :: string
  tag_kind :: debug_type_kind
  tag_slot :: dtype
  tag_type :: dtype

record bincl_file =
  bf_name :: string
  bf_hash :: vma
  bf_file :: nat
  bf_file_types :: "nat option"

text \<open>
  \<open>struct stab_handle\<close>, followed by what the handle points into: the cells allocated
  with \<open>debug_xalloc\<close> (a pointer to a cell is its position in the arena), the sink with the
  calls it has accepted so far, and stderr.  \<open>bfd64\<close> says whether the decoder was compiled
  with the macro \<open>BFD64\<close> of bfd.h (a 64-bit \<open>bfd_vma\<close> is assumed either way).  The lists \<open>bincl_list\<close>, \<open>bincl_stack\<close>, \<open>tags\<close>
  and \<open>pending\<close> are the linked lists of the source, head first; the chunk lists of
  \<open>file_types\<close> keep their \<open>next\<close> pointers, because N_EXCL makes two files share one list.
\<close>

record stab_handle =
  bfd64 :: bool
  sections :: bool
  syms :: "(string \<times> vma) list"
  symbol_leading_char :: char
  so_string :: "string option"
  so_value :: vma
  file_start_offset :: vma
  function_start_offset :: vma
  gcc_compiled :: nat
  n_opt_found :: bool
  main_filename :: "string option"
  bincl_stack :: "nat list"
  bincl_list :: "nat list"
  within_function :: bool
  function_end :: vma
  block_depth :: cint
  pending :: "stab_pending_var list"
  files :: nat
  file_types :: "nat option list"
  xcoff_types :: "dtype list"
  tags :: "nat list"
  self_crossref :: bool
  chunks :: "stab_types list"
  bincl_cells :: "bincl_file list"
  tag_cells :: "stab_tag list"
  sink_accepts :: "sink_call list \<Rightarrow> sink_call \<Rightarrow> bool"
  sink_tags :: "sink_call list \<Rightarrow> string \<Rightarrow> dtype"
  sink_names :: "sink_call list \<Rightarrow> string \<Rightarrow> dtype"
  sink :: "sink_call list"
  stderr :: "diag list"

definition XCOFF_TYPE_COUNT :: nat where
  "XCOFF_TYPE_COUNT = 34"

text \<open>
  A call into the sink: the sink answers from the calls it has seen (\<open>sink_accepts\<close>), and
  an accepted call is appended to \<open>sink\<close>.  \<open>sink_tags\<close> and \<open>sink_names\<close> are the sink's
  answers to \<open>debug_find_tagged_type\<close> and \<open>debug_find_named_type\<close>.
\<close>

definition call_sink :: "sink_call \<Rightarrow> stab_handle \<Rightarrow> bool \<times> stab_handle" where
  "call_sink c s =
     (if sink_accepts s (sink s) c then (True, s\<lparr>sink := sink s @ [c]\<rparr>) else (False, s))"

definition report :: "diag \<Rightarrow> stab_handle \<Rightarrow> stab_handle" where
  "report d s = s\<lparr>stderr := stderr s @ [d]\<rparr>"

text \<open>\<open>start_stab\<close>: the handle of a fresh session over a sink.\<close>

definition start_stab ::
  "bool \<Rightarrow> bool \<Rightarrow> (string \<times> vma) list \<Rightarrow> char \<Rightarrow> (sink_call list \<Rightarrow> sink_call \<Rightarrow> bool)
     \<Rightarrow> (sink_call list \<Rightarrow> string \<Rightarrow> dtype) \<Rightarrow> (sink_call list \<Rightarrow> string \<Rightarrow> dtype)
     \<Rightarrow> stab_handle" where
  "start_stab b64 sects sy lead acc tg nm =
     \<lparr>bfd64 = b64, sections = sects, syms = sy, symbol_leading_char = lead, so_string = None,
      so_value = 0, file_start_offset = 0, function_start_offset = 0, gcc_compiled = 0,
      n_opt_found = False, main_filename = None, bincl_stack = [], bincl_list = [],
      within_function = False, function_end = - 1, block_depth = 0, pending = [],
      files = 1, file_types = [None], xcoff_types = replicate XCOFF_TYPE_COUNT None,
      tags = [], self_crossref = False, chunks = [], bincl_cells = [], tag_cells = [],
      sink_accepts = acc, sink_tags = tg, sink_names = nm, sink = [], stderr = []\<rparr>"

section \<open>The type number registry\<close>

text \<open>
  \<open>struct stab_types **ps\<close> points at the head of a file's list or at the \<open>next\<close> field of
  a chunk.
\<close>

datatype chunk_ptr =
    Head nat
  | Next_of nat

text \<open>Reading and writing through \<open>ps\<close>; a pointer outside the arena has no value.\<close>

definition deref :: "stab_handle \<Rightarrow> chunk_ptr \<Rightarrow> nat option option" where
  "deref s ps =
     (case ps of
        Head f \<Rightarrow> if f < length (file_types s) then Some (file_types s ! f) else None
      | Next_of c \<Rightarrow> if c < length (chunks s) then Some (st_next (chunks s ! c)) else None)"

definition assign :: "chunk_ptr \<Rightarrow> nat option \<Rightarrow> stab_handle \<Rightarrow> stab_handle" where
  "assign ps v s =
     (case ps of
        Head f \<Rightarrow> s\<lparr>file_types := (file_types s)[f := v]\<rparr>
      | Next_of c \<Rightarrow> s\<lparr>chunks := (chunks s)[c := (chunks s ! c)\<lparr>st_next := v\<rparr>]\<rparr>)"

text \<open>
  \<open>while (*ps && (*ps)->base_index < base_index) ps = &(*ps)->next;\<close>  The loop follows
  pointers of the store, so it is run on fuel: \<open>None\<close> when the fuel runs out or a pointer
  leaves the arena.
\<close>

primrec walk_chunks :: "nat \<Rightarrow> stab_handle \<Rightarrow> cint \<Rightarrow> chunk_ptr \<Rightarrow> chunk_ptr option" where
  "walk_chunks 0 s b ps = None"
| "walk_chunks (Suc k) s b ps =
     (case deref s ps of
        None \<Rightarrow> None
      | Some None \<Rightarrow> Some ps
      | Some (Some c) \<Rightarrow>
          if c < length (chunks s)
          then (if base_index (chunks s ! c) < b then walk_chunks k s b (Next_of c) else Some ps)
          else None)"

text \<open>
  \<open>stab_find_slot\<close>.  The outer \<open>option\<close> is \<open>None\<close> when the walk does not come back; the
  inner one is the \<open>NULL\<close> of an out-of-range file number.
\<close>

definition stab_find_slot ::
  "stab_handle \<Rightarrow> cint \<times> cint \<Rightarrow> (slot_ref option \<times> stab_handle) option" where
  "stab_find_slot s typenums =
     (let filenum = fst typenums;
          tindex = snd typenums
      in if files s \<le> unat filenum
         then Some (None,
                report (Message (''Type file number %d out of range'')) s)
         else
           (let b = tindex div STAB_TYPES_SLOTS * STAB_TYPES_SLOTS;
                i = tindex - b
            in case walk_chunks (Suc (length (chunks s))) s b (Head (unat filenum)) of
                 None \<Rightarrow> None
               | Some ps \<Rightarrow>
                   (case deref s ps of
                      None \<Rightarrow> None
                    | Some None \<Rightarrow>
                        (let n = length (chunks s);
                             s1 = s\<lparr>chunks := chunks s @
                                     [\<lparr>st_next = None, base_index = b,
                                       types = replicate (unat STAB_TYPES_SLOTS) None\<rparr>]\<rparr>
                         in Some (Some (Type_slot n (unat i)), assign ps (Some n) s1))
                    | Some (Some c) \<Rightarrow>
                        if c < length (chunks s) \<and> base_index (chunks s ! c) = b
                        then Some (Some (Type_slot c (unat i)), s)
                        else
                          (let n = length (chunks s);
                               s1 = s\<lparr>chunks := chunks s @
                                       [\<lparr>st_next = Some c, base_index = b,
                                         types = replicate (unat STAB_TYPES_SLOTS) None\<rparr>]\<rparr>
                           in Some (Some (Type_slot n (unat i)), assign ps (Some n) s1)))))"

text \<open>\<open>*slot\<close> and \<open>*slot = type\<close>.\<close>

definition slot_get :: "stab_handle \<Rightarrow> slot_ref \<Rightarrow> dtype" where
  "slot_get s r =
     (case r of
        Type_slot c i \<Rightarrow> types (chunks s ! c) ! i
      | Tag_slot t \<Rightarrow> tag_slot (tag_cells s ! t))"

definition slot_set :: "slot_ref \<Rightarrow> dtype \<Rightarrow> stab_handle \<Rightarrow> stab_handle" where
  "slot_set r v s =
     (case r of
        Type_slot c i \<Rightarrow>
          s\<lparr>chunks := (chunks s)[c := (chunks s ! c)\<lparr>types := (types (chunks s ! c))[i := v]\<rparr>]\<rparr>
      | Tag_slot t \<Rightarrow> s\<lparr>tag_cells := (tag_cells s)[t := (tag_cells s ! t)\<lparr>tag_slot := v\<rparr>]\<rparr>)"

text \<open>The sink's \<open>debug_name_type\<close>: \<open>NULL\<close> for a \<open>NULL\<close> type or when the sink refuses.\<close>

definition debug_name_type :: "string \<Rightarrow> dtype \<Rightarrow> stab_handle \<Rightarrow> dtype \<times> stab_handle" where
  "debug_name_type name t s =
     (case t of
        None \<Rightarrow> (None, s)
      | Some ty \<Rightarrow>
          (case call_sink (Name_type name ty) s of
             (True, s') \<Rightarrow> (Some (Named_type name ty), s')
           | (False, s') \<Rightarrow> (None, s')))"

text \<open>\<open>stab_xcoff_builtin_type\<close>: the fixed table of the XCOFF predefined types.\<close>

definition xcoff_builtin :: "nat \<Rightarrow> string \<times> dtype" where
  "xcoff_builtin n =
     (if n = 0 then (''int'', Some (Int_type 4 False))
      else if n = 1 then (''char'', Some (Int_type 1 False))
      else if n = 2 then (''short'', Some (Int_type 2 False))
      else if n = 3 then (''long long'', Some (Int_type 4 False))
      else if n = 4 then (''unsigned char'', Some (Int_type 1 True))
      else if n = 5 then (''signed char'', Some (Int_type 1 False))
      else if n = 6 then (''unsigned short'', Some (Int_type 2 True))
      else if n = 7 then (''unsigned int'', Some (Int_type 4 True))
      else if n = 8 then (''unsigned'', Some (Int_type 4 True))
      else if n = 9 then (''unsigned long long'', Some (Int_type 4 True))
      else if n = 10 then (''void'', Some Void_type)
      else if n = 11 then (''float'', Some (Float_type 4))
      else if n = 12 then (''double'', Some (Float_type 8))
      else if n = 13 then (''long long double'', Some (Float_type 8))
      else if n = 14 then (''integer'', Some (Int_type 4 False))
      else if n = 15 then (''boolean'', Some (Bool_type 4))
      else if n = 16 then (''short real'', Some (Float_type 4))
      else if n = 17 then (''real'', Some (Float_type 8))
      else if n = 18 then (''stringptr'', None)
      else if n = 19 then (''character'', Some (Int_type 1 True))
      else if n = 20 then (''logical*1'', Some (Bool_type 1))
      else if n = 21 then (''logical*2'', Some (Bool_type 2))
      else if n = 22 then (''logical*4'', Some (Bool_type 4))
      else if n = 23 then (''logical'', Some (Bool_type 4))
      else if n = 24 then (''complex'', Some (Complex_type 8))
      else if n = 25 then (''double complex'', Some (Complex_type 16))
      else if n = 26 then (''integer*1'', Some (Int_type 1 False))
      else if n = 27 then (''integer*2'', Some (Int_type 2 False))
      else if n = 28 then (''integer*4'', Some (Int_type 4 False))
      else if n = 29 then (''wchar'', Some (Int_type 2 False))
      else if n = 30 then (''long long'', Some (Int_type 8 False))
      else if n = 31 then (''unsigned long long'', Some (Int_type 8 True))
      else if n = 32 then (''logical*8'', Some (Bool_type 8))
      else (''integer*8'', Some (Int_type 8 False)))"

definition stab_xcoff_builtin_type :: "stab_handle \<Rightarrow> cint \<Rightarrow> dtype \<times> stab_handle" where
  "stab_xcoff_builtin_type s typenum0 =
     (let typenum = - typenum0 - 1
      in if XCOFF_TYPE_COUNT \<le> unat typenum
         then (None, report (Message ''Unrecognized XCOFF type %d'') s)
         else if xcoff_types s ! unat typenum \<noteq> None
         then (xcoff_types s ! unat typenum, s)
         else (case xcoff_builtin (unat typenum) of
                 (name, rettype) \<Rightarrow>
                   (case debug_name_type name rettype s of
                      (rt, s') \<Rightarrow> (rt, s'\<lparr>xcoff_types := (xcoff_types s')[unat typenum := rt]\<rparr>))))"

text \<open>\<open>stab_find_type\<close> and \<open>stab_record_type\<close>.\<close>

definition stab_find_type ::
  "stab_handle \<Rightarrow> cint \<times> cint \<Rightarrow> (dtype \<times> stab_handle) option" where
  "stab_find_type s typenums =
     (if fst typenums = 0 \<and> snd typenums <s 0
      then Some (stab_xcoff_builtin_type s (snd typenums))
      else (case stab_find_slot s typenums of
              None \<Rightarrow> None
            | Some (None, s') \<Rightarrow> Some (None, s')
            | Some (Some slot, s') \<Rightarrow>
                if slot_get s' slot = None
                then Some (Some (Indirect_type slot None), s')
                else Some (slot_get s' slot, s')))"

definition stab_record_type ::
  "stab_handle \<Rightarrow> cint \<times> cint \<Rightarrow> dtype \<Rightarrow> (bool \<times> stab_handle) option" where
  "stab_record_type s typenums ty =
     (case stab_find_slot s typenums of
        None \<Rightarrow> None
      | Some (None, s') \<Rightarrow> Some (False, s')
      | Some (Some slot, s') \<Rightarrow> Some (True, slot_set slot ty s'))"

section \<open>Pending variables\<close>

definition debug_record_variable ::
  "string option \<Rightarrow> dtype \<Rightarrow> debug_var_kind \<Rightarrow> vma \<Rightarrow> stab_handle \<Rightarrow> bool \<times> stab_handle" where
  "debug_record_variable name ty kind val s = call_sink (Record_variable name ty kind val) s"

definition stab_record_variable ::
  "stab_handle \<Rightarrow> string option \<Rightarrow> dtype \<Rightarrow> debug_var_kind \<Rightarrow> vma \<Rightarrow> bool \<times> stab_handle" where
  "stab_record_variable s name ty kind val =
     (if (kind = DEBUG_GLOBAL \<or> kind = DEBUG_STATIC)
         \<or> \<not> within_function s
         \<or> (gcc_compiled s = 0 \<and> n_opt_found s)
      then debug_record_variable name ty kind val s
      else (True, s\<lparr>pending :=
                      \<lparr>pv_name = name, pv_type = ty, pv_kind = kind, pv_val = val\<rparr> # pending s\<rparr>))"

text \<open>
  The loop of \<open>stab_emit_pending_vars\<close> over the list \<open>v\<close>; \<open>info->pending\<close> is cleared only
  when every variable went through.
\<close>

fun emit_vars :: "stab_pending_var list \<Rightarrow> stab_handle \<Rightarrow> bool \<times> stab_handle" where
  "emit_vars [] s = (True, s)"
| "emit_vars (v # vs) s =
     (case debug_record_variable (pv_name v) (pv_type v) (pv_kind v) (pv_val v) s of
        (False, s') \<Rightarrow> (False, s')
      | (True, s') \<Rightarrow> emit_vars vs s')"

definition stab_emit_pending_vars :: "stab_handle \<Rightarrow> bool \<times> stab_handle" where
  "stab_emit_pending_vars s =
     (case emit_vars (pending s) s of
        (False, s') \<Rightarrow> (False, s')
      | (True, s') \<Rightarrow> (True, s'\<lparr>pending := []\<rparr>))"

section \<open>Include files\<close>

text \<open>
  \<open>xrealloc\<close> of the array \<open>file_types\<close> to \<open>n\<close> pointers.  The source assigns every new
  cell before reading it; the model starts it at \<open>NULL\<close>.
\<close>

definition xrealloc :: "nat option list \<Rightarrow> nat \<Rightarrow> nat option list" where
  "xrealloc xs n = take n xs @ replicate (n - length xs) None"

definition push_bincl :: "stab_handle \<Rightarrow> string \<Rightarrow> vma \<Rightarrow> stab_handle" where
  "push_bincl s name hash =
     (let n = length (bincl_cells s);
          cell = \<lparr>bf_name = name, bf_hash = hash, bf_file = files s, bf_file_types = None\<rparr>
      in s\<lparr>bincl_cells := bincl_cells s @ [cell],
           bincl_list := n # bincl_list s,
           bincl_stack := n # bincl_stack s,
           files := files s + 1,
           file_types := (xrealloc (file_types s) (files s + 1))[files s := None]\<rparr>)"

definition pop_bincl :: "stab_handle \<Rightarrow> string option \<times> stab_handle" where
  "pop_bincl s =
     (case bincl_stack s of
        [] \<Rightarrow> (main_filename s, s)
      | o' # rest \<Rightarrow>
          (let s1 = s\<lparr>bincl_stack := rest\<rparr>
           in if files s1 \<le> bf_file (bincl_cells s1 ! o')
              then (main_filename s1, s1)
              else
                (let s2 = s1\<lparr>bincl_cells := (bincl_cells s1)
                             [o' := (bincl_cells s1 ! o')
                                \<lparr>bf_file_types := file_types s1 ! bf_file (bincl_cells s1 ! o')\<rparr>]\<rparr>
                 in case bincl_stack s2 of
                      [] \<Rightarrow> (main_filename s2, s2)
                    | t # _ \<Rightarrow> (Some (bf_name (bincl_cells s2 ! t)), s2))))"

text \<open>The search loop of \<open>find_excl\<close> over \<open>bincl_list\<close>.\<close>

fun find_bincl :: "bincl_file list \<Rightarrow> nat list \<Rightarrow> string \<Rightarrow> vma \<Rightarrow> nat option" where
  "find_bincl cells [] name hash = None"
| "find_bincl cells (l # ls) name hash =
     (if bf_hash (cells ! l) = hash \<and> bf_name (cells ! l) = name then Some l
      else find_bincl cells ls name hash)"

definition find_excl :: "stab_handle \<Rightarrow> string \<Rightarrow> vma \<Rightarrow> bool \<times> stab_handle" where
  "find_excl s name hash =
     (let s1 = s\<lparr>files := files s + 1, file_types := xrealloc (file_types s) (files s + 1)\<rparr>
      in case find_bincl (bincl_cells s1) (bincl_list s1) name hash of
           None \<Rightarrow>
             (True, (report (Warn_stab ''Undefined N_EXCL'' name) s1)
                      \<lparr>file_types := (file_types s1)[files s1 - 1 := None]\<rparr>)
         | Some l \<Rightarrow>
             (True, s1\<lparr>file_types :=
                        (file_types s1)[files s1 - 1 := bf_file_types (bincl_cells s1 ! l)]\<rparr>))"

section \<open>The type expression parser\<close>

text \<open>
  The sink's type constructors.  Each one returns a fresh handle; those that wrap another
  type hand a \<open>NULL\<close> argument back as \<open>NULL\<close>, which the parser relies on.
\<close>

definition debug_make_void_type :: dtype where
  "debug_make_void_type = Some Void_type"

definition debug_make_int_type :: "cint \<Rightarrow> bool \<Rightarrow> dtype" where
  "debug_make_int_type sz unsignedp = Some (Int_type sz unsignedp)"

definition debug_make_float_type :: "cint \<Rightarrow> dtype" where
  "debug_make_float_type sz = Some (Float_type sz)"

definition debug_make_complex_type :: "cint \<Rightarrow> dtype" where
  "debug_make_complex_type sz = Some (Complex_type sz)"

definition debug_make_indirect_type :: "slot_ref \<Rightarrow> string option \<Rightarrow> dtype" where
  "debug_make_indirect_type slot tag = Some (Indirect_type slot tag)"

definition debug_make_pointer_type :: "dtype \<Rightarrow> dtype" where
  "debug_make_pointer_type t = map_option Pointer_type t"

definition debug_make_reference_type :: "dtype \<Rightarrow> dtype" where
  "debug_make_reference_type t = map_option Reference_type t"

definition debug_make_function_type :: "dtype \<Rightarrow> dtype" where
  "debug_make_function_type t = map_option Function_type t"

definition debug_make_const_type :: "dtype \<Rightarrow> dtype" where
  "debug_make_const_type t = map_option Const_type t"

definition debug_make_volatile_type :: "dtype \<Rightarrow> dtype" where
  "debug_make_volatile_type t = map_option Volatile_type t"

definition debug_make_set_type :: "dtype \<Rightarrow> bool \<Rightarrow> dtype" where
  "debug_make_set_type t bitstringp = map_option (\<lambda>x. Set_type x bitstringp) t"

definition debug_make_range_type :: "dtype \<Rightarrow> vma \<Rightarrow> vma \<Rightarrow> dtype" where
  "debug_make_range_type t lower upper = map_option (\<lambda>x. Range_type x lower upper) t"

definition debug_make_offset_type :: "dtype \<Rightarrow> dtype \<Rightarrow> dtype" where
  "debug_make_offset_type base target =
     (case (base, target) of (Some b, Some t) \<Rightarrow> Some (Offset_type b t) | _ \<Rightarrow> None)"

definition debug_make_method_type ::
  "dtype \<Rightarrow> dtype \<Rightarrow> debug_type list option \<Rightarrow> bool \<Rightarrow> dtype" where
  "debug_make_method_type return_type domain_type arg_types varargs =
     map_option (\<lambda>r. Method_type r domain_type arg_types varargs) return_type"

definition debug_make_array_type :: "dtype \<Rightarrow> dtype \<Rightarrow> vma \<Rightarrow> vma \<Rightarrow> bool \<Rightarrow> dtype" where
  "debug_make_array_type element_type range_type lower upper stringp =
     (case (element_type, range_type) of
        (Some e, Some r) \<Rightarrow> Some (Array_type e r lower upper stringp)
      | _ \<Rightarrow> None)"

text \<open>Several diagnostics at once.\<close>

definition reports :: "diag list \<Rightarrow> stab_handle \<Rightarrow> stab_handle" where
  "reports ds s = s\<lparr>stderr := stderr s @ ds\<rparr>"

text \<open>
  \<open>parse_stab_type_number\<close>: a single number \<open>N\<close>, read as \<open>(0, N)\<close>, or a pair
  \<open>(FILENUM,TYPENUM)\<close>.  The \<open>(int)\<close> casts keep the low 32 bits.
\<close>

record typenum_result =
  tn_ok :: bool
  tn_nums :: "cint \<times> cint"
  tn_rest :: string
  tn_errs :: "diag list"

definition parse_stab_type_number :: "string \<Rightarrow> typenum_result" where
  "parse_stab_type_number pp =
     (if cur pp \<noteq> CHR ''(''
      then (let r = parse_number pp False
            in \<lparr>tn_ok = True, tn_nums = (0, ucast (nr_value r)), tn_rest = nr_rest r,
                 tn_errs = nr_errs r\<rparr>)
      else
        (let r0 = parse_number (tl pp) False
         in if cur (nr_rest r0) \<noteq> CHR '',''
            then \<lparr>tn_ok = False, tn_nums = (ucast (nr_value r0), 0), tn_rest = nr_rest r0,
                   tn_errs = nr_errs r0 @ [Bad_stab pp]\<rparr>
            else
              (let r1 = parse_number (tl (nr_rest r0)) False
               in if cur (nr_rest r1) \<noteq> CHR '')''
                  then \<lparr>tn_ok = False, tn_nums = (ucast (nr_value r0), ucast (nr_value r1)),
                         tn_rest = nr_rest r1, tn_errs = nr_errs r0 @ nr_errs r1 @ [Bad_stab pp]\<rparr>
                  else \<lparr>tn_ok = True, tn_nums = (ucast (nr_value r0), ucast (nr_value r1)),
                         tn_rest = tl (nr_rest r1), tn_errs = nr_errs r0 @ nr_errs r1\<rparr>)))"

text \<open>
  The recursive calls of the parser all have the form
  \<open>parse_stab_type (dhandle, info, NULL, pp, NULL, p_end)\<close>.  The functions that make them
  take that call as their first argument; \<open>parse_stab_type\<close> below closes the recursion.
  A result is the type, the cursor and the handle; \<open>None\<close> is a call that does not return.
\<close>

type_synonym type_parser = "stab_handle \<Rightarrow> string \<Rightarrow> (dtype \<times> string \<times> stab_handle) option"

definition LLLOW :: string where
  "LLLOW = ''01000000000000000000000;''"

definition LLHIGH :: string where
  "LLHIGH = ''0777777777777777777777;''"

definition ULLHIGH :: string where
  "ULLHIGH = ''01777777777777777777777;''"

text \<open>
  The table of \<open>parse_stab_range_type\<close> that turns the two bounds of a range without an
  explicit index type into a builtin type; \<open>None\<close> when no line of the table applies.
  \<open>n2\<close> and \<open>n3\<close> are \<open>bfd_signed_vma\<close>: comparisons are signed, \<open>-n3\<close> and \<open>n3 + 1\<close> wrap.
\<close>

definition range_builtin :: "bool \<Rightarrow> bool \<Rightarrow> string option \<Rightarrow> vma \<Rightarrow> vma \<Rightarrow> dtype option" where
  "range_builtin b64 self_subrange type_name n2 n3 =
     (if self_subrange \<and> n2 = 0 \<and> n3 = 0 then Some debug_make_void_type
      else if self_subrange \<and> n3 = 0 \<and> 0 <s n2 then Some (debug_make_complex_type (ucast n2))
      else if n3 = 0 \<and> 0 <s n2 then Some (debug_make_float_type (ucast n2))
      else if n2 = 0 \<and> n3 = - 1 then
        (if type_name = Some ''long long int'' then Some (debug_make_int_type 8 False)
         else if type_name = Some ''long long unsigned int'' then Some (debug_make_int_type 8 True)
         else Some (debug_make_int_type 4 True))
      else if self_subrange \<and> n2 = 0 \<and> n3 = 127 then Some (debug_make_int_type 1 False)
      else if n2 = 0 then
        (if n3 <s 0 then Some (debug_make_int_type (ucast (- n3)) True)
         else if n3 = 0xff then Some (debug_make_int_type 1 True)
         else if n3 = 0xffff then Some (debug_make_int_type 2 True)
         else if n3 = 0xffffffff then Some (debug_make_int_type 4 True)
         else if b64 \<and> n3 = 0xffffffffffffffff then Some (debug_make_int_type 8 True)
         else None)
      else if n3 = 0 \<and> n2 <s 0 \<and> (self_subrange \<or> n2 = - 8)
      then Some (debug_make_int_type (ucast (- n2)) True)
      else if n2 = - n3 - 1 \<or> n2 = n3 + 1 then
        (if n3 = 0x7f then Some (debug_make_int_type 1 False)
         else if n3 = 0x7fff then Some (debug_make_int_type 2 False)
         else if n3 = 0x7fffffff then Some (debug_make_int_type 4 False)
         else if b64 \<and> n3 = 0x7fffffffffffffff then Some (debug_make_int_type 8 False)
         else None)
      else None)"

text \<open>
  The end of \<open>parse_stab_range_type\<close>, from the test \<open>if (ov2 || ov3)\<close> on: \<open>s2\<close> and \<open>s3\<close>
  are the texts of the two bounds, \<open>pp\<close> the cursor behind them.
\<close>

definition range_finish ::
  "stab_handle \<Rightarrow> string option \<Rightarrow> string \<Rightarrow> cint \<times> cint \<Rightarrow> bool \<Rightarrow> dtype
     \<Rightarrow> string \<Rightarrow> vma \<Rightarrow> bool \<Rightarrow> string \<Rightarrow> vma \<Rightarrow> bool \<Rightarrow> string
     \<Rightarrow> (dtype \<times> string \<times> stab_handle) option" where
  "range_finish s type_name orig rangenums self_subrange index_type s2 n2 ov2 s3 n3 ov3 pp =
     (if (ov2 \<or> ov3) \<and> index_type = None \<and> startswith s2 LLLOW \<and> startswith s3 LLHIGH
      then Some (debug_make_int_type 8 False, pp, s)
      else if (ov2 \<or> ov3) \<and> index_type = None \<and> \<not> ov2 \<and> n2 = 0 \<and> startswith s3 ULLHIGH
      then Some (debug_make_int_type 8 True, pp, s)
      else
        (let s' = (if ov2 \<or> ov3 then report (Warn_stab ''numeric overflow'' orig) s else s)
         in case (if index_type = None
                  then range_builtin (bfd64 s') self_subrange type_name n2 n3 else None) of
              Some t \<Rightarrow> Some (t, pp, s')
            | None \<Rightarrow>
                if self_subrange then Some (None, pp, report (Bad_stab orig) s')
                else (case stab_find_type s' rangenums of
                        None \<Rightarrow> None
                      | Some (None, sf) \<Rightarrow>
                          Some (debug_make_range_type (debug_make_int_type 4 False) n2 n3, pp,
                                report (Warn_stab ''missing index type'' orig) sf)
                      | Some (Some it, sf) \<Rightarrow>
                          Some (debug_make_range_type (Some it) n2 n3, pp, sf))))"

definition parse_stab_range_type ::
  "type_parser \<Rightarrow> stab_handle \<Rightarrow> string option \<Rightarrow> string \<Rightarrow> cint \<times> cint
     \<Rightarrow> (dtype \<times> string \<times> stab_handle) option" where
  "parse_stab_range_type rec s type_name orig typenums =
     (if orig = [] then Some (None, orig, s)
      else
        (let tn = parse_stab_type_number orig;
             s0 = reports (tn_errs tn) s
         in if \<not> tn_ok tn then Some (None, tn_rest tn, s0)
            else
              (let rangenums = tn_nums tn;
                   self_subrange = (fst rangenums = fst typenums \<and> snd rangenums = snd typenums)
               in case (if cur (tn_rest tn) = CHR ''=''
                        then rec s0 orig
                        else Some (None, tn_rest tn, s0)) of
                    None \<Rightarrow> None
                  | Some (index_type, pp1, s1) \<Rightarrow>
                      if cur (tn_rest tn) = CHR ''='' \<and> index_type = None
                      then Some (None, pp1, s1)
                      else
                        (let s2 = (if cur pp1 = CHR '';'' then tl pp1 else pp1);
                             r2 = parse_number s2 True
                         in if cur (nr_rest r2) \<noteq> CHR '';''
                            then Some (None, nr_rest r2, report (Bad_stab orig) s1)
                            else
                              (let s3 = tl (nr_rest r2);
                                   r3 = parse_number s3 True
                               in if cur (nr_rest r3) \<noteq> CHR '';''
                                  then Some (None, nr_rest r3, report (Bad_stab orig) s1)
                                  else range_finish s1 type_name orig rangenums self_subrange
                                         index_type s2 (nr_value r2) (nr_overflow r2)
                                         s3 (nr_value r3) (nr_overflow r3) (tl (nr_rest r3)))))))"

text \<open>
  What the sink answers about a handle.  \<open>debug_get_real_type\<close> looks through names, tags
  and indirect types whose slot is filled; a chain that never ends is answered \<open>NULL\<close>.
\<close>

partial_function (option) debug_get_real_type :: "stab_handle \<Rightarrow> debug_type \<Rightarrow> debug_type option" where
  "debug_get_real_type s t =
     (case t of
        Indirect_type slot tag \<Rightarrow>
          (case slot_get s slot of None \<Rightarrow> Some t | Some t' \<Rightarrow> debug_get_real_type s t')
      | Named_type n t' \<Rightarrow> debug_get_real_type s t'
      | Tagged_type n t' \<Rightarrow> debug_get_real_type s t'
      | _ \<Rightarrow> Some t)"

fun kind_of :: "debug_type \<Rightarrow> debug_type_kind" where
  "kind_of Void_type = DEBUG_KIND_VOID"
| "kind_of (Int_type sz u) = DEBUG_KIND_INT"
| "kind_of (Float_type sz) = DEBUG_KIND_FLOAT"
| "kind_of (Complex_type sz) = DEBUG_KIND_COMPLEX"
| "kind_of (Bool_type sz) = DEBUG_KIND_BOOL"
| "kind_of (Indirect_type slot tag) = DEBUG_KIND_INDIRECT"
| "kind_of (Pointer_type t) = DEBUG_KIND_POINTER"
| "kind_of (Reference_type t) = DEBUG_KIND_REFERENCE"
| "kind_of (Function_type t) = DEBUG_KIND_FUNCTION"
| "kind_of (Const_type t) = DEBUG_KIND_CONST"
| "kind_of (Volatile_type t) = DEBUG_KIND_VOLATILE"
| "kind_of (Offset_type b t) = DEBUG_KIND_OFFSET"
| "kind_of (Method_type r d a v) = DEBUG_KIND_METHOD"
| "kind_of (Range_type t l u) = DEBUG_KIND_RANGE"
| "kind_of (Array_type e r l u st) = DEBUG_KIND_ARRAY"
| "kind_of (Set_type t b) = DEBUG_KIND_SET"
| "kind_of (Enum_type ns vs) = DEBUG_KIND_ENUM"
| "kind_of (Struct_type structp sz fs) = (if structp then DEBUG_KIND_STRUCT else DEBUG_KIND_UNION)"
| "kind_of (Object_type structp sz fs bs ms vp own) =
     (if structp then DEBUG_KIND_CLASS else DEBUG_KIND_UNION_CLASS)"
| "kind_of (Named_type n t) = DEBUG_KIND_NAMED"
| "kind_of (Tagged_type n t) = DEBUG_KIND_TAGGED"

definition debug_get_type_kind :: "stab_handle \<Rightarrow> dtype \<Rightarrow> debug_type_kind" where
  "debug_get_type_kind s t =
     (case t of
        None \<Rightarrow> DEBUG_KIND_ILLEGAL
      | Some ty \<Rightarrow>
          (case debug_get_real_type s ty of
             None \<Rightarrow> DEBUG_KIND_ILLEGAL
           | Some r \<Rightarrow> kind_of r))"

definition debug_get_return_type :: "stab_handle \<Rightarrow> dtype \<Rightarrow> dtype" where
  "debug_get_return_type s t =
     (case t of
        None \<Rightarrow> None
      | Some ty \<Rightarrow>
          (case debug_get_real_type s ty of
             Some (Function_type r) \<Rightarrow> Some r
           | Some (Method_type r d a v) \<Rightarrow> Some r
           | _ \<Rightarrow> None))"

text \<open>\<open>debug_get_parameter_types\<close>: the argument list (\<open>NULL\<close> when there is none).\<close>

definition debug_get_parameter_types :: "stab_handle \<Rightarrow> dtype \<Rightarrow> debug_type list option" where
  "debug_get_parameter_types s t =
     (case t of
        None \<Rightarrow> None
      | Some ty \<Rightarrow>
          (case debug_get_real_type s ty of
             Some (Method_type r d a v) \<Rightarrow> a
           | _ \<Rightarrow> None))"

partial_function (option) get_type_name :: "stab_handle \<Rightarrow> debug_type \<Rightarrow> string option option" where
  "get_type_name s t =
     (case t of
        Indirect_type slot tag \<Rightarrow>
          (case slot_get s slot of None \<Rightarrow> Some tag | Some t' \<Rightarrow> get_type_name s t')
      | Named_type n t' \<Rightarrow> Some (Some n)
      | Tagged_type n t' \<Rightarrow> Some (Some n)
      | _ \<Rightarrow> Some None)"

definition debug_get_type_name :: "stab_handle \<Rightarrow> debug_type \<Rightarrow> string option" where
  "debug_get_type_name s t = (case get_type_name s t of None \<Rightarrow> None | Some r \<Rightarrow> r)"

definition debug_find_tagged_type :: "stab_handle \<Rightarrow> string \<Rightarrow> dtype" where
  "debug_find_tagged_type s name = sink_tags s (sink s) name"

definition debug_find_named_type :: "stab_handle \<Rightarrow> string \<Rightarrow> dtype" where
  "debug_find_named_type s name = sink_names s (sink s) name"

text \<open>
  \<open>debug_tag_type\<close>: a type that is already a tag is handed back under the same name and
  refused under another one.
\<close>

definition debug_tag_type :: "string \<Rightarrow> dtype \<Rightarrow> stab_handle \<Rightarrow> dtype \<times> stab_handle" where
  "debug_tag_type name t s =
     (case t of
        None \<Rightarrow> (None, s)
      | Some (Tagged_type n ty) \<Rightarrow> (if n = name then (Some (Tagged_type n ty), s) else (None, s))
      | Some ty \<Rightarrow>
          (case call_sink (Tag_type name ty) s of
             (True, s') \<Rightarrow> (Some (Tagged_type name ty), s')
           | (False, s') \<Rightarrow> (None, s')))"

text \<open>The search of \<open>stab_find_tagged_type\<close> through the list of undefined tags.\<close>

fun find_tag :: "stab_tag list \<Rightarrow> nat list \<Rightarrow> string \<Rightarrow> nat option" where
  "find_tag cells [] name = None"
| "find_tag cells (t # ts) name =
     (if tag_name (cells ! t) = name then Some t else find_tag cells ts name)"

definition stab_find_tagged_type ::
  "stab_handle \<Rightarrow> string \<Rightarrow> debug_type_kind \<Rightarrow> dtype \<times> stab_handle" where
  "stab_find_tagged_type s name kind =
     (case debug_find_tagged_type s name of
        Some t \<Rightarrow> (Some t, s)
      | None \<Rightarrow>
          (case find_tag (tag_cells s) (tags s) name of
             Some st \<Rightarrow>
               (let cell = tag_cells s ! st;
                    s' = (if tag_kind cell = DEBUG_KIND_ILLEGAL
                          then s\<lparr>tag_cells := (tag_cells s)[st := cell\<lparr>tag_kind := kind\<rparr>]\<rparr>
                          else s)
                in (tag_type cell, s'))
           | None \<Rightarrow>
               (let st = length (tag_cells s);
                    ty = debug_make_indirect_type (Tag_slot st) (Some name);
                    cell = \<lparr>tag_name = name, tag_kind = kind, tag_slot = None, tag_type = ty\<rparr>
                in (ty, s\<lparr>tag_cells := tag_cells s @ [cell], tags := st # tags s\<rparr>))))"

text \<open>\<open>parse_stab_sun_builtin_type\<close> and \<open>parse_stab_sun_floating_type\<close>.\<close>

definition parse_stab_sun_builtin_type :: "stab_handle \<Rightarrow> string \<Rightarrow> dtype \<times> string \<times> stab_handle" where
  "parse_stab_sun_builtin_type s orig =
     (if orig = [] then (None, orig, s)
      else if cur orig \<noteq> CHR ''s'' \<and> cur orig \<noteq> CHR ''u''
      then (None, orig, report (Bad_stab orig) s)
      else
        (let unsignedp = (cur orig = CHR ''u'');
             p0 = tl orig;
             p1 = (if cur p0 = CHR ''c'' \<or> cur p0 = CHR ''b'' \<or> cur p0 = CHR ''v'' then tl p0 else p0);
             r1 = parse_number p1 False;
             s1 = reports (nr_errs r1) s
         in if cur (nr_rest r1) \<noteq> CHR '';'' then (None, nr_rest r1, report (Bad_stab orig) s1)
            else
              (let r2 = parse_number (tl (nr_rest r1)) False;
                   s2 = reports (nr_errs r2) s1
               in if cur (nr_rest r2) \<noteq> CHR '';'' then (None, nr_rest r2, report (Bad_stab orig) s2)
                  else
                    (let r3 = parse_number (tl (nr_rest r2)) False;
                         s3 = reports (nr_errs r3) s2;
                         bits = nr_value r3;
                         p3 = (if cur (nr_rest r3) = CHR '';'' then tl (nr_rest r3) else nr_rest r3)
                     in if bits = 0 then (debug_make_void_type, p3, s3)
                        else (debug_make_int_type (ucast (bits div 8)) unsignedp, p3, s3)))))"

text \<open>\<open>NF_COMPLEX\<close>, \<open>NF_COMPLEX16\<close> and \<open>NF_COMPLEX32\<close> of aout/stab_gnu.h.\<close>

definition NF_COMPLEX :: vma where "NF_COMPLEX = 3"
definition NF_COMPLEX16 :: vma where "NF_COMPLEX16 = 4"
definition NF_COMPLEX32 :: vma where "NF_COMPLEX32 = 5"

definition parse_stab_sun_floating_type :: "stab_handle \<Rightarrow> string \<Rightarrow> dtype \<times> string \<times> stab_handle" where
  "parse_stab_sun_floating_type s orig =
     (if orig = [] then (None, orig, s)
      else
        (let r1 = parse_number orig False;
             s1 = reports (nr_errs r1) s;
             details = nr_value r1
         in if cur (nr_rest r1) \<noteq> CHR '';'' then (None, nr_rest r1, report (Bad_stab orig) s1)
            else
              (let r2 = parse_number (nr_rest r1) False;
                   s2 = reports (nr_errs r2) s1;
                   bytes = nr_value r2
               in if cur (nr_rest r2) \<noteq> CHR '';'' then (None, nr_rest r2, report (Bad_stab orig) s2)
                  else if details = NF_COMPLEX \<or> details = NF_COMPLEX16 \<or> details = NF_COMPLEX32
                  then (debug_make_complex_type (ucast bytes), nr_rest r2, s2)
                  else (debug_make_float_type (ucast bytes), nr_rest r2, s2))))"

text \<open>
  \<open>parse_stab_enum_type\<close>.  \<open>skip_to c p\<close> is the scan \<open>while (*p != c && *p != 0) ++p\<close>;
  every round of the loop over the enumerators moves the cursor, so the text bounds it.
\<close>

fun skip_to :: "char \<Rightarrow> string \<Rightarrow> string" where
  "skip_to c [] = []"
| "skip_to c (x # xs) = (if x = c \<or> x = NUL then x # xs else skip_to c xs)"

text \<open>The text from the cursor \<open>start\<close> up to the cursor \<open>p\<close>: \<open>savestring (start, p - start)\<close>.\<close>

definition savestring :: "string \<Rightarrow> string \<Rightarrow> string" where
  "savestring start p = take (length start - length p) start"

primrec enum_loop ::
  "nat \<Rightarrow> string \<Rightarrow> string \<Rightarrow> string list \<Rightarrow> vma list \<Rightarrow> stab_handle
     \<Rightarrow> (bool \<times> string list \<times> vma list \<times> string \<times> stab_handle) option" where
  "enum_loop 0 orig pp names vals s = None"
| "enum_loop (Suc k) orig pp names vals s =
     (if cur pp \<noteq> NUL \<and> cur pp \<noteq> CHR '';'' \<and> cur pp \<noteq> CHR '',''
      then
        (let p = skip_to CHR '':'' pp
         in if cur p = NUL then Some (False, names, vals, pp, report (Bad_stab orig) s)
            else
              (let name = savestring pp p;
                   r = parse_number (tl p) False;
                   s1 = reports (nr_errs r) s
               in if cur (nr_rest r) \<noteq> CHR '',''
                  then Some (False, names, vals, nr_rest r, report (Bad_stab orig) s1)
                  else enum_loop k orig (tl (nr_rest r)) (names @ [name]) (vals @ [nr_value r]) s1))
      else Some (True, names, vals, pp, s))"

definition debug_make_enum_type :: "string list \<Rightarrow> vma list \<Rightarrow> dtype" where
  "debug_make_enum_type names vals = Some (Enum_type names vals)"

definition parse_stab_enum_type ::
  "stab_handle \<Rightarrow> string \<Rightarrow> (dtype \<times> string \<times> stab_handle) option" where
  "parse_stab_enum_type s orig =
     (if orig = [] then Some (None, orig, s)
      else
        (let p0 = (if cur orig = CHR ''-'' then skip_to CHR '':'' orig else orig)
         in if cur orig = CHR ''-'' \<and> cur p0 = NUL then Some (None, p0, report (Bad_stab orig) s)
            else
              (let p1 = (if cur orig = CHR ''-'' then tl p0 else p0)
               in case enum_loop (Suc (length p1)) orig p1 [] [] s of
                    None \<Rightarrow> None
                  | Some (False, names, vals, p2, s2) \<Rightarrow> Some (None, p2, s2)
                  | Some (True, names, vals, p2, s2) \<Rightarrow>
                      Some (debug_make_enum_type names vals,
                            (if cur p2 = CHR '';'' then tl p2 else p2), s2))))"

text \<open>\<open>parse_stab_array_type\<close>.\<close>

definition parse_stab_array_type ::
  "type_parser \<Rightarrow> stab_handle \<Rightarrow> string \<Rightarrow> bool \<Rightarrow> (dtype \<times> string \<times> stab_handle) option" where
  "parse_stab_array_type rec s orig stringp =
     (if orig = [] then Some (None, orig, s)
      else
        (let tn = parse_stab_type_number orig;
             s0 = reports (tn_errs tn) s
         in if \<not> tn_ok tn then Some (None, orig, s0)
            else
              (case (if fst (tn_nums tn) = 0 \<and> snd (tn_nums tn) = 0 \<and> cur orig \<noteq> CHR ''=''
                     then (case debug_find_named_type s0 ''int'' of
                             None \<Rightarrow> Some (debug_make_int_type 4 False, tn_rest tn, s0)
                           | Some it \<Rightarrow> Some (Some it, tn_rest tn, s0))
                     else rec s0 orig) of
                 None \<Rightarrow> None
               | Some (index_type, p1, s1) \<Rightarrow>
                   if cur p1 \<noteq> CHR '';'' then Some (None, p1, report (Bad_stab orig) s1)
                   else
                     (let p2 = tl p1;
                          adj1 = (\<not> ISDIGIT (cur p2) \<and> cur p2 \<noteq> CHR ''-'' \<and> cur p2 \<noteq> NUL);
                          r1 = parse_number (if adj1 then tl p2 else p2) False;
                          s2 = reports (nr_errs r1) s1
                      in if cur (nr_rest r1) \<noteq> CHR '';''
                         then Some (None, nr_rest r1, report (Bad_stab orig) s2)
                         else
                           (let p3 = tl (nr_rest r1);
                                adj2 = (\<not> ISDIGIT (cur p3) \<and> cur p3 \<noteq> CHR ''-'' \<and> cur p3 \<noteq> NUL);
                                r2 = parse_number (if adj2 then tl p3 else p3) False;
                                s3 = reports (nr_errs r2) s2
                            in if cur (nr_rest r2) \<noteq> CHR '';''
                               then Some (None, nr_rest r2, report (Bad_stab orig) s3)
                               else
                                 (case rec s3 (tl (nr_rest r2)) of
                                    None \<Rightarrow> None
                                  | Some (None, p4, s4) \<Rightarrow> Some (None, p4, s4)
                                  | Some (Some et, p4, s4) \<Rightarrow>
                                      Some (debug_make_array_type (Some et) index_type
                                              (if adj1 \<or> adj2 then 0 else nr_value r1)
                                              (if adj1 \<or> adj2 then - 1 else nr_value r2)
                                              stringp, p4, s4)))))))"

section \<open>The legacy demangler\<close>

text \<open>
  \<open>struct stab_demangle_info\<close>: the argument types found so far, the varargs flag and the
  remembered type strings.
\<close>

record demangle_info =
  mi_args :: "debug_type list option"
  mi_varargs :: bool
  mi_typestrings :: "(string \<times> cint) list"

text \<open>
  The entry of the demangler (\<open>stab_demangle_argtypes\<close>, \<open>stab_demangle_prefix\<close>,
  \<open>stab_demangle_function_name\<close>, \<open>stab_demangle_signature\<close>, \<open>stab_demangle_class\<close>) is
  modelled; the procedures below it, and the walk over the component tree of the V3
  demangling library, are parameters.  Each takes the handle, the demangling state and
  the cursor, and returns its success, the cursor and the two states.
\<close>

type_synonym demangle_step =
  "stab_handle \<Rightarrow> demangle_info \<Rightarrow> string \<Rightarrow> bool \<times> string \<times> demangle_info \<times> stab_handle"

record demangler =
  dm_v3_argtypes :: "stab_handle \<Rightarrow> string \<Rightarrow> (debug_type list \<times> bool) option \<times> stab_handle"
  dm_type :: demangle_step
  dm_qualified :: demangle_step
  dm_template :: demangle_step
  dm_args :: demangle_step

definition stab_bad_demangle :: "string \<Rightarrow> stab_handle \<Rightarrow> stab_handle" where
  "stab_bad_demangle n s = report (Bad_demangle n) s"

fun stab_demangle_count :: "cint \<Rightarrow> string \<Rightarrow> cint \<times> string" where
  "stab_demangle_count count [] = (count, [])"
| "stab_demangle_count count (c # cs) =
     (if ISDIGIT c then stab_demangle_count (count * 10 + (of_char c - 48)) cs
      else (count, c # cs))"

definition stab_demangle_class :: demangle_step where
  "stab_demangle_class s mi orig =
     (case stab_demangle_count 0 orig of
        (n, pp) \<Rightarrow>
          if length pp < unat n then (False, pp, mi, stab_bad_demangle orig s)
          else (True, drop (unat n) pp, mi, s))"

definition stab_demangle_remember_type :: "demangle_info \<Rightarrow> string \<Rightarrow> nat \<Rightarrow> demangle_info" where
  "stab_demangle_remember_type mi p len =
     mi\<lparr>mi_typestrings := mi_typestrings mi @ [(p, of_nat len)]\<rparr>"

text \<open>The first \<open>__\<close> of a text (the \<open>strchr\<close> loop of the prefix, and \<open>strstr (scan, "__")\<close>).\<close>

fun find_dunder :: "string \<Rightarrow> string option" where
  "find_dunder [] = None"
| "find_dunder (c # cs) =
     (if c = CHR ''_'' \<and> cur cs = CHR ''_'' then Some (c # cs) else find_dunder cs)"

definition stab_demangle_function_name ::
  "demangler \<Rightarrow> stab_handle \<Rightarrow> demangle_info \<Rightarrow> string \<Rightarrow> string
     \<Rightarrow> bool \<times> string \<times> demangle_info \<times> stab_handle" where
  "stab_demangle_function_name dm s mi name scan =
     (let pp = drop 2 scan
      in if 5 \<le> length name - length pp \<and> startswith name ''type''
            \<and> (cur (drop 4 name) = CHR ''$'' \<or> cur (drop 4 name) = CHR ''.'')
         then (case dm_type dm s mi (drop 5 name) of
                 (ok, tem, mi', s') \<Rightarrow> (ok, pp, mi', s'))
         else if cur name = CHR ''_'' \<and> cur (drop 1 name) = CHR ''_''
                 \<and> cur (drop 2 name) = CHR ''o'' \<and> cur (drop 3 name) = CHR ''p''
         then (case dm_type dm s mi (drop 4 name) of
                 (ok, tem, mi', s') \<Rightarrow> (ok, pp, mi', s'))
         else (True, pp, mi, s))"

definition stab_demangle_prefix ::
  "demangler \<Rightarrow> stab_handle \<Rightarrow> demangle_info \<Rightarrow> string \<Rightarrow> nat
     \<Rightarrow> bool \<times> string \<times> demangle_info \<times> stab_handle" where
  "stab_demangle_prefix dm s mi pp physname_len =
     (case (if physname_len \<noteq> 0 then Some (drop physname_len pp)
            else (case find_dunder pp of
                    None \<Rightarrow> None
                  | Some sc \<Rightarrow>
                      (let i = length (takeWhile (\<lambda>c. c = CHR ''_'') sc)
                       in Some (if 2 < i then drop (i - 2) sc else sc)))) of
        None \<Rightarrow> (False, pp, mi, stab_bad_demangle pp s)
      | Some scan \<Rightarrow>
          if length scan = length pp
             \<and> (ISDIGIT (cur (drop 2 scan)) \<or> cur (drop 2 scan) = CHR ''Q''
                 \<or> cur (drop 2 scan) = CHR ''t'')
          then (True, drop 2 scan, mi, s)
          else if length scan = length pp
                  \<and> \<not> ISDIGIT (cur (drop 2 scan)) \<and> cur (drop 2 scan) \<noteq> CHR ''t''
          then (case find_dunder (dropWhile (\<lambda>c. c = CHR ''_'') scan) of
                  None \<Rightarrow> (False, pp, mi, stab_bad_demangle pp s)
                | Some sc \<Rightarrow>
                    if cur (drop 2 sc) = NUL then (False, pp, mi, stab_bad_demangle pp s)
                    else stab_demangle_function_name dm s mi pp sc)
          else if cur (drop 2 scan) \<noteq> NUL
          then stab_demangle_function_name dm s mi pp scan
          else (False, pp, mi, stab_bad_demangle pp s))"

text \<open>
  The loop of \<open>stab_demangle_signature\<close>.  Its steps are the parameters above, so it runs
  on fuel.  \<open>hold\<close> is the start of the type being remembered, if any.
\<close>

definition then_remember ::
  "string \<Rightarrow> bool \<times> string \<times> demangle_info \<times> stab_handle
     \<Rightarrow> bool \<times> string \<times> demangle_info \<times> stab_handle" where
  "then_remember hold r =
     (case r of
        (False, pp, mi, s) \<Rightarrow> (False, pp, mi, s)
      | (True, pp, mi, s) \<Rightarrow>
          (True, pp, stab_demangle_remember_type mi hold (length hold - length pp), s))"

primrec signature_loop ::
  "nat \<Rightarrow> demangler \<Rightarrow> string \<Rightarrow> stab_handle \<Rightarrow> demangle_info \<Rightarrow> string \<Rightarrow> string option
     \<Rightarrow> bool \<Rightarrow> bool \<Rightarrow> (bool \<times> string \<times> demangle_info \<times> stab_handle) option" where
  "signature_loop 0 dm orig s mi pp hold expect_func func_done = None"
| "signature_loop (Suc k) dm orig s mi pp hold expect_func func_done =
     (if cur pp = NUL
      then (if \<not> func_done then Some (dm_args dm s mi pp) else Some (True, pp, mi, s))
      else
        (let c = cur pp;
             hold' = (case hold of None \<Rightarrow> pp | Some h \<Rightarrow> h);
             step =
               (if c = CHR ''Q''
                then (then_remember pp (dm_qualified dm s mi pp), None, True, func_done)
                else if c = CHR ''S'' \<or> c = CHR ''C''
                then ((True, tl pp, mi, s), Some hold', expect_func, func_done)
                else if ISDIGIT c
                then (then_remember hold' (stab_demangle_class s mi pp), None, True, func_done)
                else if c = CHR ''F''
                then (dm_args dm s mi (tl pp), None, expect_func, True)
                else if c = CHR ''t''
                then (then_remember hold' (dm_template dm s mi pp), None, True, func_done)
                else if c = CHR ''_''
                then ((False, pp, mi, stab_bad_demangle orig s), hold, expect_func, func_done)
                else (dm_args dm s mi pp, hold, expect_func, True))
         in case step of
              ((False, pp1, mi1, s1), h1, e1, f1) \<Rightarrow> Some (False, pp1, mi1, s1)
            | ((True, pp1, mi1, s1), h1, e1, f1) \<Rightarrow>
                if e1
                then (case dm_args dm s1 mi1 pp1 of
                        (False, pp2, mi2, s2) \<Rightarrow> Some (False, pp2, mi2, s2)
                      | (True, pp2, mi2, s2) \<Rightarrow> signature_loop k dm orig s2 mi2 pp2 h1 e1 True)
                else signature_loop k dm orig s1 mi1 pp1 h1 e1 f1))"

definition stab_demangle_signature ::
  "nat \<Rightarrow> demangler \<Rightarrow> stab_handle \<Rightarrow> demangle_info \<Rightarrow> string
     \<Rightarrow> (bool \<times> string \<times> demangle_info \<times> stab_handle) option" where
  "stab_demangle_signature fuel dm s mi pp = signature_loop fuel dm pp s mi pp None False False"

text \<open>
  \<open>stab_demangle_argtypes\<close>: the argument types and the varargs flag, or \<open>NULL\<close>.  The
  signature loop gets one round per character of the name and one more.
\<close>

definition stab_demangle_argtypes ::
  "demangler \<Rightarrow> stab_handle \<Rightarrow> string \<Rightarrow> nat
     \<Rightarrow> ((debug_type list \<times> bool) option \<times> stab_handle) option" where
  "stab_demangle_argtypes dm s physname physname_len =
     (if cur physname = CHR ''_'' \<and> cur (drop 1 physname) = CHR ''Z''
      then Some (dm_v3_argtypes dm s physname)
      else
        (let mi = \<lparr>mi_args = None, mi_varargs = False, mi_typestrings = []\<rparr>
         in case stab_demangle_prefix dm s mi physname physname_len of
              (False, pp, mi1, s1) \<Rightarrow> Some (None, s1)
            | (True, pp, mi1, s1) \<Rightarrow>
                (case (if cur pp \<noteq> NUL
                       then stab_demangle_signature (Suc (length pp)) dm s1 mi1 pp
                       else Some (True, pp, mi1, s1)) of
                   None \<Rightarrow> None
                 | Some (False, pp2, mi2, s2) \<Rightarrow> Some (None, s2)
                 | Some (True, pp2, mi2, s2) \<Rightarrow>
                     (case mi_args mi2 of
                        None \<Rightarrow>
                          Some (None, report (Message ''no argument types in mangled string'') s2)
                      | Some args \<Rightarrow> Some (Some (args, mi_varargs mi2), s2)))))"

section \<open>The aggregate parser\<close>

text \<open>The digits that \<open>sprintf ("%d")\<close> prints for a length.\<close>

primrec decimal_digits :: "nat \<Rightarrow> nat \<Rightarrow> string" where
  "decimal_digits 0 n = []"
| "decimal_digits (Suc k) n =
     (if n < 10 then [char_of (48 + n)]
      else decimal_digits k (n div 10) @ [char_of (48 + n mod 10)])"

definition decimal :: "nat \<Rightarrow> string" where
  "decimal n = decimal_digits (Suc n) n"

definition debug_make_field ::
  "string \<Rightarrow> dtype \<Rightarrow> vma \<Rightarrow> vma \<Rightarrow> debug_visibility \<Rightarrow> debug_field option" where
  "debug_make_field name t bitpos bitsize visibility =
     map_option (\<lambda>ty. Field name ty bitpos bitsize visibility) t"

definition debug_make_static_member ::
  "string \<Rightarrow> dtype \<Rightarrow> string \<Rightarrow> debug_visibility \<Rightarrow> debug_field option" where
  "debug_make_static_member name t physname visibility =
     map_option (\<lambda>ty. Static_member name ty physname visibility) t"

definition debug_make_struct_type :: "bool \<Rightarrow> vma \<Rightarrow> debug_field list \<Rightarrow> dtype" where
  "debug_make_struct_type structp sz flds = Some (Struct_type structp sz flds)"

definition debug_make_object_type ::
  "bool \<Rightarrow> vma \<Rightarrow> debug_field list \<Rightarrow> debug_baseclass list option \<Rightarrow> debug_method list option
     \<Rightarrow> dtype \<Rightarrow> bool \<Rightarrow> dtype" where
  "debug_make_object_type structp sz flds baseclasses methods vptrbase ownvptr =
     Some (Object_type structp sz flds baseclasses methods vptrbase ownvptr)"

text \<open>
  \<open>parse_stab_argtypes\<close>: the method type of a stub, rebuilt from the mangled argument
  types, and the physical name.  \<open>NULL\<close> when the demangler gives no argument list.
\<close>

definition parse_stab_argtypes ::
  "demangler \<Rightarrow> stab_handle \<Rightarrow> dtype \<Rightarrow> string \<Rightarrow> string option \<Rightarrow> dtype \<Rightarrow> string
     \<Rightarrow> bool \<Rightarrow> bool \<Rightarrow> string \<Rightarrow> (dtype \<times> string \<times> stab_handle) option" where
  "parse_stab_argtypes dm s class_type fieldname tagname0 return_type argtypes constp volatilep
       physname0 =
     (let is_full_physname_constructor =
            ((cur argtypes = CHR ''_'' \<and> cur (drop 1 argtypes) = CHR ''_''
              \<and> (ISDIGIT (cur (drop 2 argtypes)) \<or> cur (drop 2 argtypes) = CHR ''Q''
                  \<or> cur (drop 2 argtypes) = CHR ''t''))
             \<or> startswith argtypes ''__ct'');
          is_constructor = (is_full_physname_constructor \<or> tagname0 = Some fieldname);
          is_destructor =
            ((cur argtypes = CHR ''_''
              \<and> (cur (drop 1 argtypes) = CHR ''$'' \<or> cur (drop 1 argtypes) = CHR ''.'')
              \<and> cur (drop 2 argtypes) = CHR ''_'')
             \<or> startswith argtypes ''__dt'');
          is_v3 = (cur argtypes = CHR ''_'' \<and> cur (drop 1 argtypes) = CHR ''Z'');
          mangle = \<not> (is_destructor \<or> is_full_physname_constructor \<or> is_v3);
          len = (case tagname0 of None \<Rightarrow> 0 | Some t \<Rightarrow> length t);
          template = (len \<noteq> 0 \<and> (case tagname0 of None \<Rightarrow> False | Some t \<Rightarrow> CHR ''<'' \<in> set t));
          buf = ''__'' @ (if constp then ''C'' else []) @ (if volatilep then ''V'' else [])
                @ (if len = 0 \<or> template then [] else decimal len);
          tagname = (if template then None else tagname0);
          prefix = (if is_constructor then [] else fieldname);
          physname = (if mangle
                      then prefix @ buf @ (case tagname of None \<Rightarrow> [] | Some t \<Rightarrow> t) @ argtypes
                      else physname0);
          physname_len = (if mangle then length prefix else 0)
      in if mangle \<and> cur fieldname = CHR ''o'' \<and> cur (drop 1 fieldname) = CHR ''p''
            \<and> (cur (drop 2 fieldname) = CHR ''$'' \<or> cur (drop 2 fieldname) = CHR ''.'')
         then Some (None, physname0, s)
         else if cur argtypes = NUL \<or> is_destructor
         then Some (debug_make_method_type return_type class_type (Some []) False, physname, s)
         else (case stab_demangle_argtypes dm s physname physname_len of
                 None \<Rightarrow> None
               | Some (None, s') \<Rightarrow> Some (None, physname, s')
               | Some (Some (args, varargs), s') \<Rightarrow>
                   Some (debug_make_method_type return_type class_type (Some args) varargs,
                         physname, s')))"

text \<open>
  One variant of a method.  \<open>variant_type\<close> takes its type, read ahead by the variant before
  it or parsed now and followed by \<open>:\<close>.  \<open>variant_head\<close> reads from that \<open>:\<close> to the end of
  the variant: the mangled argument types, the visibility, the qualifiers and the kind of
  dispatch.  \<open>variant_finish\<close> completes the type of a stub and makes the variant.  Each
  result is \<open>None\<close> inside for \<open>goto fail\<close>.
\<close>

record variant_parts =
  vp_argtypes :: string
  vp_stub :: bool
  vp_visibility :: debug_visibility
  vp_constp :: bool
  vp_volatilep :: bool
  vp_staticp :: bool
  vp_voffset :: vma
  vp_context :: dtype
  vp_look_ahead :: dtype

definition variant_type ::
  "type_parser \<Rightarrow> stab_handle \<Rightarrow> string \<Rightarrow> string \<Rightarrow> dtype
     \<Rightarrow> (dtype \<times> string \<times> stab_handle) option" where
  "variant_type rec s orig pp look_ahead =
     (case look_ahead of
        Some t \<Rightarrow> Some (Some t, pp, s)
      | None \<Rightarrow>
          (case rec s pp of
             None \<Rightarrow> None
           | Some (None, p, s1) \<Rightarrow> Some (None, p, s1)
           | Some (Some t, p, s1) \<Rightarrow>
               if cur p \<noteq> CHR '':'' then Some (None, p, report (Bad_stab orig) s1)
               else Some (Some t, p, s1)))"

definition variant_head ::
  "type_parser \<Rightarrow> stab_handle \<Rightarrow> string \<Rightarrow> string \<Rightarrow> debug_type \<Rightarrow> string
     \<Rightarrow> (variant_parts option \<times> string \<times> stab_handle) option" where
  "variant_head rec s orig name ty pp0 =
     (let pp1 = tl pp0
      in case strchr pp1 CHR '';'' of
           None \<Rightarrow> Some (None, pp1, report (Bad_stab orig) s)
         | Some p \<Rightarrow>
             (let stub = (debug_get_type_kind s (Some ty) = DEBUG_KIND_METHOD
                          \<and> debug_get_parameter_types s (Some ty) = None);
                  argtypes = savestring pp1 p;
                  pp2 = tl p
              in if cur pp2 = NUL then Some (None, pp2, report (Bad_stab orig) s)
                 else
                   (let visibility = (if cur pp2 = CHR ''0'' then DEBUG_VISIBILITY_PRIVATE
                                      else if cur pp2 = CHR ''1'' then DEBUG_VISIBILITY_PROTECTED
                                      else DEBUG_VISIBILITY_PUBLIC);
                        pp3 = tl pp2;
                        c = cur pp3;
                        letter = (c = CHR ''A'' \<or> c = CHR ''B'' \<or> c = CHR ''C'' \<or> c = CHR ''D'');
                        pp4 = (if letter then tl pp3 else pp3);
                        s4 = (if letter \<or> c = CHR ''*'' \<or> c = CHR ''?'' \<or> c = CHR ''.'' then s
                              else report (Warn_stab ''const/volatile indicator missing'' orig) s);
                        parts = \<lparr>vp_argtypes = argtypes, vp_stub = stub,
                                 vp_visibility = visibility,
                                 vp_constp = (c = CHR ''B'' \<or> c = CHR ''D''),
                                 vp_volatilep = (c = CHR ''C'' \<or> c = CHR ''D''),
                                 vp_staticp = False, vp_voffset = 0, vp_context = None,
                                 vp_look_ahead = None\<rparr>
                    in if cur pp4 = CHR ''*''
                       then
                         (let r = parse_number (tl pp4) False;
                              s5 = reports (nr_errs r) s4
                          in if cur (nr_rest r) \<noteq> CHR '';''
                             then Some (None, nr_rest r, report (Bad_stab orig) s5)
                             else
                               (let pp5 = tl (nr_rest r);
                                    virt = parts\<lparr>vp_voffset := nr_value r AND 0x7fffffff\<rparr>
                                in if cur pp5 = CHR '';'' \<or> cur pp5 = NUL
                                   then Some (Some virt, pp5, s5)
                                   else
                                     (case rec s5 pp5 of
                                        None \<Rightarrow> None
                                      | Some (la, pp6, s6) \<Rightarrow>
                                          if cur pp6 = CHR '':''
                                          then Some (Some (virt\<lparr>vp_look_ahead := la\<rparr>), pp6, s6)
                                          else if cur pp6 \<noteq> CHR '';''
                                          then Some (None, pp6, report (Bad_stab orig) s6)
                                          else Some (Some (virt\<lparr>vp_context := la\<rparr>), tl pp6, s6))))
                       else if cur pp4 = CHR ''?''
                       then Some (Some (parts\<lparr>vp_staticp := True,
                                              vp_stub := (stub \<or> \<not> startswith argtypes name)\<rparr>),
                                  tl pp4, s4)
                       else if cur pp4 = CHR ''.'' then Some (Some parts, tl pp4, s4)
                       else Some (Some parts, pp4,
                                  report (Warn_stab ''member function type missing'' orig) s4))))"

definition variant_finish ::
  "demangler \<Rightarrow> stab_handle \<Rightarrow> string \<Rightarrow> string \<Rightarrow> string option \<Rightarrow> cint \<times> cint
     \<Rightarrow> debug_type \<Rightarrow> variant_parts \<Rightarrow> (debug_method_variant option \<times> stab_handle) option" where
  "variant_finish dm s orig name tagname typenums ty h =
     (case (if vp_stub h
            then (case stab_find_type s typenums of
                    None \<Rightarrow> None
                  | Some (None, s1) \<Rightarrow> Some (None, vp_argtypes h, s1)
                  | Some (Some class_type, s1) \<Rightarrow>
                      (case debug_get_return_type s1 (Some ty) of
                         None \<Rightarrow> Some (None, vp_argtypes h, report (Bad_stab orig) s1)
                       | Some return_type \<Rightarrow>
                           parse_stab_argtypes dm s1 (Some class_type) name tagname
                             (Some return_type) (vp_argtypes h) (vp_constp h) (vp_volatilep h)
                             (vp_argtypes h)))
            else Some (Some ty, vp_argtypes h, s)) of
        None \<Rightarrow> None
      | Some (None, physname, s2) \<Rightarrow> Some (None, s2)
      | Some (Some ty', physname, s2) \<Rightarrow>
          Some (Some (if \<not> vp_staticp h
                      then Method_variant physname ty' (vp_visibility h) (vp_constp h)
                             (vp_volatilep h) (vp_voffset h) (vp_context h)
                      else Static_method_variant physname ty' (vp_visibility h) (vp_constp h)
                             (vp_volatilep h)), s2))"

text \<open>The \<open>do ... while\<close> loop over the variants of one method name.\<close>

primrec variant_loop ::
  "nat \<Rightarrow> type_parser \<Rightarrow> demangler \<Rightarrow> stab_handle \<Rightarrow> string \<Rightarrow> string \<Rightarrow> string option
     \<Rightarrow> cint \<times> cint \<Rightarrow> string \<Rightarrow> dtype \<Rightarrow> debug_method_variant list
     \<Rightarrow> (debug_method_variant list option \<times> string \<times> stab_handle) option" where
  "variant_loop 0 rec dm s orig name tagname typenums pp look_ahead variants = None"
| "variant_loop (Suc k) rec dm s orig name tagname typenums pp look_ahead variants =
     (case variant_type rec s orig pp look_ahead of
        None \<Rightarrow> None
      | Some (None, p, s1) \<Rightarrow> Some (None, p, s1)
      | Some (Some ty, p, s1) \<Rightarrow>
          (case variant_head rec s1 orig name ty p of
             None \<Rightarrow> None
           | Some (None, p2, s2) \<Rightarrow> Some (None, p2, s2)
           | Some (Some h, p2, s2) \<Rightarrow>
               (case variant_finish dm s2 orig name tagname typenums ty h of
                  None \<Rightarrow> None
                | Some (None, s3) \<Rightarrow> Some (None, p2, s3)
                | Some (Some v, s3) \<Rightarrow>
                    if cur p2 \<noteq> CHR '';'' \<and> cur p2 \<noteq> NUL
                    then variant_loop k rec dm s3 orig name tagname typenums p2 (vp_look_ahead h)
                           (variants @ [v])
                    else Some (Some (variants @ [v]), p2, s3))))"

text \<open>The loop of \<open>parse_stab_members\<close> over the method names.\<close>

primrec member_loop ::
  "nat \<Rightarrow> type_parser \<Rightarrow> demangler \<Rightarrow> stab_handle \<Rightarrow> string \<Rightarrow> string option
     \<Rightarrow> cint \<times> cint \<Rightarrow> string \<Rightarrow> debug_method list
     \<Rightarrow> (debug_method list option \<times> string \<times> stab_handle) option" where
  "member_loop 0 rec dm s orig tagname typenums pp methods = None"
| "member_loop (Suc k) rec dm s orig tagname typenums pp methods =
     (if cur pp = CHR '';'' then Some (Some methods, pp, s)
      else
        (case strchr pp CHR '':'' of
           None \<Rightarrow> Some (Some methods, pp, s)
         | Some p \<Rightarrow>
             if cur (tl p) \<noteq> CHR '':'' then Some (Some methods, pp, s)
             else
               (case (if cur pp \<noteq> CHR ''o'' \<or> cur (drop 1 pp) \<noteq> CHR ''p''
                         \<or> cur (drop 2 pp) \<noteq> CHR ''$''
                      then Some (savestring pp p, drop 2 p)
                      else (let q = skip_to CHR ''.'' (drop 2 p)
                            in if cur q \<noteq> CHR ''.'' then None
                               else Some (savestring (drop 2 p) q, tl q))) of
                  None \<Rightarrow> Some (None, drop 2 p, report (Bad_stab orig) s)
                | Some (name, pp1) \<Rightarrow>
                    (case variant_loop (Suc (length pp1)) rec dm s orig name tagname typenums
                            pp1 None [] of
                       None \<Rightarrow> None
                     | Some (None, pp2, s2) \<Rightarrow> Some (None, pp2, s2)
                     | Some (Some variants, pp2, s2) \<Rightarrow>
                         member_loop k rec dm s2 orig tagname typenums
                           (if cur pp2 \<noteq> NUL then tl pp2 else pp2)
                           (methods @ [Method name variants])))))"

text \<open>
  \<open>parse_stab_members\<close>: success and the method list (\<open>NULL\<close> when there is no method), or
  failure.
\<close>

definition parse_stab_members ::
  "type_parser \<Rightarrow> demangler \<Rightarrow> stab_handle \<Rightarrow> string option \<Rightarrow> string \<Rightarrow> cint \<times> cint
     \<Rightarrow> (bool \<times> debug_method list option \<times> string \<times> stab_handle) option" where
  "parse_stab_members rec dm s tagname orig typenums =
     (if orig = [] then Some (False, None, orig, s)
      else (case member_loop (Suc (length orig)) rec dm s orig tagname typenums orig [] of
              None \<Rightarrow> None
            | Some (None, pp, s') \<Rightarrow> Some (False, None, pp, s')
            | Some (Some methods, pp, s') \<Rightarrow>
                Some (True, (if methods = [] then None else Some methods), pp, s')))"

text \<open>
  \<open>parse_stab_baseclasses\<close>.  The loop runs \<open>c\<close> times, \<open>c\<close> being the count read behind the
  \<open>!\<close>; the result is \<open>NULL\<close> without base class information.
\<close>

definition debug_make_baseclass ::
  "debug_type \<Rightarrow> vma \<Rightarrow> bool \<Rightarrow> debug_visibility \<Rightarrow> debug_baseclass" where
  "debug_make_baseclass t bitpos is_virtual visibility = Baseclass t bitpos is_virtual visibility"

primrec baseclass_loop ::
  "nat \<Rightarrow> type_parser \<Rightarrow> stab_handle \<Rightarrow> string \<Rightarrow> string \<Rightarrow> debug_baseclass list
     \<Rightarrow> (debug_baseclass list option \<times> string \<times> stab_handle) option" where
  "baseclass_loop 0 rec s orig pp classes = Some (Some classes, pp, s)"
| "baseclass_loop (Suc k) rec s orig pp classes =
     (if cur pp = NUL then Some (None, pp, report (Bad_stab orig) s)
      else
        (let is_virtual = (cur pp = CHR ''1'');
             s1 = (if cur pp = CHR ''0'' \<or> cur pp = CHR ''1'' then s
                   else report (Warn_stab ''unknown virtual character for baseclass'' orig) s);
             pp1 = tl pp
         in if cur pp1 = NUL then Some (None, pp1, report (Bad_stab orig) s1)
            else
              (let visibility = (if cur pp1 = CHR ''0'' then DEBUG_VISIBILITY_PRIVATE
                                 else if cur pp1 = CHR ''1'' then DEBUG_VISIBILITY_PROTECTED
                                 else DEBUG_VISIBILITY_PUBLIC);
                   s2 = (if cur pp1 = CHR ''0'' \<or> cur pp1 = CHR ''1'' \<or> cur pp1 = CHR ''2'' then s1
                         else report (Warn_stab ''unknown visibility character for baseclass'' orig) s1);
                   r = parse_number (tl pp1) False;
                   s3 = reports (nr_errs r) s2
               in if cur (nr_rest r) \<noteq> CHR '',''
                  then Some (None, nr_rest r, report (Bad_stab orig) s3)
                  else
                    (case rec s3 (tl (nr_rest r)) of
                       None \<Rightarrow> None
                     | Some (None, pp4, s4) \<Rightarrow> Some (None, pp4, s4)
                     | Some (Some ty, pp4, s4) \<Rightarrow>
                         if cur pp4 \<noteq> CHR '';'' then Some (None, pp4, s4)
                         else baseclass_loop k rec s4 orig (tl pp4)
                                (classes @ [debug_make_baseclass ty (nr_value r) is_virtual
                                              visibility])))))"

definition parse_stab_baseclasses ::
  "type_parser \<Rightarrow> stab_handle \<Rightarrow> string
     \<Rightarrow> (bool \<times> debug_baseclass list option \<times> string \<times> stab_handle) option" where
  "parse_stab_baseclasses rec s orig =
     (if orig = [] then Some (False, None, orig, s)
      else if cur orig \<noteq> CHR ''!'' then Some (True, None, orig, s)
      else
        (let r = parse_number (tl orig) False;
             s1 = reports (nr_errs r) s;
             c = (ucast (nr_value r) :: cint)
         in if cur (nr_rest r) \<noteq> CHR '',''
            then Some (False, None, nr_rest r, report (Bad_stab orig) s1)
            else (case baseclass_loop (unat c) rec s1 orig (tl (nr_rest r)) [] of
                    None \<Rightarrow> None
                  | Some (None, pp, s2) \<Rightarrow> Some (False, None, pp, s2)
                  | Some (Some classes, pp, s2) \<Rightarrow> Some (True, Some classes, pp, s2))))"

text \<open>\<open>parse_stab_cpp_abbrev\<close>: a field written with the C++ marker, entered behind the marker.\<close>

definition parse_stab_cpp_abbrev ::
  "type_parser \<Rightarrow> stab_handle \<Rightarrow> string \<Rightarrow> (debug_field option \<times> string \<times> stab_handle) option" where
  "parse_stab_cpp_abbrev rec s orig =
     (if orig = [] then Some (None, orig, s)
      else if cur orig \<noteq> CHR ''v'' then Some (None, orig, report (Bad_stab orig) s)
      else if cur (tl orig) = NUL then Some (None, tl orig, report (Bad_stab orig) s)
      else
        (let cpp_abbrev = cur (tl orig)
         in case rec s (tl (tl orig)) of
              None \<Rightarrow> None
            | Some (None, pp1, s1) \<Rightarrow> Some (None, pp1, s1)
            | Some (Some context, pp1, s1) \<Rightarrow>
                (let named = debug_get_type_name s1 context;
                     name = (if cpp_abbrev = CHR ''f'' then ''_vptr$''
                             else if cpp_abbrev = CHR ''b''
                             then ''_vb$'' @ (case named of None \<Rightarrow> ''FOO'' | Some n \<Rightarrow> n)
                             else ''INVALID_CPLUSPLUS_ABBREV'');
                     s2 = (if cpp_abbrev = CHR ''f'' then s1
                           else if cpp_abbrev = CHR ''b''
                           then (if named = None then report (Warn_stab ''unnamed $vb type'' orig) s1
                                 else s1)
                           else report (Warn_stab ''unrecognized C++ abbreviation'' orig) s1)
                 in if cur pp1 \<noteq> CHR '':'' then Some (None, pp1, report (Bad_stab orig) s2)
                    else
                      (case rec s2 (tl pp1) of
                         None \<Rightarrow> None
                       | Some (ty, pp2, s3) \<Rightarrow>
                           if cur pp2 \<noteq> CHR '','' then Some (None, pp2, report (Bad_stab orig) s3)
                           else
                             (let r = parse_number (tl pp2) False;
                                  s4 = reports (nr_errs r) s3
                              in if cur (nr_rest r) \<noteq> CHR '';''
                                 then Some (None, nr_rest r, report (Bad_stab orig) s4)
                                 else Some (debug_make_field name ty (nr_value r) 0
                                              DEBUG_VISIBILITY_PRIVATE, tl (nr_rest r), s4))))))"

text \<open>
  \<open>parse_stab_one_struct_field\<close>: \<open>p\<close> is the \<open>:\<close> behind the name.  The result is the field
  and whether it is a static member, or \<open>None\<close> for failure.
\<close>

definition parse_stab_one_struct_field ::
  "type_parser \<Rightarrow> stab_handle \<Rightarrow> string \<Rightarrow> string
     \<Rightarrow> ((debug_field \<times> bool) option \<times> string \<times> stab_handle) option" where
  "parse_stab_one_struct_field rec s orig p =
     (if orig = [] then Some (None, orig, s)
      else
        (let name = savestring orig p;
             pp0 = tl p
         in if cur pp0 = CHR ''/'' \<and> cur (tl pp0) = NUL
            then Some (None, tl pp0, report (Bad_stab orig) s)
            else
              (let c = cur (tl pp0);
                   visibility = (if cur pp0 \<noteq> CHR ''/'' then DEBUG_VISIBILITY_PUBLIC
                                 else if c = CHR ''0'' then DEBUG_VISIBILITY_PRIVATE
                                 else if c = CHR ''1'' then DEBUG_VISIBILITY_PROTECTED
                                 else DEBUG_VISIBILITY_PUBLIC);
                   s1 = (if cur pp0 = CHR ''/'' \<and> c \<noteq> CHR ''0'' \<and> c \<noteq> CHR ''1'' \<and> c \<noteq> CHR ''2''
                         then report (Warn_stab ''unknown visibility character for field'' orig) s
                         else s);
                   pp1 = (if cur pp0 = CHR ''/'' then tl (tl pp0) else pp0)
               in case rec s1 pp1 of
                    None \<Rightarrow> None
                  | Some (None, pp2, s2) \<Rightarrow> Some (None, pp2, s2)
                  | Some (Some ty, pp2, s2) \<Rightarrow>
                      if cur pp2 = CHR '':''
                      then (case strchr (tl pp2) CHR '';'' of
                              None \<Rightarrow> Some (None, tl pp2, report (Bad_stab orig) s2)
                            | Some q \<Rightarrow>
                                Some (Some (Static_member name ty (savestring (tl pp2) q) visibility,
                                            True), tl q, s2))
                      else if cur pp2 \<noteq> CHR '','' then Some (None, pp2, report (Bad_stab orig) s2)
                      else
                        (let r1 = parse_number (tl pp2) False;
                             s3 = reports (nr_errs r1) s2
                         in if cur (nr_rest r1) \<noteq> CHR '',''
                            then Some (None, nr_rest r1, report (Bad_stab orig) s3)
                            else
                              (let r2 = parse_number (tl (nr_rest r1)) False;
                                   s4 = reports (nr_errs r2) s3
                               in if cur (nr_rest r2) \<noteq> CHR '';''
                                  then Some (None, nr_rest r2, report (Bad_stab orig) s4)
                                  else
                                    Some (Some (Field name ty (nr_value r1) (nr_value r2)
                                                  (if nr_value r1 = 0 \<and> nr_value r2 = 0
                                                   then DEBUG_VISIBILITY_IGNORE else visibility),
                                                False), tl (nr_rest r2), s4))))))"

text \<open>The loop of \<open>parse_stab_struct_fields\<close>; \<open>statics\<close> is \<open>*staticsp\<close>.\<close>

primrec field_loop ::
  "nat \<Rightarrow> type_parser \<Rightarrow> stab_handle \<Rightarrow> string \<Rightarrow> string \<Rightarrow> debug_field list \<Rightarrow> bool
     \<Rightarrow> ((debug_field list \<times> bool) option \<times> string \<times> stab_handle) option" where
  "field_loop 0 rec s orig pp flds statics = None"
| "field_loop (Suc k) rec s orig pp flds statics =
     (if cur pp = CHR '';'' then Some (Some (flds, statics), pp, s)
      else if (cur pp = CHR ''$'' \<or> cur pp = CHR ''.'') \<and> cur (tl pp) \<noteq> CHR ''_''
      then (case parse_stab_cpp_abbrev rec s (tl pp) of
              None \<Rightarrow> None
            | Some (None, pp1, s1) \<Rightarrow> Some (None, pp1, s1)
            | Some (Some f, pp1, s1) \<Rightarrow> field_loop k rec s1 orig pp1 (flds @ [f]) statics)
      else (case strchr pp CHR '':'' of
              None \<Rightarrow> Some (None, pp, report (Bad_stab orig) s)
            | Some p \<Rightarrow>
                if cur (tl p) = CHR '':'' then Some (Some (flds, statics), pp, s)
                else (case parse_stab_one_struct_field rec s pp p of
                        None \<Rightarrow> None
                      | Some (None, pp1, s1) \<Rightarrow> Some (None, pp1, s1)
                      | Some (Some (f, st), pp1, s1) \<Rightarrow>
                          field_loop k rec s1 orig pp1 (flds @ [f]) (statics \<or> st))))"

definition parse_stab_struct_fields ::
  "type_parser \<Rightarrow> stab_handle \<Rightarrow> string
     \<Rightarrow> ((debug_field list \<times> bool) option \<times> string \<times> stab_handle) option" where
  "parse_stab_struct_fields rec s orig =
     (if orig = [] then Some (None, orig, s)
      else field_loop (Suc (length orig)) rec s orig orig [] False)"

text \<open>
  \<open>parse_stab_tilde_field\<close>: success, the base class that holds the virtual function table
  and whether the class holds its own.
\<close>

definition parse_stab_tilde_field ::
  "type_parser \<Rightarrow> stab_handle \<Rightarrow> string \<Rightarrow> cint \<times> cint
     \<Rightarrow> (bool \<times> dtype \<times> bool \<times> string \<times> stab_handle) option" where
  "parse_stab_tilde_field rec s orig typenums =
     (if orig = [] then Some (False, None, False, orig, s)
      else
        (let pp0 = (if cur orig = CHR '';'' then tl orig else orig)
         in if cur pp0 \<noteq> CHR ''~'' then Some (True, None, False, pp0, s)
            else
              (let pp1 = tl pp0;
                   pp2 = (if cur pp1 = CHR ''='' \<or> cur pp1 = CHR ''+'' \<or> cur pp1 = CHR ''-''
                          then tl pp1 else pp1)
               in if cur pp2 \<noteq> CHR ''%'' then Some (True, None, False, pp2, s)
                  else
                    (let hold = tl pp2;
                         tn = parse_stab_type_number hold;
                         s1 = reports (tn_errs tn) s
                     in if \<not> tn_ok tn then Some (False, None, False, tn_rest tn, s1)
                        else if fst (tn_nums tn) = fst typenums \<and> snd (tn_nums tn) = snd typenums
                        then Some (True, None, True, tn_rest tn, s1)
                        else
                          (case rec s1 hold of
                             None \<Rightarrow> None
                           | Some (vtype, pp3, s2) \<Rightarrow>
                               (let p = skip_to CHR '';'' pp3
                                in if cur p \<noteq> CHR '';''
                                   then Some (False, None, False, pp3, report (Bad_stab orig) s2)
                                   else Some (True, vtype, False, tl p, s2)))))))"

text \<open>\<open>parse_stab_struct_type\<close>.\<close>

definition parse_stab_struct_type ::
  "type_parser \<Rightarrow> demangler \<Rightarrow> stab_handle \<Rightarrow> string option \<Rightarrow> string \<Rightarrow> bool \<Rightarrow> cint \<times> cint
     \<Rightarrow> (dtype \<times> string \<times> stab_handle) option" where
  "parse_stab_struct_type rec dm s tagname pp structp typenums =
     (let r = parse_number pp False;
          s0 = reports (nr_errs r) s;
          sz = nr_value r
      in case parse_stab_baseclasses rec s0 (nr_rest r) of
           None \<Rightarrow> None
         | Some (False, baseclasses, pp1, s1) \<Rightarrow> Some (None, pp1, s1)
         | Some (True, baseclasses, pp1, s1) \<Rightarrow>
             (case parse_stab_struct_fields rec s1 pp1 of
                None \<Rightarrow> None
              | Some (None, pp2, s2) \<Rightarrow> Some (None, pp2, s2)
              | Some (Some (flds, statics), pp2, s2) \<Rightarrow>
                  (case parse_stab_members rec dm s2 tagname pp2 typenums of
                     None \<Rightarrow> None
                   | Some (False, methods, pp3, s3) \<Rightarrow> Some (None, pp3, s3)
                   | Some (True, methods, pp3, s3) \<Rightarrow>
                       (case parse_stab_tilde_field rec s3 pp3 typenums of
                          None \<Rightarrow> None
                        | Some (False, vptrbase, ownvptr, pp4, s4) \<Rightarrow> Some (None, pp4, s4)
                        | Some (True, vptrbase, ownvptr, pp4, s4) \<Rightarrow>
                            if \<not> statics \<and> baseclasses = None \<and> methods = None
                               \<and> vptrbase = None \<and> \<not> ownvptr
                            then Some (debug_make_struct_type structp sz flds, pp4, s4)
                            else Some (debug_make_object_type structp sz flds baseclasses methods
                                         vptrbase ownvptr, pp4, s4)))))"

section \<open>The type descriptors\<close>

text \<open>
  \<open>atoi\<close> of the C library, \<open>(int) strtol (str, NULL, 10)\<close>: white space, an optional sign,
  decimal digits.  \<open>strtol\<close> saturates at \<open>LONG_MAX\<close> and \<open>LONG_MIN\<close> (a 64-bit \<open>long\<close>,
  \<open>SIZEOF_LONG 8\<close>), and the cast to \<open>int\<close> keeps the low 32 bits.
\<close>

definition LONG_MAX :: int where
  "LONG_MAX = 2 ^ 63 - 1"

fun atoi_digits :: "nat \<Rightarrow> string \<Rightarrow> nat" where
  "atoi_digits acc [] = acc"
| "atoi_digits acc (c # cs) =
     (if ISDIGIT c then atoi_digits (acc * 10 + (of_char c - 48)) cs else acc)"

definition atoi :: "string \<Rightarrow> cint" where
  "atoi str =
     (let s1 = dropWhile isspace str;
          s2 = (if cur s1 = CHR ''-'' \<or> cur s1 = CHR ''+'' then tl s1 else s1);
          n = int (atoi_digits 0 s2);
          l = (if cur s1 = CHR ''-'' then max (- n) (- LONG_MAX - 1) else min n LONG_MAX)
      in word_of_int l)"

text \<open>
  The loop over the type attributes \<open>@...;\<close> in front of a descriptor.  \<open>sz\<close> is the size in
  bytes asked for by \<open>@s\<close> (\<open>-1\<close> for none; \<open>size /= 8\<close> rounds towards zero, so every value
  below 8 bits gives \<open>-1\<close>).  The result is \<open>None\<close> for a malformed attribute.
\<close>

primrec type_attributes ::
  "nat \<Rightarrow> string \<Rightarrow> cint \<Rightarrow> bool \<Rightarrow> ((cint \<times> bool \<times> string) option) option" where
  "type_attributes 0 pp sz stringp = None"
| "type_attributes (Suc k) pp sz stringp =
     (if cur pp \<noteq> CHR ''@'' then Some (Some (sz, stringp, pp))
      else
        (let attr = tl pp
         in if ISDIGIT (cur attr) \<or> cur attr = CHR ''('' \<or> cur attr = CHR ''-''
            then Some (Some (sz, stringp, pp))
            else
              (let p = skip_to CHR '';'' attr
               in if cur p = NUL then Some None
                  else type_attributes k (tl p)
                         (if cur attr = CHR ''s''
                          then (if 8 \<le>s atoi (tl attr) then atoi (tl attr) div 8 else - 1)
                          else sz)
                         (stringp \<or> cur attr = CHR ''S''))))"

text \<open>
  The scan of the cross reference for the \<open>:\<close> that ends a name with template arguments:
  \<open>nest\<close> counts the open \<open><\<close>.
\<close>

fun skip_template :: "cint \<Rightarrow> string \<Rightarrow> string" where
  "skip_template nest [] = []"
| "skip_template nest (c # cs) =
     (if c = NUL then c # cs
      else if c = CHR ''<'' then skip_template (nest + 1) cs
      else if c = CHR ''>'' then skip_template (nest - 1) cs
      else if c = CHR '':'' \<and> nest = 0 then c # cs
      else skip_template nest cs)"

text \<open>
  The descriptor \<open>x\<close>: a cross reference to a tag.  When the tag named is the type being
  defined (\<open>type_name\<close>), \<open>info->self_crossref\<close> is set.
\<close>

definition parse_cross_reference ::
  "stab_handle \<Rightarrow> string option \<Rightarrow> string \<Rightarrow> string \<Rightarrow> dtype \<times> string \<times> stab_handle" where
  "parse_cross_reference s type_name orig pp0 =
     (if cur pp0 = NUL then (None, pp0, report (Bad_stab orig) s)
      else
        (let code = (if cur pp0 = CHR ''s'' then DEBUG_KIND_STRUCT
                     else if cur pp0 = CHR ''u'' then DEBUG_KIND_UNION
                     else if cur pp0 = CHR ''e'' then DEBUG_KIND_ENUM
                     else DEBUG_KIND_STRUCT);
             s1 = (if cur pp0 = CHR ''s'' \<or> cur pp0 = CHR ''u'' \<or> cur pp0 = CHR ''e'' then s
                   else report (Warn_stab ''unrecognized cross reference type'' orig) s);
             pp = tl pp0
         in case strchr pp CHR '':'' of
              None \<Rightarrow> (None, pp, report (Bad_stab orig) s1)
            | Some p0 \<Rightarrow>
                (let p = (case strchr pp CHR ''<'' of
                            None \<Rightarrow> p0
                          | Some q1 \<Rightarrow>
                              if length p0 < length q1 \<and> cur (tl p0) = CHR '':''
                              then skip_template 0 q1 else p0)
                 in if cur p \<noteq> CHR '':'' then (None, pp, report (Bad_stab orig) s1)
                    else
                      (let name = savestring pp p;
                           s2 = (if type_name = Some name then s1\<lparr>self_crossref := True\<rparr> else s1)
                       in case stab_find_tagged_type s2 name code of
                            (t, s3) \<Rightarrow> (t, tl p, s3)))))"

text \<open>The argument list of a method type \<open>#domain,return,arg,...;\<close>.\<close>

primrec method_args ::
  "nat \<Rightarrow> type_parser \<Rightarrow> stab_handle \<Rightarrow> string \<Rightarrow> string \<Rightarrow> debug_type list
     \<Rightarrow> (debug_type list option \<times> string \<times> stab_handle) option" where
  "method_args 0 rec s orig pp args = None"
| "method_args (Suc k) rec s orig pp args =
     (if cur pp = CHR '';'' then Some (Some args, tl pp, s)
      else if cur pp \<noteq> CHR '','' then Some (None, pp, report (Bad_stab orig) s)
      else (case rec s (tl pp) of
              None \<Rightarrow> None
            | Some (None, p, s1) \<Rightarrow> Some (None, p, s1)
            | Some (Some a, p, s1) \<Rightarrow> method_args k rec s1 orig p (args @ [a])))"

definition parse_method_type ::
  "type_parser \<Rightarrow> stab_handle \<Rightarrow> string \<Rightarrow> string \<Rightarrow> (dtype \<times> string \<times> stab_handle) option" where
  "parse_method_type rec s orig pp =
     (if cur pp = CHR ''#''
      then (case rec s (tl pp) of
              None \<Rightarrow> None
            | Some (None, p, s1) \<Rightarrow> Some (None, p, s1)
            | Some (Some return_type, p, s1) \<Rightarrow>
                if cur p \<noteq> CHR '';'' then Some (None, p, report (Bad_stab orig) s1)
                else Some (debug_make_method_type (Some return_type) None None False, tl p, s1))
      else (case rec s pp of
              None \<Rightarrow> None
            | Some (None, p, s1) \<Rightarrow> Some (None, p, s1)
            | Some (Some domain, p, s1) \<Rightarrow>
                if cur p \<noteq> CHR '','' then Some (None, p, report (Bad_stab orig) s1)
                else (case rec s1 (tl p) of
                        None \<Rightarrow> None
                      | Some (None, p2, s2) \<Rightarrow> Some (None, p2, s2)
                      | Some (Some return_type, p2, s2) \<Rightarrow>
                          (case method_args (Suc (length p2)) rec s2 orig p2 [] of
                             None \<Rightarrow> None
                           | Some (None, p3, s3) \<Rightarrow> Some (None, p3, s3)
                           | Some (Some args, p3, s3) \<Rightarrow>
                               if args = []
                                  \<or> debug_get_type_kind s3 (Some (last args)) \<noteq> DEBUG_KIND_VOID
                               then Some (debug_make_method_type (Some return_type) (Some domain)
                                            (Some args) True, p3, s3)
                               else Some (debug_make_method_type (Some return_type) (Some domain)
                                            (Some (butlast args)) False, p3, s3)))))"

text \<open>
  The descriptor that defines a type as another type, \<open>pp\<close> being at its number: the same
  number as the one being defined means void.
\<close>

definition parse_type_reference ::
  "type_parser \<Rightarrow> stab_handle \<Rightarrow> cint \<times> cint \<Rightarrow> string
     \<Rightarrow> (dtype \<times> string \<times> stab_handle) option" where
  "parse_type_reference rec s typenums hold =
     (let tn = parse_stab_type_number hold;
          s0 = reports (tn_errs tn) s
      in if \<not> tn_ok tn then Some (None, tn_rest tn, s0)
         else
           (case (if fst typenums = fst (tn_nums tn) \<and> snd typenums = snd (tn_nums tn)
                  then Some (debug_make_void_type, tn_rest tn, s0)
                  else rec s0 hold) of
              None \<Rightarrow> None
            | Some (None, p, s1) \<Rightarrow> Some (None, p, s1)
            | Some (Some t, p, s1) \<Rightarrow>
                if fst typenums \<noteq> - 1
                then (case stab_record_type s1 typenums (Some t) of
                        None \<Rightarrow> None
                      | Some (False, s2) \<Rightarrow> Some (None, p, s2)
                      | Some (True, s2) \<Rightarrow> Some (Some t, p, s2))
                else Some (Some t, p, s1)))"

text \<open>
  The \<open>switch (descriptor)\<close> of \<open>parse_stab_type\<close>.  \<open>before\<close> is the cursor at the descriptor
  and \<open>pp\<close> the cursor behind it.
\<close>

definition type_descriptor ::
  "type_parser \<Rightarrow> demangler \<Rightarrow> stab_handle \<Rightarrow> string option \<Rightarrow> string \<Rightarrow> cint \<times> cint
     \<Rightarrow> bool \<Rightarrow> string \<Rightarrow> (dtype \<times> string \<times> stab_handle) option" where
  "type_descriptor rec dm s type_name orig typenums stringp before =
     (let descriptor = cur before;
          pp = tl before;
          wrap = (\<lambda>f. case rec s pp of None \<Rightarrow> None | Some (t, p, s1) \<Rightarrow> Some (f t, p, s1))
      in if descriptor = CHR ''x'' then Some (parse_cross_reference s type_name orig pp)
         else if ISDIGIT descriptor \<or> descriptor = CHR ''-'' \<or> descriptor = CHR ''(''
         then parse_type_reference rec s typenums before
         else if descriptor = CHR ''*'' then wrap debug_make_pointer_type
         else if descriptor = CHR ''&'' then wrap debug_make_reference_type
         else if descriptor = CHR ''f'' then wrap debug_make_function_type
         else if descriptor = CHR ''k'' then wrap debug_make_const_type
         else if descriptor = CHR ''B'' then wrap debug_make_volatile_type
         else if descriptor = CHR ''@''
         then (case rec s pp of
                 None \<Rightarrow> None
               | Some (None, p, s1) \<Rightarrow> Some (None, p, s1)
               | Some (Some domain, p, s1) \<Rightarrow>
                   if cur p \<noteq> CHR '','' then Some (None, p, report (Bad_stab orig) s1)
                   else (case rec s1 (tl p) of
                           None \<Rightarrow> None
                         | Some (None, p2, s2) \<Rightarrow> Some (None, p2, s2)
                         | Some (Some memtype, p2, s2) \<Rightarrow>
                             Some (debug_make_offset_type (Some domain) (Some memtype), p2, s2)))
         else if descriptor = CHR ''#'' then parse_method_type rec s orig pp
         else if descriptor = CHR ''r'' then parse_stab_range_type rec s type_name pp typenums
         else if descriptor = CHR ''b'' then Some (parse_stab_sun_builtin_type s pp)
         else if descriptor = CHR ''R'' then Some (parse_stab_sun_floating_type s pp)
         else if descriptor = CHR ''e'' then parse_stab_enum_type s pp
         else if descriptor = CHR ''s'' \<or> descriptor = CHR ''u''
         then parse_stab_struct_type rec dm s type_name pp (descriptor = CHR ''s'') typenums
         else if descriptor = CHR ''a''
         then (if cur pp \<noteq> CHR ''r'' then Some (None, pp, report (Bad_stab orig) s)
               else parse_stab_array_type rec s (tl pp) stringp)
         else if descriptor = CHR ''S'' then wrap (\<lambda>t. debug_make_set_type t stringp)
         else Some (None, pp, report (Bad_stab orig) s))"

text \<open>
  The end of \<open>parse_stab_type\<close>: the type is stored under its number, and its size is
  reported when an attribute gave one.
\<close>

definition debug_record_type_size :: "debug_type \<Rightarrow> cint \<Rightarrow> stab_handle \<Rightarrow> bool \<times> stab_handle" where
  "debug_record_type_size t sz s = call_sink (Record_type_size t sz) s"

definition type_finish ::
  "stab_handle \<Rightarrow> cint \<times> cint \<Rightarrow> cint \<Rightarrow> dtype \<Rightarrow> (dtype \<times> stab_handle) option" where
  "type_finish s typenums sz t =
     (case t of
        None \<Rightarrow> Some (None, s)
      | Some ty \<Rightarrow>
          (case (if fst typenums \<noteq> - 1 then stab_record_type s typenums (Some ty)
                 else Some (True, s)) of
             None \<Rightarrow> None
           | Some (False, s1) \<Rightarrow> Some (None, s1)
           | Some (True, s1) \<Rightarrow>
               if sz \<noteq> - 1
               then (case debug_record_type_size ty sz s1 of
                       (False, s2) \<Rightarrow> Some (None, s2)
                     | (True, s2) \<Rightarrow> Some (Some ty, s2))
               else Some (Some ty, s1)))"

text \<open>
  \<open>parse_stab_type\<close> with its recursive calls as the argument \<open>rec\<close>.  \<open>slotp\<close> says whether
  the caller wants the slot of a type being defined; the result carries that slot.
\<close>

definition parse_stab_type_body ::
  "type_parser \<Rightarrow> demangler \<Rightarrow> stab_handle \<Rightarrow> string option \<Rightarrow> string \<Rightarrow> bool
     \<Rightarrow> (dtype \<times> slot_ref option \<times> string \<times> stab_handle) option" where
  "parse_stab_type_body rec dm s0 type_name orig slotp =
     (if orig = [] then Some (None, None, orig, s0)
      else
        (let s = s0\<lparr>self_crossref := False\<rparr>
         in if \<not> ISDIGIT (cur orig) \<and> cur orig \<noteq> CHR ''('' \<and> cur orig \<noteq> CHR ''-''
            then (case type_descriptor rec dm s type_name orig (- 1, - 1) False orig of
                    None \<Rightarrow> None
                  | Some (t, p, s1) \<Rightarrow>
                      (case type_finish s1 (- 1, - 1) (- 1) t of
                         None \<Rightarrow> None
                       | Some (t', s2) \<Rightarrow> Some (t', None, p, s2)))
            else
              (let tn = parse_stab_type_number orig;
                   s1 = reports (tn_errs tn) s;
                   typenums = tn_nums tn
               in if \<not> tn_ok tn then Some (None, None, tn_rest tn, s1)
                  else if cur (tn_rest tn) \<noteq> CHR ''=''
                  then (case stab_find_type s1 typenums of
                          None \<Rightarrow> None
                        | Some (t, s2) \<Rightarrow> Some (t, None, tn_rest tn, s2))
                  else
                    (case (if slotp \<and> 0 \<le>s fst typenums \<and> 0 \<le>s snd typenums
                           then stab_find_slot s1 typenums else Some (None, s1)) of
                       None \<Rightarrow> None
                     | Some (slot, s2) \<Rightarrow>
                         (case type_attributes (Suc (length orig)) (tl (tn_rest tn)) (- 1) False of
                            None \<Rightarrow> None
                          | Some None \<Rightarrow> Some (None, slot, tl (tn_rest tn), report (Bad_stab orig) s2)
                          | Some (Some (sz, stringp, pp)) \<Rightarrow>
                              (case type_descriptor rec dm s2 type_name orig typenums stringp pp of
                                 None \<Rightarrow> None
                               | Some (t, p, s3) \<Rightarrow>
                                   (case type_finish s3 typenums sz t of
                                      None \<Rightarrow> None
                                    | Some (t', s4) \<Rightarrow> Some (t', slot, p, s4))))))))"

text \<open>
  The recursion closed.  A recursive call is always made on a text shorter than the one of
  its caller, and a call on the empty text returns at once, so a call on a text of length
  \<open>n\<close> needs \<open>n\<close> levels and one more.
\<close>

primrec parse_stab_type_rec :: "nat \<Rightarrow> demangler \<Rightarrow> type_parser" where
  "parse_stab_type_rec 0 dm = (\<lambda>s pp. None)"
| "parse_stab_type_rec (Suc k) dm =
     (\<lambda>s pp. case parse_stab_type_body (parse_stab_type_rec k dm) dm s None pp False of
                None \<Rightarrow> None
              | Some (t, slot, p, s') \<Rightarrow> Some (t, p, s'))"

definition parse_stab_type ::
  "demangler \<Rightarrow> stab_handle \<Rightarrow> string option \<Rightarrow> string \<Rightarrow> bool
     \<Rightarrow> (dtype \<times> slot_ref option \<times> string \<times> stab_handle) option" where
  "parse_stab_type dm s type_name pp slotp =
     parse_stab_type_body (parse_stab_type_rec (length pp) dm) dm s type_name pp slotp"

section \<open>The descriptor string of a record\<close>

datatype stab_kind =
    N_FN | N_FN_SEQ | N_LBRAC | N_RBRAC | N_SO | N_SOL | N_BINCL | N_EINCL | N_EXCL
  | N_SLINE | N_BCOMM | N_ECOMM | N_FUN | N_OPT | N_OBJ | N_ENDM | N_MAIN | N_WARNING
  | N_OTHER nat   \<comment> \<open>every other kind: the symbol records N_GSYM, N_LSYM, N_PSYM, ...\<close>

text \<open>
  The loop \<open>while (p[1] == ':')\<close> that skips the \<open>::\<close> inside a qualified name; \<open>None\<close> when
  no single \<open>:\<close> follows.
\<close>

primrec skip_double_colons :: "nat \<Rightarrow> string \<Rightarrow> string option option" where
  "skip_double_colons 0 p = None"
| "skip_double_colons (Suc k) p =
     (if cur (tl p) = CHR '':''
      then (case strchr (drop 2 p) CHR '':'' of
              None \<Rightarrow> Some None
            | Some q \<Rightarrow> skip_double_colons k q)
      else Some (Some p))"

text \<open>The loop \<open>while (*p == ';')\<close> over the argument types behind a function.\<close>

primrec extra_types ::
  "nat \<Rightarrow> demangler \<Rightarrow> stab_handle \<Rightarrow> string \<Rightarrow> (bool \<times> stab_handle) option" where
  "extra_types 0 dm s p = None"
| "extra_types (Suc k) dm s p =
     (if cur p = CHR '';''
      then (case parse_stab_type dm s None (tl p) False of
              None \<Rightarrow> None
            | Some (None, slot, p1, s1) \<Rightarrow> Some (False, s1)
            | Some (Some t, slot, p1, s1) \<Rightarrow> extra_types k dm s1 p1)
      else Some (True, s))"

text \<open>The value of a global symbol, looked up in the symbol table by name.\<close>

fun symbol_value :: "char \<Rightarrow> (string \<times> vma) list \<Rightarrow> string \<Rightarrow> vma option" where
  "symbol_value leading [] name = None"
| "symbol_value leading ((n, v) # ps) name =
     (if (if leading \<noteq> NUL \<and> cur n = leading then tl n else n) = name then Some v
      else symbol_value leading ps name)"

text \<open>
  A symbol with one type behind its descriptor letter: the type is parsed and \<open>emit\<close> hands
  the symbol to the sink.
\<close>

definition typed_symbol ::
  "demangler \<Rightarrow> stab_handle \<Rightarrow> string \<Rightarrow> (debug_type \<Rightarrow> stab_handle \<Rightarrow> bool \<times> stab_handle)
     \<Rightarrow> (bool \<times> stab_handle) option" where
  "typed_symbol dm s p emit =
     (case parse_stab_type dm s None p False of
        None \<Rightarrow> None
      | Some (None, slot, p1, s1) \<Rightarrow> Some (False, s1)
      | Some (Some t, slot, p1, s1) \<Rightarrow> Some (emit t s1))"

text \<open>
  The cases \<open>t\<close> and \<open>T\<close>: a typedef and a tag.  For a tag, the entry of the same name on the
  list of undefined tags is filled in and unlinked, unless the type just read was a cross
  reference to the tag itself.
\<close>

definition store_slot :: "slot_ref option \<Rightarrow> dtype \<Rightarrow> stab_handle \<Rightarrow> stab_handle" where
  "store_slot slot t s = (case slot of None \<Rightarrow> s | Some r \<Rightarrow> slot_set r t s)"

definition define_typedef ::
  "demangler \<Rightarrow> stab_handle \<Rightarrow> string option \<Rightarrow> string \<Rightarrow> (bool \<times> stab_handle) option" where
  "define_typedef dm s name p =
     (case parse_stab_type dm s name p True of
        None \<Rightarrow> None
      | Some (None, slot, p1, s1) \<Rightarrow> Some (False, s1)
      | Some (Some t, slot, p1, s1) \<Rightarrow>
          (case name of
             None \<Rightarrow> Some (True, s1)
           | Some n \<Rightarrow>
               (case debug_name_type n (Some t) s1 of
                  (None, s2) \<Rightarrow> Some (False, s2)
                | (Some t', s2) \<Rightarrow> Some (True, store_slot slot (Some t') s2))))"

definition fill_tag :: "string \<Rightarrow> debug_type \<Rightarrow> stab_handle \<Rightarrow> stab_handle" where
  "fill_tag name t s =
     (case find_tag (tag_cells s) (tags s) name of
        None \<Rightarrow> s
      | Some st \<Rightarrow> (slot_set (Tag_slot st) (Some t) s)\<lparr>tags := remove1 st (tags s)\<rparr>)"

definition define_tag ::
  "demangler \<Rightarrow> stab_handle \<Rightarrow> string option \<Rightarrow> string \<Rightarrow> (bool \<times> stab_handle) option" where
  "define_tag dm s name p0 =
     (let synonym = (cur p0 = CHR ''t'');
          p = (if synonym then tl p0 else p0)
      in case parse_stab_type dm s name p True of
           None \<Rightarrow> None
         | Some (None, slot, p1, s1) \<Rightarrow> Some (False, s1)
         | Some (Some t, slot, p1, s1) \<Rightarrow>
             (case name of
                None \<Rightarrow> Some (True, s1)
              | Some n \<Rightarrow>
                  (let self = self_crossref s1
                   in case debug_tag_type n (Some t) s1 of
                        (None, s2) \<Rightarrow> Some (False, s2)
                      | (Some t', s2) \<Rightarrow>
                          (let s3 = store_slot slot (Some t') s2;
                               s4 = (if \<not> self then fill_tag n t' s3 else s3)
                           in if synonym
                              then (case debug_name_type n (Some t') s4 of
                                      (None, s5) \<Rightarrow> Some (False, s5)
                                    | (Some t2, s5) \<Rightarrow> Some (True, store_slot slot (Some t2) s5))
                              else Some (True, s4)))))"

text \<open>The case \<open>c\<close>: a constant.\<close>

definition define_constant ::
  "demangler \<Rightarrow> stab_handle \<Rightarrow> string \<Rightarrow> string option \<Rightarrow> string \<Rightarrow> (bool \<times> stab_handle) option" where
  "define_constant dm s string name p =
     (if cur p \<noteq> CHR ''='' then Some (False, report (Bad_stab string) s)
      else
        (let c = cur (tl p);
             q = drop 2 p
         in if c = CHR ''r'' then Some (call_sink (Record_float_const name q) s)
            else if c = CHR ''i'' then Some (call_sink (Record_int_const name (atoi q)) s)
            else if c = CHR ''e''
            then (case parse_stab_type dm s None q False of
                    None \<Rightarrow> None
                  | Some (None, slot, p1, s1) \<Rightarrow> Some (False, s1)
                  | Some (Some t, slot, p1, s1) \<Rightarrow>
                      if cur p1 \<noteq> CHR '','' then Some (False, report (Bad_stab string) s1)
                      else Some (call_sink (Record_typed_const name t (atoi p1)) s1))
            else Some (False, report (Bad_stab string) s)))"

text \<open>\<open>parse_stab_string\<close>.\<close>

definition parse_stab_string ::
  "demangler \<Rightarrow> stab_handle \<Rightarrow> stab_kind \<Rightarrow> vma \<Rightarrow> string \<Rightarrow> (bool \<times> stab_handle) option" where
  "parse_stab_string dm s stabtype val string =
     (case strchr string CHR '':'' of
        None \<Rightarrow> Some (True, s)
      | Some p0 \<Rightarrow>
          (case skip_double_colons (Suc (length p0)) p0 of
             None \<Rightarrow> None
           | Some None \<Rightarrow> Some (False, report (Bad_stab string) s)
           | Some (Some p) \<Rightarrow>
               (let c1 = cur (tl string);
                    special = (if cur string = CHR ''$''
                               then (if c1 = CHR ''t'' then Some ''this''
                                     else if c1 = CHR ''e'' then Some ''eh_throw'' else None)
                               else None);
                    s1 = (if cur string = CHR ''$'' \<and> c1 \<noteq> CHR ''t'' \<and> c1 \<noteq> CHR ''v''
                             \<and> c1 \<noteq> CHR ''e'' \<and> c1 \<noteq> CHR ''_'' \<and> c1 \<noteq> CHR ''X''
                          then report (Warn_stab ''unknown C++ encoded name'' string) s else s);
                    name = (case special of
                              Some n \<Rightarrow> Some n
                            | None \<Rightarrow>
                                if length p = length string
                                   \<or> (cur string = CHR '' '' \<and> length p + 1 = length string)
                                then None else Some (savestring string p));
                    q = tl p
                in if \<not> (ISDIGIT (cur q) \<or> cur q = CHR ''('' \<or> cur q = CHR ''-'') \<and> cur q = NUL
                   then Some (False, report (Bad_stab string) s1)
                   else
                     (let letter = (if ISDIGIT (cur q) \<or> cur q = CHR ''('' \<or> cur q = CHR ''-''
                                    then CHR ''l'' else cur q);
                          r = (if ISDIGIT (cur q) \<or> cur q = CHR ''('' \<or> cur q = CHR ''-''
                               then q else tl q)
                      in if letter = CHR ''c'' then define_constant dm s1 string name r
                         else if letter = CHR ''C''
                         then typed_symbol dm s1 r (\<lambda>t. call_sink (Record_label name t val))
                         else if letter = CHR ''f'' \<or> letter = CHR ''F''
                         then (case parse_stab_type dm s1 None r False of
                                 None \<Rightarrow> None
                               | Some (None, slot, p1, s2) \<Rightarrow> Some (False, s2)
                               | Some (Some t, slot, p1, s2) \<Rightarrow>
                                   (case call_sink (Record_function name t (letter = CHR ''F'') val) s2 of
                                      (False, s3) \<Rightarrow> Some (False, s3)
                                    | (True, s3) \<Rightarrow> extra_types (Suc (length p1)) dm s3 p1))
                         else if letter = CHR ''G''
                         then typed_symbol dm s1 r
                                (\<lambda>t s2. stab_record_variable s2 name (Some t) DEBUG_GLOBAL
                                          (case name of
                                             None \<Rightarrow> val
                                           | Some n \<Rightarrow>
                                               (case symbol_value (symbol_leading_char s2) (syms s2) n of
                                                  None \<Rightarrow> val | Some v \<Rightarrow> v)))
                         else if letter = CHR ''l'' \<or> letter = CHR ''s''
                         then typed_symbol dm s1 r
                                (\<lambda>t s2. stab_record_variable s2 name (Some t) DEBUG_LOCAL val)
                         else if letter = CHR ''p''
                         then (if cur r \<noteq> CHR ''F''
                               then typed_symbol dm s1 r
                                      (\<lambda>t. call_sink (Record_parameter name t DEBUG_PARM_STACK val))
                               else typed_symbol dm s1 (tl r)
                                      (\<lambda>t. call_sink (Record_parameter name
                                                        (Pointer_type (Function_type t))
                                                        DEBUG_PARM_STACK val)))
                         else if letter = CHR ''P'' \<and> stabtype = N_FUN
                         then extra_types (Suc (length r)) dm s1 r
                         else if letter = CHR ''P'' \<or> letter = CHR ''R''
                         then typed_symbol dm s1 r
                                (\<lambda>t. call_sink (Record_parameter name t DEBUG_PARM_REG val))
                         else if letter = CHR ''r''
                         then typed_symbol dm s1 r
                                (\<lambda>t s2. stab_record_variable s2 name (Some t) DEBUG_REGISTER val)
                         else if letter = CHR ''S''
                         then typed_symbol dm s1 r
                                (\<lambda>t s2. stab_record_variable s2 name (Some t) DEBUG_STATIC val)
                         else if letter = CHR ''t'' then define_typedef dm s1 name r
                         else if letter = CHR ''T'' then define_tag dm s1 name r
                         else if letter = CHR ''V''
                         then typed_symbol dm s1 r
                                (\<lambda>t s2. stab_record_variable s2 name (Some t) DEBUG_LOCAL_STATIC val)
                         else if letter = CHR ''v''
                         then typed_symbol dm s1 r
                                (\<lambda>t. call_sink (Record_parameter name t DEBUG_PARM_REFERENCE val))
                         else if letter = CHR ''a''
                         then typed_symbol dm s1 r
                                (\<lambda>t. call_sink (Record_parameter name t DEBUG_PARM_REF_REG val))
                         else if letter = CHR ''X''
                         then typed_symbol dm s1 r
                                (\<lambda>t s2. stab_record_variable s2 name (Some t) DEBUG_LOCAL val)
                         else if letter = CHR ''Y'' \<and> cur r \<noteq> NUL \<and> cur (tl r) = CHR ''n''
                                 \<and> cur (drop 2 r) = CHR ''0''
                                 \<and> cur (skip_to CHR '';'' (drop 3 r)) \<noteq> NUL
                         then Some (True, s1)
                         else Some (False, report (Bad_stab string) s1)))))"

section \<open>The record dispatcher\<close>

definition IS_ABSOLUTE_PATH :: "string \<Rightarrow> bool" where
  "IS_ABSOLUTE_PATH f = (cur f = CHR ''/'')"

text \<open>
  The start of a compilation unit, run by the first record that does not continue the
  N_SO strings collected so far.
\<close>

definition begin_unit :: "stab_handle \<Rightarrow> stab_kind \<Rightarrow> vma \<Rightarrow> string \<Rightarrow> bool \<times> stab_handle" where
  "begin_unit s kind val string =
     (case so_string s of
        None \<Rightarrow> (True, s)
      | Some so \<Rightarrow>
          if kind \<noteq> N_SO \<or> string = [] \<or> val \<noteq> so_value s
          then (case call_sink (Set_filename so) s of
                  (False, s1) \<Rightarrow> (False, s1)
                | (True, s1) \<Rightarrow>
                    (True, s1\<lparr>main_filename := Some so, so_string := None, gcc_compiled := 0,
                              n_opt_found := False,
                              file_start_offset :=
                                (if \<not> sections s1 then so_value s1 else file_start_offset s1),
                              files := 1, file_types := [None]\<rparr>))
          else (True, s))"

text \<open>The end of the function in progress: the pending variables, then \<open>debug_end_function\<close>.\<close>

definition end_function :: "stab_handle \<Rightarrow> vma \<Rightarrow> bool \<times> stab_handle" where
  "end_function s endval =
     (case stab_emit_pending_vars s of
        (False, s1) \<Rightarrow> (False, s1)
      | (True, s1) \<Rightarrow> call_sink (End_function endval) s1)"

text \<open>
  \<open>parse_stab\<close>: one record with its kind, its \<open>desc\<close>, its value and its string (taken up
  to the first NUL).
\<close>

definition parse_stab ::
  "demangler \<Rightarrow> stab_handle \<Rightarrow> stab_kind \<Rightarrow> cint \<Rightarrow> vma \<Rightarrow> string \<Rightarrow> (bool \<times> stab_handle) option" where
  "parse_stab dm s0 kind desc val string0 =
     (let string = cstr string0
      in case begin_unit s0 kind val string of
           (False, s) \<Rightarrow> Some (False, s)
         | (True, s) \<Rightarrow>
             (case kind of
                N_FN \<Rightarrow> Some (True, s)
              | N_FN_SEQ \<Rightarrow> Some (True, s)
              | N_LBRAC \<Rightarrow>
                  if n_opt_found s \<and> desc = 1 then Some (True, s)
                  else if \<not> within_function s
                  then Some (False, report (Message ''N_LBRAC not within function'') s)
                  else (case call_sink (Start_block (val + file_start_offset s
                                                     + function_start_offset s)) s of
                          (False, s1) \<Rightarrow> Some (False, s1)
                        | (True, s1) \<Rightarrow>
                            (case stab_emit_pending_vars s1 of
                               (False, s2) \<Rightarrow> Some (False, s2)
                             | (True, s2) \<Rightarrow> Some (True, s2\<lparr>block_depth := block_depth s2 + 1\<rparr>)))
              | N_RBRAC \<Rightarrow>
                  if n_opt_found s \<and> desc = 1 then Some (True, s)
                  else (case stab_emit_pending_vars s of
                          (False, s1) \<Rightarrow> Some (False, s1)
                        | (True, s1) \<Rightarrow>
                            (case call_sink (End_block (val + file_start_offset s1
                                                        + function_start_offset s1)) s1 of
                               (False, s2) \<Rightarrow> Some (False, s2)
                             | (True, s2) \<Rightarrow>
                                 (let s3 = s2\<lparr>block_depth := block_depth s2 - 1\<rparr>
                                  in if block_depth s3 <s 0
                                     then Some (False, report (Message ''Too many N_RBRACs'') s3)
                                     else Some (True, s3))))
              | N_SO \<Rightarrow>
                  (case (if within_function s
                         then (case end_function s
                                      (if string \<noteq> [] \<and> function_end s \<noteq> - 1 \<and> function_end s < val
                                       then function_end s else val) of
                                 (False, s1) \<Rightarrow> (False, s1)
                               | (True, s1) \<Rightarrow>
                                   (True, s1\<lparr>within_function := False, function_end := - 1\<rparr>))
                         else (True, s)) of
                     (False, s1) \<Rightarrow> Some (False, s1)
                   | (True, s1) \<Rightarrow>
                       if string = [] then Some (True, s1)
                       else Some (True, s1\<lparr>so_string :=
                                              (case so_string s1 of
                                                 None \<Rightarrow> Some string
                                               | Some f \<Rightarrow>
                                                   if IS_ABSOLUTE_PATH string then Some string
                                                   else Some (f @ string)),
                                            so_value := val\<rparr>))
              | N_SOL \<Rightarrow> Some (call_sink (Start_source (Some string)) s)
              | N_BINCL \<Rightarrow> Some (call_sink (Start_source (Some string)) (push_bincl s string val))
              | N_EINCL \<Rightarrow> (case pop_bincl s of (name, s1) \<Rightarrow> Some (call_sink (Start_source name) s1))
              | N_EXCL \<Rightarrow> Some (find_excl s string val)
              | N_SLINE \<Rightarrow>
                  Some (call_sink (Record_line desc
                                     (val + (if within_function s then function_start_offset s else 0))) s)
              | N_BCOMM \<Rightarrow> Some (call_sink (Start_common_block string) s)
              | N_ECOMM \<Rightarrow> Some (call_sink (End_common_block string) s)
              | N_OPT \<Rightarrow>
                  Some (True, if string = ''gcc2_compiled.'' then s\<lparr>gcc_compiled := 2\<rparr>
                              else if string = ''gcc_compiled.'' then s\<lparr>gcc_compiled := 1\<rparr>
                              else s\<lparr>n_opt_found := True\<rparr>)
              | N_OBJ \<Rightarrow> Some (True, s)
              | N_ENDM \<Rightarrow> Some (True, s)
              | N_MAIN \<Rightarrow> Some (True, s)
              | N_WARNING \<Rightarrow> Some (True, s)
              | _ \<Rightarrow>
                  if kind = N_FUN \<and> string = []
                  then (if within_function s
                        then (case end_function s
                                     (if sections s then val + function_start_offset s else val) of
                                (False, s1) \<Rightarrow> Some (False, s1)
                              | (True, s1) \<Rightarrow>
                                  Some (True, s1\<lparr>within_function := False, function_end := - 1\<rparr>))
                        else Some (True, s))
                  else
                    (let s1 = (if kind = N_FUN \<and> within_function s
                                  \<and> (function_end s = - 1 \<or> val < function_end s)
                               then s\<lparr>function_end := val\<rparr> else s);
                         starts = (case strchr string CHR '':'' of
                                     None \<Rightarrow> False
                                   | Some colon \<Rightarrow>
                                       cur (tl colon) = CHR ''f'' \<or> cur (tl colon) = CHR ''F'')
                     in case (if starts
                              then (case (if within_function s1
                                          then (case end_function s1
                                                       (if function_end s1 \<noteq> - 1 \<and> function_end s1 < val
                                                        then function_end s1 else val) of
                                                  (False, s2) \<Rightarrow> (False, s2)
                                                | (True, s2) \<Rightarrow> (True, s2\<lparr>function_end := - 1\<rparr>))
                                          else (True, s1)) of
                                      (False, s2) \<Rightarrow> (False, s2)
                                    | (True, s2) \<Rightarrow>
                                        (True, s2\<lparr>function_start_offset :=
                                                    (if sections s2 then val else function_start_offset s2),
                                                  within_function := True\<rparr>))
                              else (True, s1)) of
                          (False, s2) \<Rightarrow> Some (False, s2)
                        | (True, s2) \<Rightarrow> parse_stab_string dm s2 kind val string)))"

section \<open>Drivers and sample inputs\<close>

text \<open>A run of \<open>stab_record_variable\<close> calls, one per variable record, in record order.\<close>

fun record_variables :: "stab_handle \<Rightarrow> stab_pending_var list \<Rightarrow> stab_handle" where
  "record_variables s [] = s"
| "record_variables s (v # vs) =
     record_variables (snd (stab_record_variable s (pv_name v) (pv_type v) (pv_kind v) (pv_val v))) vs"

text \<open>What the sink sees for one variable.\<close>

definition var_call :: "stab_pending_var \<Rightarrow> sink_call" where
  "var_call v = Record_variable (pv_name v) (pv_type v) (pv_kind v) (pv_val v)"

text \<open>The test of \<open>stab_record_variable\<close> under which a variable is held back.\<close>

definition queues :: "stab_handle \<Rightarrow> stab_pending_var \<Rightarrow> bool" where
  "queues s v = (pv_kind v \<noteq> DEBUG_GLOBAL \<and> pv_kind v \<noteq> DEBUG_STATIC \<and> within_function s
      \<and> \<not> (gcc_compiled s = 0 \<and> n_opt_found s))"

text \<open>A fresh session over a sink that accepts every call and knows no tag.\<close>

definition fresh :: stab_handle where
  "fresh = start_stab True False [] NUL (\<lambda>h c. True) (\<lambda>h n. None) (\<lambda>h n. None)"

definition in_function :: stab_handle where
  "in_function = fresh\<lparr>within_function := True\<rparr>"

definition var_a :: stab_pending_var where
  "var_a = \<lparr>pv_name = Some ''a'', pv_type = Some (Int_type 4 False), pv_kind = DEBUG_LOCAL, pv_val = 8\<rparr>"

definition var_b :: stab_pending_var where
  "var_b = \<lparr>pv_name = Some ''b'', pv_type = Some (Int_type 4 False), pv_kind = DEBUG_LOCAL, pv_val = 12\<rparr>"

text \<open>
  The shape of the registry that the decoder keeps: one list head per file, every pointer
  inside the arena, chunks of \<open>STAB_TYPES_SLOTS\<close> cells, and every list in strictly
  increasing \<open>base_index\<close> order.
\<close>

definition wf_types :: "stab_handle \<Rightarrow> bool" where
  "wf_types s =
     (length (file_types s) = files s
      \<and> list_all (\<lambda>h. case h of None \<Rightarrow> True | Some c \<Rightarrow> c < length (chunks s)) (file_types s)
      \<and> list_all (\<lambda>ch. length (types ch) = unat STAB_TYPES_SLOTS
            \<and> (case st_next ch of None \<Rightarrow> True
                | Some d \<Rightarrow> d < length (chunks s) \<and> base_index ch < base_index (chunks s ! d)))
          (chunks s))"

text \<open>The number of chunks with a larger \<open>base_index\<close>: it bounds the steps of a walk.\<close>

definition rank :: "stab_handle \<Rightarrow> nat \<Rightarrow> nat" where
  "rank s c = card {d. d < length (chunks s) \<and> base_index (chunks s ! c) < base_index (chunks s ! d)}"

text \<open>\<open>base_index\<close> and \<open>tindex\<close> as \<open>stab_find_slot\<close> computes them from a type number.\<close>

definition slot_base :: "cint \<times> cint \<Rightarrow> cint" where
  "slot_base n = snd n div STAB_TYPES_SLOTS * STAB_TYPES_SLOTS"

definition slot_offset :: "cint \<times> cint \<Rightarrow> nat" where
  "slot_offset n = unat (snd n - slot_base n)"

text \<open>The chunk that \<open>stab_find_slot\<close> allocates (\<open>debug_xzalloc\<close> clears it).\<close>

definition new_chunk :: "nat option \<Rightarrow> cint \<Rightarrow> stab_types" where
  "new_chunk nxt b = \<lparr>st_next = nxt, base_index = b, types = replicate (unat STAB_TYPES_SLOTS) None\<rparr>"

text \<open>The test of \<open>stab_find_type\<close> for a predefined XCOFF type number.\<close>

definition xcoff_number :: "cint \<times> cint \<Rightarrow> bool" where
  "xcoff_number n = (fst n = 0 \<and> snd n <s 0)"

text \<open>The fresh session after \<open>stab_find_slot\<close> has made the chunk of type number 5.\<close>

definition fresh_5 :: stab_handle where
  "fresh_5 = fresh\<lparr>file_types := [Some 0], chunks := [new_chunk None 0]\<rparr>"

text \<open>A session that has seen one include file \<open>a.h\<close> (hash 7) defining type \<open>(1, 3)\<close>.\<close>

definition after_include :: stab_handle where
  "after_include =
     fresh\<lparr>bincl_list := [0], files := 2, file_types := [None, Some 0],
           chunks := [(new_chunk None 0)\<lparr>types := (replicate 16 None)[3 := Some Void_type]\<rparr>],
           bincl_cells := [\<lparr>bf_name = ''a.h'', bf_hash = 7, bf_file = 1, bf_file_types = Some 0\<rparr>]\<rparr>"

text \<open>
  A range descriptor without an explicit index type whose operands are read without
  overflow: \<open>orig\<close> is the text behind the \<open>r\<close>, \<open>rangenums\<close> the type number it starts with,
  \<open>n2\<close> and \<open>n3\<close> the two bounds as \<open>parse_number\<close> reads them, \<open>rest\<close> the text behind the
  closing semicolon.
\<close>

definition range_text ::
  "string \<Rightarrow> cint \<times> cint \<Rightarrow> vma \<Rightarrow> vma \<Rightarrow> string \<Rightarrow> bool" where
  "range_text orig rangenums n2 n3 rest =
     (let tn = parse_stab_type_number orig;
          s2 = (if cur (tn_rest tn) = CHR '';'' then tl (tn_rest tn) else tn_rest tn);
          r2 = parse_number s2 True;
          r3 = parse_number (tl (nr_rest r2)) True
      in orig \<noteq> [] \<and> tn_ok tn \<and> tn_errs tn = [] \<and> tn_nums tn = rangenums
         \<and> cur (tn_rest tn) \<noteq> CHR ''=''
         \<and> cur (nr_rest r2) = CHR '';'' \<and> \<not> nr_overflow r2 \<and> nr_value r2 = n2
         \<and> cur (nr_rest r3) = CHR '';'' \<and> \<not> nr_overflow r3 \<and> nr_value r3 = n3
         \<and> rest = tl (nr_rest r3))"

text \<open>A literal beyond \<open>ULONG_MAX\<close>, followed by a semicolon.\<close>

definition huge :: string where
  "huge = ''99999999999999999999;''"

text \<open>
  A demangler whose procedures all fail, and a session inside the compilation unit
  \<open>main.c\<close>.
\<close>

definition no_demangler :: demangler where
  "no_demangler =
     \<lparr>dm_v3_argtypes = (\<lambda>s n. (None, s)),
      dm_type = (\<lambda>s mi p. (False, p, mi, s)),
      dm_qualified = (\<lambda>s mi p. (False, p, mi, s)),
      dm_template = (\<lambda>s mi p. (False, p, mi, s)),
      dm_args = (\<lambda>s mi p. (False, p, mi, s))\<rparr>"

definition in_unit :: stab_handle where
  "in_unit = fresh\<lparr>main_filename := Some ''main.c'', sink := [Set_filename ''main.c'']\<rparr>"




text \<open>
  The shape of a range descriptor without an explicit index type, whatever its bounds hold:
  \<open>orig\<close> is the text behind the \<open>r\<close>, \<open>rangenums\<close> the type number it starts with, \<open>s2\<close> and
  \<open>s3\<close> the texts of the two bounds, each bound followed by a semicolon, \<open>rest\<close> the text
  behind the second semicolon.
\<close>

definition range_shape :: "string \<Rightarrow> cint \<times> cint \<Rightarrow> string \<Rightarrow> string \<Rightarrow> string \<Rightarrow> bool" where
  "range_shape orig rangenums s2 s3 rest =
     (let tn = parse_stab_type_number orig;
          lo = (if cur (tn_rest tn) = CHR '';'' then tl (tn_rest tn) else tn_rest tn);
          r2 = parse_number lo True;
          r3 = parse_number (tl (nr_rest r2)) True
      in orig \<noteq> [] \<and> tn_ok tn \<and> tn_nums tn = rangenums \<and> cur (tn_rest tn) \<noteq> CHR ''=''
         \<and> s2 = lo \<and> cur (nr_rest r2) = CHR '';'' \<and> s3 = tl (nr_rest r2)
         \<and> cur (nr_rest r3) = CHR '';'' \<and> rest = tl (nr_rest r3))"

text \<open>
  A literal beyond \<open>ULONG_MAX\<close> as the lower bound of a range, and one that is not followed
  by a semicolon.
\<close>

definition huge_lower :: string where
  "huge_lower = ''99999999999999999999;5;''"

definition huge_unterminated :: string where
  "huge_unterminated = ''99999999999999999999x''"

text \<open>
  The undefined tags.  In a running session every entry on the list \<open>tags\<close> is an allocated
  cell whose \<open>slot\<close> is still \<open>NULL\<close> and whose \<open>type\<close> is the indirect type on that slot,
  under the entry's name: \<open>stab_find_tagged_type\<close> creates entries in this form and the case
  \<open>T\<close> unlinks an entry when it fills its slot.  \<open>pending_placeholder s name t\<close> says that
  \<open>t\<close> is the indirect type of such an entry for \<open>name\<close>.  \<open>same_session\<close> relates two handles
  that differ in the type tables only.
\<close>

definition tags_ok :: "stab_handle \<Rightarrow> bool" where
  "tags_ok s =
     list_all (\<lambda>st. st < length (tag_cells s)
                 \<and> tag_slot (tag_cells s ! st) = None
                 \<and> tag_type (tag_cells s ! st)
                     = Some (Indirect_type (Tag_slot st) (Some (tag_name (tag_cells s ! st)))))
       (tags s)"

definition pending_placeholder :: "stab_handle \<Rightarrow> string \<Rightarrow> debug_type \<Rightarrow> bool" where
  "pending_placeholder s name t =
     list_ex (\<lambda>st. t = Indirect_type (Tag_slot st) (Some name)
                 \<and> tag_name (tag_cells s ! st) = name
                 \<and> tag_type (tag_cells s ! st) = Some t
                 \<and> tag_slot (tag_cells s ! st) = None)
       (tags s)"

definition same_session :: "stab_handle \<Rightarrow> stab_handle \<Rightarrow> bool" where
  "same_session s s' =
     (tags s' = tags s \<and> tag_cells s' = tag_cells s \<and> sink s' = sink s
      \<and> sink_tags s' = sink_tags s \<and> sink_accepts s' = sink_accepts s
      \<and> self_crossref s' = self_crossref s \<and> files s' = files s)"

text \<open>
  A sink that remembers the tags it was given: \<open>debug_find_tagged_type\<close> answers the tagged
  type that \<open>debug_tag_type\<close> made under that name.  \<open>fleep_pending\<close> is the session after
  the record \<open>fleep:T20=xsfleep:\<close> alone; \<open>fleep_defined\<close> is the session over the remembering
  sink after the record \<open>fleep:T19=ea:0,;\<close>, and \<open>fleep_redefined\<close> the same session after
  \<open>fleep:T20=xsfleep:\<close> as well.
\<close>

fun tag_lookup :: "sink_call list \<Rightarrow> string \<Rightarrow> dtype" where
  "tag_lookup [] name = None"
| "tag_lookup (c # cs) name =
     (case c of
        Tag_type n ty \<Rightarrow> if n = name then Some (Tagged_type n ty) else tag_lookup cs name
      | _ \<Rightarrow> tag_lookup cs name)"

definition remembering :: stab_handle where
  "remembering = in_unit\<lparr>sink_tags := tag_lookup\<rparr>"

definition fleep_pending :: stab_handle where
  "fleep_pending =
     in_unit\<lparr>file_types := [Some 0],
       chunks := [\<lparr>st_next = None, base_index = 16,
                   types = (replicate 16 None)
                     [4 := Some (Tagged_type ''fleep'' (Indirect_type (Tag_slot 0) (Some ''fleep'')))]\<rparr>],
       tags := [0],
       tag_cells := [\<lparr>tag_name = ''fleep'', tag_kind = DEBUG_KIND_STRUCT, tag_slot = None,
                      tag_type = Some (Indirect_type (Tag_slot 0) (Some ''fleep''))\<rparr>],
       self_crossref := True,
       sink := [Set_filename ''main.c'',
                Tag_type ''fleep'' (Indirect_type (Tag_slot 0) (Some ''fleep''))]\<rparr>"

definition fleep_defined :: stab_handle where
  "fleep_defined =
     remembering\<lparr>file_types := [Some 0],
       chunks := [\<lparr>st_next = None, base_index = 16,
                   types = (replicate 16 None)
                     [3 := Some (Tagged_type ''fleep'' (Enum_type [''a''] [0]))]\<rparr>],
       sink := [Set_filename ''main.c'', Tag_type ''fleep'' (Enum_type [''a''] [0])]\<rparr>"

definition fleep_redefined :: stab_handle where
  "fleep_redefined =
     fleep_defined\<lparr>self_crossref := True,
       chunks := [\<lparr>st_next = None, base_index = 16,
                   types = (replicate 16 None)
                     [3 := Some (Tagged_type ''fleep'' (Enum_type [''a''] [0])),
                      4 := Some (Tagged_type ''fleep'' (Enum_type [''a''] [0]))]\<rparr>]\<rparr>"










section \<open>Properties\<close>

subsection \<open>Pending variables\<close>

lemma record_variables_pending:
  "\<forall>v\<in>set vs. queues s v \<Longrightarrow> record_variables s vs = s\<lparr>pending := rev vs @ pending s\<rparr>"
proof (induction vs arbitrary: s)
  case Nil
  then show ?case by simp
next
  case (Cons v vs)
  have q: "queues s v" using Cons.prems by simp
  let ?s1 = "s\<lparr>pending := v # pending s\<rparr>"
  have step: "snd (stab_record_variable s (pv_name v) (pv_type v) (pv_kind v) (pv_val v)) = ?s1"
    using q by (auto simp add: stab_record_variable_def queues_def)
  have "\<forall>w\<in>set vs. queues ?s1 w" using Cons.prems by (simp add: queues_def)
  from Cons.IH[OF this] show ?case by (simp add: step)
qed

lemma emit_vars_accept:
  "\<forall>h c. sink_accepts s h c \<Longrightarrow> emit_vars vs s = (True, s\<lparr>sink := sink s @ map var_call vs\<rparr>)"
proof (induction vs arbitrary: s)
  case Nil
  then show ?case by simp
next
  case (Cons v vs)
  let ?s1 = "s\<lparr>sink := sink s @ [var_call v]\<rparr>"
  have a: "debug_record_variable (pv_name v) (pv_type v) (pv_kind v) (pv_val v) s = (True, ?s1)"
    using Cons.prems by (simp add: debug_record_variable_def call_sink_def var_call_def)
  have "\<forall>h c. sink_accepts ?s1 h c" using Cons.prems by simp
  from Cons.IH[OF this] show ?case by (simp add: a)
qed

lemma emit_pending_accept:
  "\<forall>h c. sink_accepts s h c \<Longrightarrow>
   stab_emit_pending_vars s = (True, s\<lparr>sink := sink s @ map var_call (pending s), pending := []\<rparr>)"
  by (simp add: stab_emit_pending_vars_def emit_vars_accept)

text \<open>
  C3, as the code has it.  Variables held back inside a function are pushed on the front of
  \<open>info->pending\<close>, and the flush walks that list from its head: over a sink that accepts
  them, the flush hands the variables to the sink most recent first (the reverse of the
  order of their records), each one once, and empties the list; a second flush with
  nothing queued in between leaves the sink as it is.
\<close>

theorem pending_vars_flushed_once:
  assumes acc: "\<forall>h c. sink_accepts s h c"
    and q: "\<forall>v\<in>set vs. queues s v"
    and e: "pending s = []"
  shows "sink (record_variables s vs) = sink s
    \<and> stab_emit_pending_vars (record_variables s vs)
        = (True, s\<lparr>sink := sink s @ map var_call (rev vs), pending := []\<rparr>)
    \<and> stab_emit_pending_vars (s\<lparr>sink := sink s @ map var_call (rev vs), pending := []\<rparr>)
        = (True, s\<lparr>sink := sink s @ map var_call (rev vs), pending := []\<rparr>)"
proof -
  let ?s1 = "record_variables s vs"
  let ?s2 = "s\<lparr>sink := sink s @ map var_call (rev vs), pending := []\<rparr>"
  have s1: "?s1 = s\<lparr>pending := rev vs\<rparr>"
    using record_variables_pending[OF q] e by simp
  have a1: "\<forall>h c. sink_accepts ?s1 h c" using acc by (simp add: s1)
  have a2: "\<forall>h c. sink_accepts ?s2 h c" using acc by simp
  have "stab_emit_pending_vars ?s1 = (True, ?s2)"
    using emit_pending_accept[OF a1] by (simp add: s1)
  moreover have "stab_emit_pending_vars ?s2 = (True, ?s2)"
    using emit_pending_accept[OF a2] by simp
  ultimately show ?thesis by (simp add: s1)
qed

theorem pending_vars_flushed_once_witness:
  "sink (record_variables in_function [var_a, var_b]) = sink in_function
    \<and> stab_emit_pending_vars (record_variables in_function [var_a, var_b])
        = (True, in_function\<lparr>sink := sink in_function @ map var_call (rev [var_a, var_b]), pending := []\<rparr>)
    \<and> stab_emit_pending_vars (in_function\<lparr>sink := sink in_function @ map var_call (rev [var_a, var_b]), pending := []\<rparr>)
        = (True, in_function\<lparr>sink := sink in_function @ map var_call (rev [var_a, var_b]), pending := []\<rparr>)"
proof -
  have a: "\<forall>h c. sink_accepts in_function h c"
    by (simp add: in_function_def fresh_def start_stab_def)
  have q: "\<forall>v\<in>set [var_a, var_b]. queues in_function v"
    by (simp add: queues_def in_function_def fresh_def start_stab_def var_a_def var_b_def)
  have e: "pending in_function = []"
    by (simp add: in_function_def fresh_def start_stab_def)
  show ?thesis using pending_vars_flushed_once[OF a q e] .
qed

text \<open>
  C3 as stated asks for the order of queueing.  Two locals \<open>a\<close> then \<open>b\<close> queued inside a
  function reach the sink as \<open>b\<close> then \<open>a\<close>.
\<close>

theorem pending_vars_fifo_counterexample:
  "sink (snd (stab_emit_pending_vars (record_variables in_function [var_a, var_b])))
     = [var_call var_b, var_call var_a]
   \<and> [var_call var_b, var_call var_a] \<noteq> map var_call [var_a, var_b]"
  by (simp add: in_function_def fresh_def start_stab_def var_a_def var_b_def var_call_def
      stab_record_variable_def stab_emit_pending_vars_def debug_record_variable_def call_sink_def)

subsection \<open>The type number registry\<close>

lemma wf_types_next:
  "wf_types s \<Longrightarrow> c < length (chunks s) \<Longrightarrow> st_next (chunks s ! c) = Some d \<Longrightarrow>
   d < length (chunks s) \<and> base_index (chunks s ! c) < base_index (chunks s ! d)"
  by (auto simp: wf_types_def list_all_length split: option.splits)

lemma wf_types_head:
  "wf_types s \<Longrightarrow> f < files s \<Longrightarrow> file_types s ! f = Some c \<Longrightarrow> c < length (chunks s)"
  by (auto simp: wf_types_def list_all_length split: option.splits)

lemma rank_less_length: "c < length (chunks s) \<Longrightarrow> rank s c < length (chunks s)"
proof -
  assume c: "c < length (chunks s)"
  let ?A = "{d. d < length (chunks s) \<and> base_index (chunks s ! c) < base_index (chunks s ! d)}"
  have "?A \<subseteq> {..<length (chunks s)} - {c}" by auto
  then have "card ?A \<le> card ({..<length (chunks s)} - {c})"
    by (intro card_mono) auto
  also have "\<dots> < length (chunks s)" using c by simp
  finally show ?thesis by (simp add: rank_def)
qed

lemma rank_next:
  assumes "d < length (chunks s)" "base_index (chunks s ! c) < base_index (chunks s ! d)"
  shows "rank s d < rank s c"
proof -
  let ?A = "\<lambda>x. {e. e < length (chunks s) \<and> base_index (chunks s ! x) < base_index (chunks s ! e)}"
  have "?A d \<subset> ?A c" using assms by auto
  moreover have "finite (?A c)" by simp
  ultimately show ?thesis unfolding rank_def by (rule psubset_card_mono[rotated])
qed

lemma walk_next_succeeds:
  "wf_types s \<Longrightarrow> c < length (chunks s) \<Longrightarrow> rank s c < k \<Longrightarrow>
   \<exists>ps. walk_chunks k s b (Next_of c) = Some ps"
proof (induction k arbitrary: c)
  case 0
  then show ?case by simp
next
  case (Suc k)
  show ?case
  proof (cases "st_next (chunks s ! c)")
    case None
    then show ?thesis using Suc.prems by (simp add: deref_def)
  next
    case (Some d)
    from wf_types_next[OF Suc.prems(1,2) Some]
    have d: "d < length (chunks s)" and lt: "base_index (chunks s ! c) < base_index (chunks s ! d)"
      by simp_all
    have "rank s d < k" using rank_next[OF d lt] Suc.prems(3) by simp
    from Suc.IH[OF Suc.prems(1) d this] obtain ps where "walk_chunks k s b (Next_of d) = Some ps" ..
    then show ?thesis using Some Suc.prems(2) d by (simp add: deref_def)
  qed
qed

lemma walk_head_succeeds:
  assumes wf: "wf_types s" and f: "f < files s"
  shows "\<exists>ps. walk_chunks (Suc (length (chunks s))) s b (Head f) = Some ps"
proof (cases "file_types s ! f")
  case None
  then show ?thesis using wf f by (simp add: deref_def wf_types_def)
next
  case (Some c)
  have c: "c < length (chunks s)" using wf_types_head[OF wf f Some] .
  from walk_next_succeeds[OF wf c rank_less_length[OF c]]
  obtain ps where "walk_chunks (length (chunks s)) s b (Next_of c) = Some ps" ..
  then show ?thesis using Some wf f c by (simp add: deref_def wf_types_def)
qed

lemma walk_result:
  "walk_chunks k s b p0 = Some ps \<Longrightarrow>
   deref s ps = Some None
   \<or> (\<exists>c. deref s ps = Some (Some c) \<and> c < length (chunks s) \<and> \<not> base_index (chunks s ! c) < b)"
proof (induction k arbitrary: p0)
  case 0
  then show ?case by simp
next
  case (Suc k)
  then show ?case
    by (auto split: option.splits if_splits)
qed

lemma walk_stable:
  assumes "walk_chunks k s b p0 = Some ps"
    and "\<And>p. p \<noteq> ps \<Longrightarrow> deref s p \<noteq> None \<Longrightarrow> deref s1 p = deref s p"
    and "\<And>c. c < length (chunks s) \<Longrightarrow>
           c < length (chunks s1) \<and> base_index (chunks s1 ! c) = base_index (chunks s ! c)"
    and "deref s1 ps = Some None
         \<or> (\<exists>n. deref s1 ps = Some (Some n) \<and> n < length (chunks s1) \<and> \<not> base_index (chunks s1 ! n) < b)"
    and "k \<le> k'"
  shows "walk_chunks k' s1 b p0 = Some ps"
  using assms(1,5)
proof (induction k arbitrary: p0 k')
  case 0
  then show ?case by simp
next
  case (Suc k)
  from Suc.prems(2) obtain j where k': "k' = Suc j" and kj: "k \<le> j" by (cases k') auto
  show ?case
  proof (cases "p0 = ps")
    case True
    then show ?thesis using assms(4) by (auto simp: k')
  next
    case False
    from Suc.prems(1) obtain c where d: "deref s p0 = Some (Some c)" and c: "c < length (chunks s)"
      and lt: "base_index (chunks s ! c) < b" and w: "walk_chunks k s b (Next_of c) = Some ps"
      using False by (auto split: option.splits if_splits)
    have d1: "deref s1 p0 = Some (Some c)" using assms(2)[OF False] d by simp
    from Suc.IH[OF w kj] show ?thesis using d1 assms(3)[OF c] lt by (simp add: k')
  qed
qed

lemma find_slot_found:
  assumes "unat (fst n) < files s"
    and "walk_chunks (Suc (length (chunks s))) s (slot_base n) (Head (unat (fst n))) = Some ps"
    and "deref s ps = Some (Some c)" and "c < length (chunks s)"
    and "base_index (chunks s ! c) = slot_base n"
  shows "stab_find_slot s n = Some (Some (Type_slot c (slot_offset n)), s)"
  using assms unfolding stab_find_slot_def slot_base_def slot_offset_def Let_def
  by (simp del: walk_chunks.simps)

lemma find_slot_elim:
  assumes "stab_find_slot s n = Some (Some slot, s1)"
  shows "unat (fst n) < files s \<and>
    (\<exists>ps. walk_chunks (Suc (length (chunks s))) s (slot_base n) (Head (unat (fst n))) = Some ps \<and>
       ((\<exists>c. deref s ps = Some (Some c) \<and> c < length (chunks s)
            \<and> base_index (chunks s ! c) = slot_base n
            \<and> slot = Type_slot c (slot_offset n) \<and> s1 = s)
        \<or> (\<exists>nxt. deref s ps = Some nxt
            \<and> slot = Type_slot (length (chunks s)) (slot_offset n)
            \<and> s1 = assign ps (Some (length (chunks s)))
                     (s\<lparr>chunks := chunks s @ [new_chunk nxt (slot_base n)]\<rparr>))))"
  using assms unfolding stab_find_slot_def slot_base_def slot_offset_def Let_def new_chunk_def
  by (auto simp del: walk_chunks.simps split: if_splits option.splits)

lemma nth_update_any:
  "xs[i := v] ! j = (if i = j \<and> i < length xs then v else xs ! j)"
  by (cases "i < length xs") (auto simp: nth_list_update list_update_beyond)

lemma files_assign [simp]: "files (assign ps v s) = files s"
  by (simp add: assign_def split: chunk_ptr.splits)

lemma length_chunks_assign [simp]: "length (chunks (assign ps v s)) = length (chunks s)"
  by (simp add: assign_def split: chunk_ptr.splits)

lemma deref_assign_other:
  "p \<noteq> ps \<Longrightarrow> deref (assign ps v s) p = deref s p"
  by (auto simp: deref_def assign_def nth_update_any split: chunk_ptr.splits)

lemma deref_assign_same:
  "deref s ps \<noteq> None \<Longrightarrow> deref (assign ps v s) ps = Some v"
  by (auto simp: deref_def assign_def split: chunk_ptr.splits if_splits)

lemma deref_append:
  "deref s p \<noteq> None \<Longrightarrow> deref (s\<lparr>chunks := chunks s @ [ch]\<rparr>) p = deref s p"
  by (auto simp: deref_def nth_append split: chunk_ptr.splits if_splits)

lemma base_index_assign:
  "c < length (chunks s) \<Longrightarrow> base_index (chunks (assign ps v s) ! c) = base_index (chunks s ! c)"
  by (cases ps) (auto simp: assign_def nth_update_any)

lemma find_slot_idem:
  assumes "stab_find_slot s n = Some (Some slot, s1)"
  shows "stab_find_slot s1 n = Some (Some slot, s1)"
proof -
  from find_slot_elim[OF assms] obtain ps where
    f: "unat (fst n) < files s" and
    w: "walk_chunks (Suc (length (chunks s))) s (slot_base n) (Head (unat (fst n))) = Some ps" and
    cases: "(\<exists>c. deref s ps = Some (Some c) \<and> c < length (chunks s)
            \<and> base_index (chunks s ! c) = slot_base n
            \<and> slot = Type_slot c (slot_offset n) \<and> s1 = s)
        \<or> (\<exists>nxt. deref s ps = Some nxt
            \<and> slot = Type_slot (length (chunks s)) (slot_offset n)
            \<and> s1 = assign ps (Some (length (chunks s)))
                     (s\<lparr>chunks := chunks s @ [new_chunk nxt (slot_base n)]\<rparr>))"
    by blast
  from cases show ?thesis
  proof
    assume "\<exists>c. deref s ps = Some (Some c) \<and> c < length (chunks s)
            \<and> base_index (chunks s ! c) = slot_base n
            \<and> slot = Type_slot c (slot_offset n) \<and> s1 = s"
    then show ?thesis using assms by auto
  next
    assume "\<exists>nxt. deref s ps = Some nxt
            \<and> slot = Type_slot (length (chunks s)) (slot_offset n)
            \<and> s1 = assign ps (Some (length (chunks s)))
                     (s\<lparr>chunks := chunks s @ [new_chunk nxt (slot_base n)]\<rparr>)"
    then obtain nxt where d: "deref s ps = Some nxt"
      and slot: "slot = Type_slot (length (chunks s)) (slot_offset n)"
      and s1: "s1 = assign ps (Some (length (chunks s)))
                     (s\<lparr>chunks := chunks s @ [new_chunk nxt (slot_base n)]\<rparr>)"
      by blast
    let ?n = "length (chunks s)"
    let ?sa = "s\<lparr>chunks := chunks s @ [new_chunk nxt (slot_base n)]\<rparr>"
    have len1: "length (chunks s1) = Suc ?n" by (simp add: s1)
    have files1: "files s1 = files s" by (simp add: s1)
    have dps: "deref s1 ps = Some (Some ?n)"
      unfolding s1 by (rule deref_assign_same) (simp add: deref_append d)
    have bn: "base_index (chunks s1 ! ?n) = slot_base n"
      unfolding s1 by (subst base_index_assign) (simp_all add: new_chunk_def)
    have other: "\<And>p. p \<noteq> ps \<Longrightarrow> deref s p \<noteq> None \<Longrightarrow> deref s1 p = deref s p"
      unfolding s1 by (simp add: deref_assign_other deref_append)
    have base: "\<And>c. c < length (chunks s) \<Longrightarrow>
           c < length (chunks s1) \<and> base_index (chunks s1 ! c) = base_index (chunks s ! c)"
      unfolding s1 by (simp add: base_index_assign nth_append)
    have fin: "deref s1 ps = Some None
         \<or> (\<exists>m. deref s1 ps = Some (Some m) \<and> m < length (chunks s1)
               \<and> \<not> base_index (chunks s1 ! m) < slot_base n)"
      using dps bn len1 by simp
    have w1: "walk_chunks (Suc (length (chunks s1))) s1 (slot_base n) (Head (unat (fst n))) = Some ps"
      by (rule walk_stable[OF w other base fin]) (simp_all add: len1)
    show ?thesis
      unfolding slot
      by (rule find_slot_found[OF _ w1 dps _ bn]) (simp_all add: files1 f len1)
  qed
qed

lemma slot_offset_less: "slot_offset n < unat STAB_TYPES_SLOTS"
proof -
  have "snd n - snd n div STAB_TYPES_SLOTS * STAB_TYPES_SLOTS = snd n mod STAB_TYPES_SLOTS"
    by (rule minus_div_mult_eq_mod)
  moreover have "unat (snd n mod STAB_TYPES_SLOTS) < unat STAB_TYPES_SLOTS"
    by (simp add: unat_mod STAB_TYPES_SLOTS_def)
  ultimately show ?thesis by (simp add: slot_offset_def slot_base_def)
qed

lemma find_slot_succeeds:
  assumes wf: "wf_types s" and f: "unat (fst n) < files s"
  shows "\<exists>c s1. stab_find_slot s n = Some (Some (Type_slot c (slot_offset n)), s1)
           \<and> c < length (chunks s1) \<and> length (types (chunks s1 ! c)) = unat STAB_TYPES_SLOTS"
proof -
  from walk_head_succeeds[OF wf f] obtain ps where
    w: "walk_chunks (Suc (length (chunks s))) s (slot_base n) (Head (unat (fst n))) = Some ps" ..
  from walk_result[OF w] consider
    (null) "deref s ps = Some None"
    | (chunk) c where "deref s ps = Some (Some c)" "c < length (chunks s)"
    by blast
  then show ?thesis
  proof cases
    case null
    let ?s1 = "assign ps (Some (length (chunks s)))
                (s\<lparr>chunks := chunks s @ [new_chunk None (slot_base n)]\<rparr>)"
    have "stab_find_slot s n = Some (Some (Type_slot (length (chunks s)) (slot_offset n)), ?s1)"
      using f w null unfolding stab_find_slot_def slot_base_def slot_offset_def Let_def new_chunk_def
      by (simp del: walk_chunks.simps)
    moreover have "types (chunks ?s1 ! length (chunks s)) = replicate (unat STAB_TYPES_SLOTS) None"
      by (cases ps) (auto simp: assign_def nth_update_any new_chunk_def nth_append)
    ultimately show ?thesis by simp
  next
    case chunk
    show ?thesis
    proof (cases "base_index (chunks s ! c) = slot_base n")
      case True
      have "length (types (chunks s ! c)) = unat STAB_TYPES_SLOTS"
        using wf chunk(2) by (simp add: wf_types_def list_all_length)
      then show ?thesis using find_slot_found[OF f w chunk(1,2) True] chunk(2) by simp
    next
      case False
      let ?s1 = "assign ps (Some (length (chunks s)))
                  (s\<lparr>chunks := chunks s @ [new_chunk (Some c) (slot_base n)]\<rparr>)"
      have "stab_find_slot s n = Some (Some (Type_slot (length (chunks s)) (slot_offset n)), ?s1)"
        using f w chunk False
        unfolding stab_find_slot_def slot_base_def slot_offset_def Let_def new_chunk_def
        by (simp del: walk_chunks.simps)
      moreover have "types (chunks ?s1 ! length (chunks s)) = replicate (unat STAB_TYPES_SLOTS) None"
        by (cases ps) (auto simp: assign_def nth_update_any new_chunk_def nth_append)
      ultimately show ?thesis by simp
    qed
  qed
qed

lemma files_slot_set [simp]: "files (slot_set r v s) = files s"
  by (simp add: slot_set_def split: slot_ref.splits)

lemma length_chunks_slot_set [simp]: "length (chunks (slot_set r v s)) = length (chunks s)"
  by (simp add: slot_set_def split: slot_ref.splits)

lemma deref_slot_set [simp]: "deref (slot_set r v s) p = deref s p"
  by (cases r; cases p) (auto simp: deref_def slot_set_def nth_update_any)

lemma base_index_slot_set [simp]:
  "base_index (chunks (slot_set r v s) ! c) = base_index (chunks s ! c)"
  by (cases r) (auto simp: slot_set_def nth_update_any)

lemma slot_get_slot_set:
  "c < length (chunks s) \<Longrightarrow> i < length (types (chunks s ! c)) \<Longrightarrow>
   slot_get (slot_set (Type_slot c i) v s) (Type_slot c i) = v"
  by (simp add: slot_get_def slot_set_def)

lemma find_slot_slot_set:
  assumes "stab_find_slot s n = Some (Some slot, s)"
  shows "stab_find_slot (slot_set r v s) n = Some (Some slot, slot_set r v s)"
proof -
  from find_slot_elim[OF assms] obtain ps where
    f: "unat (fst n) < files s" and
    w: "walk_chunks (Suc (length (chunks s))) s (slot_base n) (Head (unat (fst n))) = Some ps" and
    cases: "(\<exists>c. deref s ps = Some (Some c) \<and> c < length (chunks s)
            \<and> base_index (chunks s ! c) = slot_base n
            \<and> slot = Type_slot c (slot_offset n))
        \<or> (\<exists>nxt. s = assign ps (Some (length (chunks s)))
                     (s\<lparr>chunks := chunks s @ [new_chunk nxt (slot_base n)]\<rparr>))"
    by blast
  from cases show ?thesis
  proof
    assume "\<exists>c. deref s ps = Some (Some c) \<and> c < length (chunks s)
            \<and> base_index (chunks s ! c) = slot_base n
            \<and> slot = Type_slot c (slot_offset n)"
    then obtain c where d: "deref s ps = Some (Some c)" and c: "c < length (chunks s)"
      and b: "base_index (chunks s ! c) = slot_base n" and slot: "slot = Type_slot c (slot_offset n)"
      by blast
    let ?s1 = "slot_set r v s"
    have fin: "deref ?s1 ps = Some None
         \<or> (\<exists>m. deref ?s1 ps = Some (Some m) \<and> m < length (chunks ?s1)
               \<and> \<not> base_index (chunks ?s1 ! m) < slot_base n)"
      using d c b by simp
    have w1: "walk_chunks (Suc (length (chunks ?s1))) ?s1 (slot_base n) (Head (unat (fst n))) = Some ps"
      by (rule walk_stable[OF w _ _ fin]) simp_all
    show ?thesis unfolding slot
      by (rule find_slot_found[OF _ w1]) (simp_all add: f d c b)
  next
    assume "\<exists>nxt. s = assign ps (Some (length (chunks s)))
                     (s\<lparr>chunks := chunks s @ [new_chunk nxt (slot_base n)]\<rparr>)"
    then obtain nxt where "s = assign ps (Some (length (chunks s)))
                     (s\<lparr>chunks := chunks s @ [new_chunk nxt (slot_base n)]\<rparr>)" ..
    then have "length (chunks s) = length (chunks (assign ps (Some (length (chunks s)))
                     (s\<lparr>chunks := chunks s @ [new_chunk nxt (slot_base n)]\<rparr>)))" by simp
    then show ?thesis by simp
  qed
qed

text \<open>
  C1, as the code has it.  For a type number whose file index is in range and which is not
  a predefined XCOFF number, \<open>stab_find_slot\<close> comes back with the slot of that number.
  If the slot is still empty, \<open>stab_find_type\<close> answers an indirect type that holds the
  address of this slot; \<open>stab_record_type\<close> with a type \<open>h\<close> then succeeds and writes \<open>h\<close>
  into this very slot, so the indirect type resolves to \<open>h\<close>; and \<open>stab_find_type\<close> after
  that answers \<open>h\<close> itself.
\<close>

theorem registry_forward_reference:
  assumes wf: "wf_types s" and f: "unat (fst n) < files s" and nx: "\<not> xcoff_number n"
  shows "\<exists>slot s1. stab_find_slot s n = Some (Some slot, s1) \<and>
           (slot_get s1 slot = None \<longrightarrow>
              stab_find_type s n = Some (Some (Indirect_type slot None), s1) \<and>
              stab_record_type s1 n (Some h) = Some (True, slot_set slot (Some h) s1) \<and>
              slot_get (slot_set slot (Some h) s1) slot = Some h \<and>
              stab_find_type (slot_set slot (Some h) s1) n
                = Some (Some h, slot_set slot (Some h) s1))"
proof -
  from find_slot_succeeds[OF wf f] obtain c s1 where
    fs: "stab_find_slot s n = Some (Some (Type_slot c (slot_offset n)), s1)"
    and c: "c < length (chunks s1)" and len: "length (types (chunks s1 ! c)) = unat STAB_TYPES_SLOTS"
    by blast
  let ?slot = "Type_slot c (slot_offset n)"
  let ?s2 = "slot_set ?slot (Some h) s1"
  have again: "stab_find_slot s1 n = Some (Some ?slot, s1)" using find_slot_idem[OF fs] .
  have after: "stab_find_slot ?s2 n = Some (Some ?slot, ?s2)" using find_slot_slot_set[OF again] .
  have get: "slot_get ?s2 ?slot = Some h"
    using slot_get_slot_set[OF c] slot_offset_less[of n] len by simp
  have nx': "\<not> (fst n = 0 \<and> snd n <s 0)" using nx by (simp add: xcoff_number_def)
  have "slot_get s1 ?slot = None \<longrightarrow>
              stab_find_type s n = Some (Some (Indirect_type ?slot None), s1)"
    using nx' fs by (auto simp add: stab_find_type_def)
  moreover have "stab_record_type s1 n (Some h) = Some (True, ?s2)"
    using again by (simp add: stab_record_type_def)
  moreover have "stab_find_type ?s2 n = Some (Some h, ?s2)"
    using nx' after get by (auto simp add: stab_find_type_def)
  ultimately have "stab_find_slot s n = Some (Some ?slot, s1) \<and>
           (slot_get s1 ?slot = None \<longrightarrow>
              stab_find_type s n = Some (Some (Indirect_type ?slot None), s1) \<and>
              stab_record_type s1 n (Some h) = Some (True, ?s2) \<and>
              slot_get ?s2 ?slot = Some h \<and>
              stab_find_type ?s2 n = Some (Some h, ?s2))"
    using fs get by simp
  then show ?thesis
    by - (rule exI[of _ "?slot"], rule exI[of _ s1], assumption)
qed

text \<open>
  C5, as the code has it.  For a type number whose file index is in range,
  \<open>stab_record_type\<close> with \<open>h1\<close> and then with \<open>h2\<close> succeeds both times, and unless the
  number is a predefined XCOFF number, \<open>stab_find_type\<close> then answers \<open>h2\<close>.
\<close>

theorem registry_redefinition:
  assumes wf: "wf_types s" and f: "unat (fst n) < files s"
  shows "\<exists>s1 s2. stab_record_type s n (Some h1) = Some (True, s1)
           \<and> stab_record_type s1 n (Some h2) = Some (True, s2)
           \<and> (\<not> xcoff_number n \<longrightarrow> stab_find_type s2 n = Some (Some h2, s2))"
proof -
  from find_slot_succeeds[OF wf f] obtain c s0 where
    fs: "stab_find_slot s n = Some (Some (Type_slot c (slot_offset n)), s0)"
    and c: "c < length (chunks s0)" and len: "length (types (chunks s0 ! c)) = unat STAB_TYPES_SLOTS"
    by blast
  let ?slot = "Type_slot c (slot_offset n)"
  let ?s1 = "slot_set ?slot (Some h1) s0"
  let ?s2 = "slot_set ?slot (Some h2) ?s1"
  have a0: "stab_find_slot s0 n = Some (Some ?slot, s0)" using find_slot_idem[OF fs] .
  have a1: "stab_find_slot ?s1 n = Some (Some ?slot, ?s1)" using find_slot_slot_set[OF a0] .
  have a2: "stab_find_slot ?s2 n = Some (Some ?slot, ?s2)" using find_slot_slot_set[OF a1] .
  have r1: "stab_record_type s n (Some h1) = Some (True, ?s1)"
    using fs by (simp add: stab_record_type_def)
  have r2: "stab_record_type ?s1 n (Some h2) = Some (True, ?s2)"
    using a1 by (simp add: stab_record_type_def)
  have c1: "c < length (chunks ?s1)" using c by simp
  have len1: "slot_offset n < length (types (chunks ?s1 ! c))"
    using slot_offset_less[of n] len c by (simp add: slot_set_def)
  have get: "slot_get ?s2 ?slot = Some h2"
    using slot_get_slot_set[OF c1 len1] .
  have "\<not> xcoff_number n \<longrightarrow> stab_find_type ?s2 n = Some (Some h2, ?s2)"
    using a2 get by (auto simp add: stab_find_type_def xcoff_number_def)
  then have "stab_record_type s n (Some h1) = Some (True, ?s1)
           \<and> stab_record_type ?s1 n (Some h2) = Some (True, ?s2)
           \<and> (\<not> xcoff_number n \<longrightarrow> stab_find_type ?s2 n = Some (Some h2, ?s2))"
    using r1 r2 by simp
  then show ?thesis
    by - (rule exI[of _ "?s1"], rule exI[of _ "?s2"], assumption)
qed

lemma walk_pred:
  "walk_chunks k s b p0 = Some (Next_of d) \<Longrightarrow>
   p0 = Next_of d \<or> (d < length (chunks s) \<and> base_index (chunks s ! d) < b)"
proof (induction k arbitrary: p0)
  case 0
  then show ?case by simp
next
  case (Suc k)
  show ?case
  proof (cases "p0 = Next_of d")
    case True
    then show ?thesis by simp
  next
    case False
    from Suc.prems False obtain c where c: "c < length (chunks s)"
      and lt: "base_index (chunks s ! c) < b" and w: "walk_chunks k s b (Next_of c) = Some (Next_of d)"
      by (auto split: option.splits if_splits)
    from Suc.IH[OF w] show ?thesis using c lt by auto
  qed
qed

lemma wf_types_slot_set:
  "wf_types s \<Longrightarrow> wf_types (slot_set r v s)"
  by (cases r)
     (auto simp: wf_types_def slot_set_def list_all_length nth_update_any split: option.splits)

lemma wf_types_alloc:
  assumes wf: "wf_types s"
    and w: "walk_chunks k s b (Head f) = Some ps"
    and d: "deref s ps = Some nxt"
    and nx: "\<And>c. nxt = Some c \<Longrightarrow> c < length (chunks s) \<and> b < base_index (chunks s ! c)"
  shows "wf_types (assign ps (Some (length (chunks s))) (s\<lparr>chunks := chunks s @ [new_chunk nxt b]\<rparr>))"
proof (cases ps)
  case (Head g)
  then show ?thesis
    using wf d nx
    by (auto simp: wf_types_def assign_def list_all_length nth_update_any nth_append new_chunk_def
          deref_def less_Suc_eq split: option.splits if_splits)
next
  case (Next_of e)
  from walk_pred[OF w[unfolded Next_of]]
  have e: "e < length (chunks s)" and lt: "base_index (chunks s ! e) < b" by simp_all
  show ?thesis
    using wf d nx e lt unfolding Next_of
    by (auto simp: wf_types_def assign_def list_all_length nth_update_any nth_append new_chunk_def
          deref_def less_Suc_eq split: option.splits if_splits)
qed

lemma wf_types_find_slot:
  assumes wf: "wf_types s" and fs: "stab_find_slot s n = Some (r, s1)"
  shows "wf_types s1"
proof (cases r)
  case None
  then show ?thesis using fs wf
    by (auto simp: stab_find_slot_def Let_def report_def wf_types_def list_all_length
          simp del: walk_chunks.simps split: if_splits option.splits)
next
  case (Some slot)
  from find_slot_elim[OF fs[unfolded Some]] obtain ps where
    w: "walk_chunks (Suc (length (chunks s))) s (slot_base n) (Head (unat (fst n))) = Some ps" and
    cases: "(\<exists>c. deref s ps = Some (Some c) \<and> c < length (chunks s)
            \<and> base_index (chunks s ! c) = slot_base n
            \<and> slot = Type_slot c (slot_offset n) \<and> s1 = s)
        \<or> (\<exists>nxt. deref s ps = Some nxt
            \<and> slot = Type_slot (length (chunks s)) (slot_offset n)
            \<and> s1 = assign ps (Some (length (chunks s)))
                     (s\<lparr>chunks := chunks s @ [new_chunk nxt (slot_base n)]\<rparr>))"
    by blast
  from cases show ?thesis
  proof
    assume "\<exists>c. deref s ps = Some (Some c) \<and> c < length (chunks s)
            \<and> base_index (chunks s ! c) = slot_base n
            \<and> slot = Type_slot c (slot_offset n) \<and> s1 = s"
    then show ?thesis using wf by auto
  next
    assume "\<exists>nxt. deref s ps = Some nxt
            \<and> slot = Type_slot (length (chunks s)) (slot_offset n)
            \<and> s1 = assign ps (Some (length (chunks s)))
                     (s\<lparr>chunks := chunks s @ [new_chunk nxt (slot_base n)]\<rparr>)"
    then obtain nxt where d: "deref s ps = Some nxt"
      and s1: "s1 = assign ps (Some (length (chunks s)))
                     (s\<lparr>chunks := chunks s @ [new_chunk nxt (slot_base n)]\<rparr>)"
      by blast
    have nx: "\<And>c. nxt = Some c \<Longrightarrow> c < length (chunks s) \<and> slot_base n < base_index (chunks s ! c)"
    proof -
      fix c assume c: "nxt = Some c"
      from walk_result[OF w] d c have 1: "c < length (chunks s)"
        and 2: "\<not> base_index (chunks s ! c) < slot_base n" by auto
      have "base_index (chunks s ! c) \<noteq> slot_base n"
      proof
        assume eq: "base_index (chunks s ! c) = slot_base n"
        have "unat (fst n) < files s" using find_slot_elim[OF fs[unfolded Some]] by simp
        from find_slot_found[OF this w d[unfolded c] 1 eq] fs
        have "s1 = s" by simp
        then have "length (chunks s1) = length (chunks s)" by simp
        then show False by (simp add: s1)
      qed
      then show "c < length (chunks s) \<and> slot_base n < base_index (chunks s ! c)"
        using 1 2 by auto
    qed
    show ?thesis unfolding s1 by (rule wf_types_alloc[OF wf w d nx])
  qed
qed

lemma wf_types_record_type:
  "wf_types s \<Longrightarrow> stab_record_type s n t = Some (r, s1) \<Longrightarrow> wf_types s1"
  by (auto simp: stab_record_type_def wf_types_slot_set dest: wf_types_find_slot
        split: option.splits prod.splits)

lemma find_slot_fresh_5:
  "stab_find_slot fresh (0, 5) = Some (Some (Type_slot 0 5), fresh_5)"
  by (simp add: fresh_def fresh_5_def start_stab_def stab_find_slot_def deref_def assign_def
      STAB_TYPES_SLOTS_def new_chunk_def)

lemma wf_types_fresh: "wf_types fresh"
  by (simp add: wf_types_def fresh_def start_stab_def)

lemma slot_get_fresh_5: "slot_get fresh_5 (Type_slot 0 5) = None"
  by (simp add: slot_get_def fresh_5_def new_chunk_def STAB_TYPES_SLOTS_def)

theorem registry_forward_reference_witness:
  "wf_types fresh \<and> unat (fst (0 :: cint, 5 :: cint)) < files fresh \<and> \<not> xcoff_number (0, 5)
   \<and> slot_get fresh_5 (Type_slot 0 5) = None
   \<and> stab_find_type fresh (0, 5) = Some (Some (Indirect_type (Type_slot 0 5) None), fresh_5)
   \<and> stab_record_type fresh_5 (0, 5) (Some Void_type)
        = Some (True, slot_set (Type_slot 0 5) (Some Void_type) fresh_5)
   \<and> slot_get (slot_set (Type_slot 0 5) (Some Void_type) fresh_5) (Type_slot 0 5) = Some Void_type
   \<and> stab_find_type (slot_set (Type_slot 0 5) (Some Void_type) fresh_5) (0, 5)
        = Some (Some Void_type, slot_set (Type_slot 0 5) (Some Void_type) fresh_5)"
proof -
  have f: "unat (fst (0 :: cint, 5 :: cint)) < files fresh"
    by (simp add: fresh_def start_stab_def)
  have nx: "\<not> xcoff_number (0, 5)"
    by (simp add: xcoff_number_def word_sless_alt)
  from registry_forward_reference[OF wf_types_fresh f nx, of Void_type]
  obtain slot where "\<exists>s1. stab_find_slot fresh (0, 5) = Some (Some slot, s1) \<and>
           (slot_get s1 slot = None \<longrightarrow>
              stab_find_type fresh (0, 5) = Some (Some (Indirect_type slot None), s1) \<and>
              stab_record_type s1 (0, 5) (Some Void_type) = Some (True, slot_set slot (Some Void_type) s1) \<and>
              slot_get (slot_set slot (Some Void_type) s1) slot = Some Void_type \<and>
              stab_find_type (slot_set slot (Some Void_type) s1) (0, 5)
                = Some (Some Void_type, slot_set slot (Some Void_type) s1))" ..
  then obtain s1 where ab: "stab_find_slot fresh (0, 5) = Some (Some slot, s1) \<and>
           (slot_get s1 slot = None \<longrightarrow>
              stab_find_type fresh (0, 5) = Some (Some (Indirect_type slot None), s1) \<and>
              stab_record_type s1 (0, 5) (Some Void_type) = Some (True, slot_set slot (Some Void_type) s1) \<and>
              slot_get (slot_set slot (Some Void_type) s1) slot = Some Void_type \<and>
              stab_find_type (slot_set slot (Some Void_type) s1) (0, 5)
                = Some (Some Void_type, slot_set slot (Some Void_type) s1))" ..
  from ab have a: "stab_find_slot fresh (0, 5) = Some (Some slot, s1)" by (rule conjunct1)
  from ab have b: "slot_get s1 slot = None \<longrightarrow>
              stab_find_type fresh (0, 5) = Some (Some (Indirect_type slot None), s1) \<and>
              stab_record_type s1 (0, 5) (Some Void_type) = Some (True, slot_set slot (Some Void_type) s1) \<and>
              slot_get (slot_set slot (Some Void_type) s1) slot = Some Void_type \<and>
              stab_find_type (slot_set slot (Some Void_type) s1) (0, 5)
                = Some (Some Void_type, slot_set slot (Some Void_type) s1)" by (rule conjunct2)
  from a have eq: "slot = Type_slot 0 5" "s1 = fresh_5" by (simp_all add: find_slot_fresh_5)
  show ?thesis using b wf_types_fresh f nx slot_get_fresh_5 unfolding eq by simp
qed

text \<open>
  C1 as stated speaks of every type number.  For the number \<open>(0, -1)\<close> the lookup answers
  the predefined XCOFF type \<open>int\<close>, before and after \<open>stab_record_type\<close> has stored the
  void type under that number: no indirect type, and not the recorded type.
\<close>

theorem registry_forward_reference_counterexample:
  "map_option fst (stab_find_type fresh (0, - 1)) = Some (Some (Named_type ''int'' (Int_type 4 False)))
   \<and> (case stab_record_type fresh (0, - 1) (Some Void_type) of
         None \<Rightarrow> False
       | Some (ok, s1) \<Rightarrow>
           ok \<and> map_option fst (stab_find_type s1 (0, - 1))
                  = Some (Some (Named_type ''int'' (Int_type 4 False))))"
  by (simp add: fresh_def start_stab_def stab_find_type_def stab_record_type_def
      stab_find_slot_def deref_def assign_def slot_set_def STAB_TYPES_SLOTS_def
      stab_xcoff_builtin_type_def XCOFF_TYPE_COUNT_def xcoff_builtin_def debug_name_type_def
      call_sink_def word_sless_alt)

theorem registry_redefinition_witness:
  "wf_types fresh \<and> unat (fst (0 :: cint, 5 :: cint)) < files fresh \<and> \<not> xcoff_number (0, 5)
   \<and> stab_record_type fresh (0, 5) (Some Void_type)
        = Some (True, slot_set (Type_slot 0 5) (Some Void_type) fresh_5)
   \<and> stab_record_type (slot_set (Type_slot 0 5) (Some Void_type) fresh_5) (0, 5) (Some (Float_type 4))
        = Some (True, slot_set (Type_slot 0 5) (Some (Float_type 4))
                        (slot_set (Type_slot 0 5) (Some Void_type) fresh_5))
   \<and> stab_find_type (slot_set (Type_slot 0 5) (Some (Float_type 4))
                        (slot_set (Type_slot 0 5) (Some Void_type) fresh_5)) (0, 5)
        = Some (Some (Float_type 4), slot_set (Type_slot 0 5) (Some (Float_type 4))
                        (slot_set (Type_slot 0 5) (Some Void_type) fresh_5))"
proof -
  have f: "unat (fst (0 :: cint, 5 :: cint)) < files fresh"
    by (simp add: fresh_def start_stab_def)
  have nx: "\<not> xcoff_number (0, 5)"
    by (simp add: xcoff_number_def word_sless_alt)
  let ?s1 = "slot_set (Type_slot 0 5) (Some Void_type) fresh_5"
  let ?s2 = "slot_set (Type_slot 0 5) (Some (Float_type 4)) ?s1"
  from registry_redefinition[OF wf_types_fresh f, of "Void_type" "Float_type 4"]
  obtain s1 where "\<exists>s2. stab_record_type fresh (0, 5) (Some Void_type) = Some (True, s1)
      \<and> stab_record_type s1 (0, 5) (Some (Float_type 4)) = Some (True, s2)
      \<and> (\<not> xcoff_number (0, 5) \<longrightarrow> stab_find_type s2 (0, 5) = Some (Some (Float_type 4), s2))" ..
  then obtain s2 where abc: "stab_record_type fresh (0, 5) (Some Void_type) = Some (True, s1)
      \<and> stab_record_type s1 (0, 5) (Some (Float_type 4)) = Some (True, s2)
      \<and> (\<not> xcoff_number (0, 5) \<longrightarrow> stab_find_type s2 (0, 5) = Some (Some (Float_type 4), s2))" ..
  from abc have a: "stab_record_type fresh (0, 5) (Some Void_type) = Some (True, s1)"
    and b: "stab_record_type s1 (0, 5) (Some (Float_type 4)) = Some (True, s2)"
    and c: "\<not> xcoff_number (0, 5) \<longrightarrow> stab_find_type s2 (0, 5) = Some (Some (Float_type 4), s2)"
    by simp_all
  have s1: "s1 = ?s1" using a by (simp add: stab_record_type_def find_slot_fresh_5)
  have "stab_find_slot ?s1 (0, 5) = Some (Some (Type_slot 0 5), ?s1)"
    by (rule find_slot_slot_set[OF find_slot_idem[OF find_slot_fresh_5]])
  then have s2: "s2 = ?s2" using b unfolding s1 by (simp add: stab_record_type_def)
  show ?thesis using a b c wf_types_fresh f nx unfolding s1 s2 by simp
qed

text \<open>
  C5 as stated has the lookup observe the last write for every in-range number.  Under
  \<open>(0, -1)\<close> both writes succeed, and the lookup still answers the predefined \<open>int\<close>.
\<close>

theorem registry_redefinition_counterexample:
  "(case stab_record_type fresh (0, - 1) (Some Void_type) of
      None \<Rightarrow> False
    | Some (ok1, s1) \<Rightarrow>
        ok1 \<and> (case stab_record_type s1 (0, - 1) (Some (Float_type 4)) of
                 None \<Rightarrow> False
               | Some (ok2, s2) \<Rightarrow>
                   ok2 \<and> map_option fst (stab_find_type s2 (0, - 1))
                           = Some (Some (Named_type ''int'' (Int_type 4 False)))))"
  by (simp add: fresh_def start_stab_def stab_find_type_def stab_record_type_def
      stab_find_slot_def deref_def assign_def slot_set_def STAB_TYPES_SLOTS_def
      stab_xcoff_builtin_type_def XCOFF_TYPE_COUNT_def xcoff_builtin_def debug_name_type_def
      call_sink_def word_sless_alt)

subsection \<open>Include files\<close>





text \<open>
  \<open>after_include\<close> is what the session holds after N_BINCL \<open>a.h\<close> with hash 7, the definition
  of type \<open>(1, 3)\<close> as void, and N_EINCL.
\<close>

lemma after_include_run:
  "stab_record_type (push_bincl fresh ''a.h'' 7) (1, 3) (Some Void_type)
     = Some (True, after_include\<lparr>bincl_stack := [0],
          bincl_cells := [\<lparr>bf_name = ''a.h'', bf_hash = 7, bf_file = 1, bf_file_types = None\<rparr>]\<rparr>)
   \<and> pop_bincl (after_include\<lparr>bincl_stack := [0],
          bincl_cells := [\<lparr>bf_name = ''a.h'', bf_hash = 7, bf_file = 1, bf_file_types = None\<rparr>]\<rparr>)
       = (None, after_include)"
  by (simp add: after_include_def push_bincl_def pop_bincl_def fresh_def start_stab_def
      stab_record_type_def stab_find_slot_def deref_def assign_def slot_set_def STAB_TYPES_SLOTS_def
      xrealloc_def new_chunk_def)





subsection \<open>Range types\<close>

lemma range_text_builtin:
  assumes "range_text orig rangenums n2 n3 rest"
    and "range_builtin (bfd64 s) (rangenums = typenums) type_name n2 n3 = Some t"
  shows "parse_stab_range_type rec s type_name orig typenums = Some (t, rest, s)"
  using assms
  by (simp add: range_text_def parse_stab_range_type_def range_finish_def Let_def reports_def
      prod_eq_iff)

text \<open>
  C2, as the code has it.  For a range without an explicit index type whose bounds are read
  without overflow: a range of the type being defined with bounds \<open>(0, 0)\<close> is the void type;
  a range of the type being defined with bounds \<open>(0, 127)\<close> is the signed 1-byte integer
  (\<open>debug_make_int_type (dhandle, 1, false)\<close>, the type \<open>char\<close>); bounds \<open>(0, -1)\<close> give the
  signed 8-byte integer under the name \<open>long long int\<close>, the unsigned 8-byte integer under
  the name \<open>long long unsigned int\<close>, and the unsigned 4-byte integer otherwise; a lower
  bound \<open>-upper - 1\<close> with upper bound \<open>0x7f\<close>, \<open>0x7fff\<close>, \<open>0x7fffffff\<close>, or with \<open>BFD64\<close>
  \<open>0x7fffffffffffffff\<close>, gives the signed integer of 1, 2, 4 or 8 bytes.
\<close>

theorem range_bounds_builtin:
  assumes "range_text orig rangenums n2 n3 rest"
  shows "(rangenums = typenums \<and> n2 = 0 \<and> n3 = 0 \<longrightarrow>
            parse_stab_range_type rec s type_name orig typenums = Some (Some Void_type, rest, s))
       \<and> (rangenums = typenums \<and> n2 = 0 \<and> n3 = 127 \<longrightarrow>
            parse_stab_range_type rec s type_name orig typenums
              = Some (Some (Int_type 1 False), rest, s))
       \<and> (n2 = 0 \<and> n3 = - 1 \<longrightarrow>
            parse_stab_range_type rec s type_name orig typenums
              = Some (Some (if type_name = Some ''long long int'' then Int_type 8 False
                            else if type_name = Some ''long long unsigned int'' then Int_type 8 True
                            else Int_type 4 True), rest, s))
       \<and> (n2 = - n3 - 1 \<and> n3 = 0x7f \<longrightarrow>
            parse_stab_range_type rec s type_name orig typenums
              = Some (Some (Int_type 1 False), rest, s))
       \<and> (n2 = - n3 - 1 \<and> n3 = 0x7fff \<longrightarrow>
            parse_stab_range_type rec s type_name orig typenums
              = Some (Some (Int_type 2 False), rest, s))
       \<and> (n2 = - n3 - 1 \<and> n3 = 0x7fffffff \<longrightarrow>
            parse_stab_range_type rec s type_name orig typenums
              = Some (Some (Int_type 4 False), rest, s))
       \<and> (bfd64 s \<and> n2 = - n3 - 1 \<and> n3 = 0x7fffffffffffffff \<longrightarrow>
            parse_stab_range_type rec s type_name orig typenums
              = Some (Some (Int_type 8 False), rest, s))"
proof (intro conjI impI)
  assume "rangenums = typenums \<and> n2 = 0 \<and> n3 = 0"
  then have "range_builtin (bfd64 s) (rangenums = typenums) type_name n2 n3 = Some (Some Void_type)"
    by (simp add: range_builtin_def debug_make_void_type_def)
  then show "parse_stab_range_type rec s type_name orig typenums = Some (Some Void_type, rest, s)"
    by (rule range_text_builtin[OF assms])
next
  assume "rangenums = typenums \<and> n2 = 0 \<and> n3 = 127"
  then have "range_builtin (bfd64 s) (rangenums = typenums) type_name n2 n3
               = Some (Some (Int_type 1 False))"
    by (simp add: range_builtin_def debug_make_int_type_def word_sless_alt)
  then show "parse_stab_range_type rec s type_name orig typenums
               = Some (Some (Int_type 1 False), rest, s)"
    by (rule range_text_builtin[OF assms])
next
  assume "n2 = 0 \<and> n3 = - 1"
  then have "range_builtin (bfd64 s) (rangenums = typenums) type_name n2 n3
               = Some (Some (if type_name = Some ''long long int'' then Int_type 8 False
                            else if type_name = Some ''long long unsigned int'' then Int_type 8 True
                            else Int_type 4 True))"
    by (simp add: range_builtin_def debug_make_int_type_def word_sless_alt)
  then show "parse_stab_range_type rec s type_name orig typenums
              = Some (Some (if type_name = Some ''long long int'' then Int_type 8 False
                            else if type_name = Some ''long long unsigned int'' then Int_type 8 True
                            else Int_type 4 True), rest, s)"
    by (rule range_text_builtin[OF assms])
next
  assume "n2 = - n3 - 1 \<and> n3 = 0x7f"
  then have "range_builtin (bfd64 s) (rangenums = typenums) type_name n2 n3
               = Some (Some (Int_type 1 False))"
    by (simp add: range_builtin_def debug_make_int_type_def word_sless_alt)
  then show "parse_stab_range_type rec s type_name orig typenums
               = Some (Some (Int_type 1 False), rest, s)"
    by (rule range_text_builtin[OF assms])
next
  assume "n2 = - n3 - 1 \<and> n3 = 0x7fff"
  then have "range_builtin (bfd64 s) (rangenums = typenums) type_name n2 n3
               = Some (Some (Int_type 2 False))"
    by (simp add: range_builtin_def debug_make_int_type_def word_sless_alt)
  then show "parse_stab_range_type rec s type_name orig typenums
               = Some (Some (Int_type 2 False), rest, s)"
    by (rule range_text_builtin[OF assms])
next
  assume "n2 = - n3 - 1 \<and> n3 = 0x7fffffff"
  then have "range_builtin (bfd64 s) (rangenums = typenums) type_name n2 n3
               = Some (Some (Int_type 4 False))"
    by (simp add: range_builtin_def debug_make_int_type_def word_sless_alt)
  then show "parse_stab_range_type rec s type_name orig typenums
               = Some (Some (Int_type 4 False), rest, s)"
    by (rule range_text_builtin[OF assms])
next
  assume "bfd64 s \<and> n2 = - n3 - 1 \<and> n3 = 0x7fffffffffffffff"
  then have "range_builtin (bfd64 s) (rangenums = typenums) type_name n2 n3
               = Some (Some (Int_type 8 False))"
    by (simp add: range_builtin_def debug_make_int_type_def word_sless_alt)
  then show "parse_stab_range_type rec s type_name orig typenums
               = Some (Some (Int_type 8 False), rest, s)"
    by (rule range_text_builtin[OF assms])
qed

lemma parse_number_literals:
  "parse_number (''1;'' @ r) f = \<lparr>nr_value = 1, nr_rest = CHR '';'' # r, nr_overflow = False, nr_errs = []\<rparr>"
  "parse_number (''0;'' @ r) f = \<lparr>nr_value = 0, nr_rest = CHR '';'' # r, nr_overflow = False, nr_errs = []\<rparr>"
  "parse_number (''127;'' @ r) f = \<lparr>nr_value = 127, nr_rest = CHR '';'' # r, nr_overflow = False, nr_errs = []\<rparr>"
  "parse_number (''-1;'' @ r) f = \<lparr>nr_value = - 1, nr_rest = CHR '';'' # r, nr_overflow = False, nr_errs = []\<rparr>"
  "parse_number (''-128;'' @ r) f = \<lparr>nr_value = - 128, nr_rest = CHR '';'' # r, nr_overflow = False, nr_errs = []\<rparr>"
  "parse_number (''-32768;'' @ r) f = \<lparr>nr_value = - 32768, nr_rest = CHR '';'' # r, nr_overflow = False, nr_errs = []\<rparr>"
  "parse_number (''32767;'' @ r) f = \<lparr>nr_value = 32767, nr_rest = CHR '';'' # r, nr_overflow = False, nr_errs = []\<rparr>"
  "parse_number (''-2147483648;'' @ r) f = \<lparr>nr_value = - 2147483648, nr_rest = CHR '';'' # r, nr_overflow = False, nr_errs = []\<rparr>"
  "parse_number (''2147483647;'' @ r) f = \<lparr>nr_value = 2147483647, nr_rest = CHR '';'' # r, nr_overflow = False, nr_errs = []\<rparr>"
  "parse_number (''-9223372036854775808;'' @ r) f = \<lparr>nr_value = - 9223372036854775808, nr_rest = CHR '';'' # r, nr_overflow = False, nr_errs = []\<rparr>"
  "parse_number (''9223372036854775807;'' @ r) f = \<lparr>nr_value = 9223372036854775807, nr_rest = CHR '';'' # r, nr_overflow = False, nr_errs = []\<rparr>"
  by (simp_all add: parse_number_def strtoul_def is_digit_of_def digit_val_def isspace_def
      NUL_def ULONG_MAX_def)

lemmas parse_number_lits = parse_number_literals[simplified]

lemmas range_eval = range_text_def parse_stab_type_number_def Let_def parse_number_lits

theorem range_bounds_builtin_witness:
  "range_text ''1;0;0;'' (0, 1) 0 0 []
   \<and> parse_stab_range_type (\<lambda>s p. None) fresh None ''1;0;0;'' (0, 1)
       = Some (Some Void_type, [], fresh)
   \<and> range_text ''1;0;127;'' (0, 1) 0 127 []
   \<and> parse_stab_range_type (\<lambda>s p. None) fresh None ''1;0;127;'' (0, 1)
       = Some (Some (Int_type 1 False), [], fresh)
   \<and> range_text ''1;0;-1;'' (0, 1) 0 (- 1) []
   \<and> parse_stab_range_type (\<lambda>s p. None) fresh (Some ''long long unsigned int'') ''1;0;-1;'' (0, 7)
       = Some (Some (Int_type 8 True), [], fresh)
   \<and> parse_stab_range_type (\<lambda>s p. None) fresh (Some ''unsigned int'') ''1;0;-1;'' (0, 4)
       = Some (Some (Int_type 4 True), [], fresh)
   \<and> range_text ''1;-128;127;'' (0, 1) (- 128) 127 []
   \<and> parse_stab_range_type (\<lambda>s p. None) fresh None ''1;-128;127;'' (0, 2)
       = Some (Some (Int_type 1 False), [], fresh)
   \<and> range_text ''1;-32768;32767;'' (0, 1) (- 32768) 32767 []
   \<and> parse_stab_range_type (\<lambda>s p. None) fresh None ''1;-32768;32767;'' (0, 3)
       = Some (Some (Int_type 2 False), [], fresh)
   \<and> range_text ''1;-2147483648;2147483647;'' (0, 1) (- 2147483648) 2147483647 []
   \<and> parse_stab_range_type (\<lambda>s p. None) fresh None ''1;-2147483648;2147483647;'' (0, 1)
       = Some (Some (Int_type 4 False), [], fresh)
   \<and> bfd64 fresh
   \<and> range_text ''1;-9223372036854775808;9223372036854775807;'' (0, 1)
         (- 9223372036854775808) 9223372036854775807 []
   \<and> parse_stab_range_type (\<lambda>s p. None) fresh None
         ''1;-9223372036854775808;9223372036854775807;'' (0, 6)
       = Some (Some (Int_type 8 False), [], fresh)"
proof -
  have r1: "range_text ''1;0;0;'' (0, 1) 0 0 []"
    by (simp add: range_eval)
  have r2: "range_text ''1;0;127;'' (0, 1) 0 127 []"
    by (simp add: range_eval)
  have r3: "range_text ''1;0;-1;'' (0, 1) 0 (- 1) []"
    by (simp add: range_eval)
  have r4: "range_text ''1;-128;127;'' (0, 1) (- 128) 127 []"
    by (simp add: range_eval)
  have r5: "range_text ''1;-32768;32767;'' (0, 1) (- 32768) 32767 []"
    by (simp add: range_eval)
  have r6: "range_text ''1;-2147483648;2147483647;'' (0, 1) (- 2147483648) 2147483647 []"
    by (simp add: range_eval)
  have r7: "range_text ''1;-9223372036854775808;9223372036854775807;'' (0, 1)
         (- 9223372036854775808) 9223372036854775807 []"
    by (simp add: range_eval)
  have b: "bfd64 fresh" by (simp add: fresh_def start_stab_def)
  note t = range_bounds_builtin
  show ?thesis
    using r1 r2 r3 r4 r5 r6 r7 b
      t[OF r1, of "(0, 1)" "\<lambda>s p. None" fresh None]
      t[OF r2, of "(0, 1)" "\<lambda>s p. None" fresh None]
      t[OF r3, of "(0, 7)" "\<lambda>s p. None" fresh "Some ''long long unsigned int''"]
      t[OF r3, of "(0, 4)" "\<lambda>s p. None" fresh "Some ''unsigned int''"]
      t[OF r4, of "(0, 2)" "\<lambda>s p. None" fresh None]
      t[OF r5, of "(0, 3)" "\<lambda>s p. None" fresh None]
      t[OF r6, of "(0, 1)" "\<lambda>s p. None" fresh None]
      t[OF r7, of "(0, 6)" "\<lambda>s p. None" fresh None]
    by simp
qed

text \<open>
  C2 as stated makes the range \<open>0..127\<close> an unsigned 1-byte integer and every \<open>0..-1\<close> range
  an unsigned integer.  The code answers \<open>unsignedp = false\<close> for \<open>t1=r1;0;127;\<close> and for
  \<open>long long int:t6=r1;0;-1;\<close>.
\<close>

theorem range_bounds_unsigned_counterexample:
  "parse_stab_range_type (\<lambda>s p. None) fresh None ''1;0;127;'' (0, 1)
     = Some (debug_make_int_type 1 False, [], fresh)
   \<and> parse_stab_range_type (\<lambda>s p. None) fresh (Some ''long long int'') ''1;0;-1;'' (0, 6)
     = Some (debug_make_int_type 8 False, [], fresh)"
  by (simp add: parse_stab_range_type_def parse_stab_type_number_def Let_def parse_number_lits
      reports_def range_finish_def range_builtin_def debug_make_int_type_def word_sless_alt)

subsection \<open>Numeric overflow\<close>

lemma strtoul_shape:
  "(if b then (0, s, False)
    else (case ds of
            (n, rest) \<Rightarrow>
              if ULONG_MAX < n then (- 1, rest, True)
              else (if neg then - of_nat n else of_nat n, rest, False))) = (ul, rest', True)
   \<Longrightarrow> ul = (- 1 :: vma)"
  by (cases ds) (auto split: if_splits)

lemma strtoul_erange_value: "strtoul pp = (ul, rest, True) \<Longrightarrow> ul = - 1"
  unfolding strtoul_def Let_def by (rule strtoul_shape)

lemma strtoul_no_digits:
  "strtoul [] = (0, [], False)"
  "strtoul (NUL # r) = (0, NUL # r, False)"
  by (simp_all add: strtoul_def is_digit_of_def digit_val_def isspace_def NUL_def)

lemma strtoul_erange_nonempty:
  assumes "strtoul pp = (ul, rest, True)"
  shows "pp \<noteq> [] \<and> cur pp \<noteq> NUL"
proof (cases pp)
  case Nil
  then show ?thesis using assms by (simp add: strtoul_no_digits)
next
  case (Cons c r)
  then show ?thesis using assms by (cases "c = NUL") (auto simp: strtoul_no_digits)
qed

lemma parse_number_erange:
  assumes "strtoul pp = (ul, rest, True)"
  shows "parse_number pp flag
     = \<lparr>nr_value = 0, nr_rest = rest, nr_overflow = flag,
        nr_errs = (if flag then [] else [Warn_stab ''numeric overflow'' pp])\<rparr>"
  using assms strtoul_erange_value[OF assms] strtoul_erange_nonempty[OF assms]
  by (simp add: parse_number_def)

lemma parse_number_overflow_flag:
  "nr_overflow (parse_number pp flag) \<Longrightarrow>
   flag \<and> nr_value (parse_number pp flag) = 0 \<and> snd (snd (strtoul pp))"
  by (auto simp: parse_number_def split: if_splits prod.splits)

lemma strtoul_long_long:
  "strtoul (LLLOW @ r) = (9223372036854775808, CHR '';'' # r, False)"
  "strtoul (LLHIGH @ r) = (9223372036854775807, CHR '';'' # r, False)"
  "strtoul (ULLHIGH @ r) = (18446744073709551615, CHR '';'' # r, False)"
  by (simp_all add: LLLOW_def LLHIGH_def ULLHIGH_def strtoul_def is_digit_of_def digit_val_def
      isspace_def NUL_def ULONG_MAX_def)

lemma startswith_split: "startswith p pre \<Longrightarrow> p = pre @ drop (length pre) p"
  using append_take_drop_id[of "length pre" p] by (simp add: startswith_def)

lemma long_long_no_overflow:
  assumes "startswith p LLLOW \<or> startswith p LLHIGH \<or> startswith p ULLHIGH"
  shows "\<not> nr_overflow (parse_number p flag)"
proof
  assume "nr_overflow (parse_number p flag)"
  then have e: "snd (snd (strtoul p))" using parse_number_overflow_flag by blast
  from assms consider "startswith p LLLOW" | "startswith p LLHIGH" | "startswith p ULLHIGH"
    by blast
  then show False
  proof cases
    case 1
    from startswith_split[OF 1] strtoul_long_long(1)[of "drop (length LLLOW) p"] e
    show False by simp
  next
    case 2
    from startswith_split[OF 2] strtoul_long_long(2)[of "drop (length LLHIGH) p"] e
    show False by simp
  next
    case 3
    from startswith_split[OF 3] strtoul_long_long(3)[of "drop (length ULLHIGH) p"] e
    show False by simp
  qed
qed

lemma range_finish_overflow:
  assumes o2: "ov2 \<longrightarrow> nr_overflow (parse_number s2 True)"
    and o3: "ov3 \<longrightarrow> nr_overflow (parse_number s3 True)"
    and ov: "ov2 \<or> ov3"
  shows "range_finish s type_name orig rangenums self_subrange index_type s2 n2 ov2 s3 n3 ov3 pp
       = range_finish (report (Warn_stab ''numeric overflow'' orig) s) type_name orig rangenums
           self_subrange index_type s2 n2 False s3 n3 False pp"
proof -
  have a: "\<not> (startswith s2 LLLOW \<and> startswith s3 LLHIGH)"
    using o2 o3 ov long_long_no_overflow[of s2 True] long_long_no_overflow[of s3 True] by blast
  have b: "\<not> (\<not> ov2 \<and> startswith s3 ULLHIGH)"
    using o3 ov long_long_no_overflow[of s3 True] by blast
  show ?thesis using a b ov by (auto simp: range_finish_def)
qed

lemma wf_types_cong:
  "chunks s' = chunks s \<Longrightarrow> file_types s' = file_types s \<Longrightarrow> files s' = files s
     \<Longrightarrow> wf_types s' = wf_types s"
  unfolding wf_types_def by (erule ssubst, erule ssubst, erule ssubst) (rule refl)

lemma stderr_assign [simp]: "stderr (assign ps v s) = stderr s"
  by (simp add: assign_def split: chunk_ptr.splits)

lemma find_slot_returns:
  assumes wf: "wf_types s"
  shows "\<exists>r sf. stab_find_slot s n = Some (r, sf) \<and> (\<exists>extra. stderr sf = stderr s @ extra)"
proof (cases "unat (fst n) < files s")
  case True
  from find_slot_succeeds[OF wf True] obtain c s1 where
    r: "stab_find_slot s n = Some (Some (Type_slot c (slot_offset n)), s1)" by blast
  from find_slot_elim[OF r] have "stderr s1 = stderr s" by auto
  then show ?thesis using r by simp
next
  case False
  then show ?thesis by (simp add: stab_find_slot_def report_def)
qed

lemma xcoff_builtin_stderr:
  "\<exists>extra. stderr (snd (stab_xcoff_builtin_type s n)) = stderr s @ extra"
  by (auto simp: stab_xcoff_builtin_type_def Let_def report_def debug_name_type_def call_sink_def
      split: prod.splits option.splits if_splits)

lemma find_type_returns:
  assumes wf: "wf_types s"
  shows "\<exists>r sf. stab_find_type s n = Some (r, sf) \<and> (\<exists>extra. stderr sf = stderr s @ extra)"
proof (cases "fst n = 0 \<and> snd n <s 0")
  case True
  then show ?thesis
    using xcoff_builtin_stderr[of s "snd n"]
    by (cases "stab_xcoff_builtin_type s (snd n)") (simp add: stab_find_type_def)
next
  case False
  from find_slot_returns[OF wf, of n] obtain r sf extra where
    "stab_find_slot s n = Some (r, sf)" "stderr sf = stderr s @ extra" by blast
  then show ?thesis using False
    by (cases r) (auto simp: stab_find_type_def)
qed

lemma range_builtin_not_null: "range_builtin b self type_name n2 n3 = Some bt \<Longrightarrow> bt \<noteq> None"
  by (auto simp: range_builtin_def debug_make_void_type_def debug_make_complex_type_def
      debug_make_float_type_def debug_make_int_type_def split: if_splits)

lemma range_overflow_decoded:
  assumes wf: "wf_types s"
    and shape: "range_shape orig rangenums s2 s3 p"
    and ov: "nr_overflow (parse_number s2 True) \<or> nr_overflow (parse_number s3 True)"
    and prog: "rangenums \<noteq> typenums
               \<or> range_builtin (bfd64 s) True type_name (nr_value (parse_number s2 True))
                    (nr_value (parse_number s3 True)) \<noteq> None"
  shows "\<exists>t sf. parse_stab_range_type rec s type_name orig typenums = Some (Some t, p, sf)
           \<and> Warn_stab ''numeric overflow'' orig \<in> set (stderr sf)
           \<and> (case range_builtin (bfd64 s) (rangenums = typenums) type_name
                     (nr_value (parse_number s2 True)) (nr_value (parse_number s3 True)) of
                 Some bt \<Rightarrow> bt = Some t
               | None \<Rightarrow> \<exists>it. t = Range_type it (nr_value (parse_number s2 True))
                                     (nr_value (parse_number s3 True)))"
proof -
  let ?tn = "parse_stab_type_number orig"
  let ?s0 = "reports (tn_errs ?tn) s"
  let ?r2 = "parse_number s2 True" and ?r3 = "parse_number s3 True"
  let ?n2 = "nr_value ?r2" and ?n3 = "nr_value ?r3"
  let ?self = "rangenums = typenums"
  let ?sw = "report (Warn_stab ''numeric overflow'' orig) ?s0"
  from shape have ne: "orig \<noteq> []" and ok: "tn_ok ?tn" and nums: "tn_nums ?tn = rangenums"
    and noidx: "cur (tn_rest ?tn) \<noteq> CHR ''=''"
    and lo: "(if cur (tn_rest ?tn) = CHR '';'' then tl (tn_rest ?tn) else tn_rest ?tn) = s2"
    and c2: "cur (nr_rest ?r2) = CHR '';''" and t2: "tl (nr_rest ?r2) = s3"
    and c3: "cur (nr_rest ?r3) = CHR '';''" and t3: "tl (nr_rest ?r3) = p"
    by (simp_all add: range_shape_def Let_def)
  have self: "(fst rangenums = fst typenums \<and> snd rangenums = snd typenums) = ?self"
    by (auto simp: prod_eq_iff)
  have run: "parse_stab_range_type rec s type_name orig typenums
       = range_finish ?s0 type_name orig rangenums ?self None
           s2 ?n2 (nr_overflow ?r2) s3 ?n3 (nr_overflow ?r3) p"
    using ne ok noidx c2 c3
    by (simp add: parse_stab_range_type_def Let_def nums lo t2 t3 self)
  have fin: "range_finish ?s0 type_name orig rangenums ?self None
           s2 ?n2 (nr_overflow ?r2) s3 ?n3 (nr_overflow ?r3) p
       = range_finish ?sw type_name orig rangenums ?self None s2 ?n2 False s3 ?n3 False p"
    by (rule range_finish_overflow) (simp_all add: ov)
  have "wf_types ?sw = wf_types s"
    by (rule wf_types_cong) (simp_all add: reports_def report_def)
  with wf have wfw: "wf_types ?sw" by simp
  have b64: "bfd64 ?sw = bfd64 s" by (simp add: reports_def report_def)
  have warned: "Warn_stab ''numeric overflow'' orig \<in> set (stderr ?sw)"
    by (simp add: report_def)
  show ?thesis
  proof (cases "range_builtin (bfd64 s) ?self type_name ?n2 ?n3")
    case (Some bt)
    from range_builtin_not_null[OF Some] obtain t where bt: "bt = Some t" by auto
    have "range_finish ?sw type_name orig rangenums ?self None s2 ?n2 False s3 ?n3 False p
            = Some (Some t, p, ?sw)"
      using Some bt by (simp add: range_finish_def b64)
    then show ?thesis using run fin warned Some bt by simp
  next
    case None
    then have ns: "\<not> ?self" using prog by auto
    from find_type_returns[OF wfw, of rangenums] obtain r sf extra where
      ft: "stab_find_type ?sw rangenums = Some (r, sf)" and ex: "stderr sf = stderr ?sw @ extra"
      by blast
    have w2: "Warn_stab ''numeric overflow'' orig \<in> set (stderr sf)"
      using ex warned by simp
    show ?thesis
    proof (cases r)
      case None': None
      have "range_finish ?sw type_name orig rangenums ?self None s2 ?n2 False s3 ?n3 False p
            = Some (Some (Range_type (Int_type 4 False) ?n2 ?n3), p,
                    report (Warn_stab ''missing index type'' orig) sf)"
        using None ns ft None'
        by (simp add: range_finish_def b64 debug_make_range_type_def debug_make_int_type_def)
      then show ?thesis using run fin w2 None by (simp add: report_def)
    next
      case (Some it)
      have "range_finish ?sw type_name orig rangenums ?self None s2 ?n2 False s3 ?n3 False p
            = Some (Some (Range_type it ?n2 ?n3), p, sf)"
        using None ns ft Some
        by (simp add: range_finish_def b64 debug_make_range_type_def)
      then show ?thesis using run fin w2 None by simp
    qed
  qed
qed

lemma find_type_not_null:
  assumes wf: "wf_types s" and f: "unat (fst n) < files s" and nx: "\<not> (fst n = 0 \<and> snd n <s 0)"
  shows "\<exists>t sf. stab_find_type s n = Some (Some t, sf) \<and> stderr sf = stderr s"
proof -
  from find_slot_succeeds[OF wf f] obtain c s1 where
    r: "stab_find_slot s n = Some (Some (Type_slot c (slot_offset n)), s1)" by blast
  from find_slot_elim[OF r] have e: "stderr s1 = stderr s" by auto
  show ?thesis
    using r e nx by (cases "slot_get s1 (Type_slot c (slot_offset n))") (auto simp: stab_find_type_def)
qed

lemma type_number_overflow_reported:
  assumes ov: "strtoul pp = (ul, rest, True)" and d: "ISDIGIT (cur pp)"
    and ne: "cur rest \<noteq> CHR ''=''" and wf: "wf_types s"
  shows "\<exists>t sf. parse_stab_type_body rec dm s type_name pp slotp = Some (t, None, rest, sf)
           \<and> Warn_stab ''numeric overflow'' pp \<in> set (stderr sf)
           \<and> (0 < files s \<longrightarrow> t \<noteq> None)"
proof -
  let ?s1 = "reports [Warn_stab ''numeric overflow'' pp] (s\<lparr>self_crossref := False\<rparr>)"
  have nonempty: "pp \<noteq> []" using strtoul_erange_nonempty[OF ov] by simp
  have paren: "cur pp \<noteq> CHR ''(''" using d by (auto simp: ISDIGIT_def)
  have tn: "parse_stab_type_number pp
       = \<lparr>tn_ok = True, tn_nums = (0, 0), tn_rest = rest,
          tn_errs = [Warn_stab ''numeric overflow'' pp]\<rparr>"
    using paren by (simp add: parse_stab_type_number_def parse_number_erange[OF ov])
  have run: "parse_stab_type_body rec dm s type_name pp slotp
       = (case stab_find_type ?s1 (0, 0) of
            None \<Rightarrow> None | Some (t, s2) \<Rightarrow> Some (t, None, rest, s2))"
    using nonempty d ne
    by (simp add: parse_stab_type_body_def tn Let_def split: option.splits)
  have "wf_types ?s1 = wf_types s"
    by (rule wf_types_cong) (simp_all add: reports_def)
  with wf have wf1: "wf_types ?s1" by simp
  have warned: "Warn_stab ''numeric overflow'' pp \<in> set (stderr ?s1)"
    by (simp add: reports_def)
  show ?thesis
  proof (cases "0 < files s")
    case True
    then have f: "unat (fst (0 :: cint, 0 :: cint)) < files ?s1" by (simp add: reports_def)
    have nx: "\<not> (fst (0 :: cint, 0 :: cint) = 0 \<and> snd (0 :: cint, 0 :: cint) <s 0)" by simp
    from find_type_not_null[OF wf1 f nx] obtain t sf where
      "stab_find_type ?s1 (0, 0) = Some (Some t, sf)" "stderr sf = stderr ?s1" by blast
    then show ?thesis using run warned by simp
  next
    case False
    from find_type_returns[OF wf1, of "(0, 0)"] obtain r sf extra where
      "stab_find_type ?s1 (0, 0) = Some (r, sf)" "stderr sf = stderr ?s1 @ extra" by blast
    then show ?thesis using run warned False by simp
  qed
qed

text \<open>
  C8, as the code has it.  Let the literal at \<open>pp\<close> be too large for \<open>unsigned long\<close>:
  \<open>strtoul\<close> sets \<open>ERANGE\<close> and stops at \<open>rest\<close>, behind the digits.  Then \<open>parse_number\<close>
  returns 0 with the cursor at \<open>rest\<close>; called without an overflow flag it prints the warning
  itself, called with the flag it sets the flag and prints nothing.

  A caller without a flag: when \<open>parse_stab_type\<close> reads such a literal as a type number (not
  followed by \<open>=\<close>), the call returns with the cursor at \<open>rest\<close>, the warning is on stderr, and
  the type is that of number \<open>(0, 0)\<close>, not \<open>NULL\<close>.

  The one caller that passes a flag is \<open>parse_stab_range_type\<close>, for the two bounds of a
  range.  When each bound is followed by its semicolon and the lower or the upper bound is
  such a literal, the call returns a type, the warning \<open>numeric overflow\<close> is on stderr, and
  the type is the one the table gives for the bounds with 0 in place of the overflowing one:
  the builtin type of \<open>range_builtin\<close>, or else a range over the index type with these
  bounds (the two \<open>long long\<close> shortcuts are never taken, their texts fit 64 bits).  A range
  of the type itself that matches no builtin type is a bad stab with or without overflow,
  hence the last hypothesis.
\<close>

theorem numeric_overflow_nonfatal:
  assumes ov: "strtoul pp = (ul, rest, True)"
  shows "parse_number pp False
           = \<lparr>nr_value = 0, nr_rest = rest, nr_overflow = False,
              nr_errs = [Warn_stab ''numeric overflow'' pp]\<rparr>
       \<and> parse_number pp True
           = \<lparr>nr_value = 0, nr_rest = rest, nr_overflow = True, nr_errs = []\<rparr>
       \<and> (ISDIGIT (cur pp) \<and> cur rest \<noteq> CHR ''='' \<and> wf_types s
          \<longrightarrow> (\<exists>t sf. parse_stab_type dm s type_name pp slotp = Some (t, None, rest, sf)
                 \<and> Warn_stab ''numeric overflow'' pp \<in> set (stderr sf)
                 \<and> (0 < files s \<longrightarrow> t \<noteq> None)))
       \<and> (wf_types s \<and> range_shape orig rangenums pp s3 p
            \<and> (rangenums \<noteq> typenums
                \<or> range_builtin (bfd64 s) True type_name 0 (nr_value (parse_number s3 True)) \<noteq> None)
          \<longrightarrow> (\<exists>t sf. parse_stab_range_type rec s type_name orig typenums = Some (Some t, p, sf)
                 \<and> Warn_stab ''numeric overflow'' orig \<in> set (stderr sf)
                 \<and> (case range_builtin (bfd64 s) (rangenums = typenums) type_name 0
                           (nr_value (parse_number s3 True)) of
                       Some bt \<Rightarrow> bt = Some t
                     | None \<Rightarrow> \<exists>it. t = Range_type it 0 (nr_value (parse_number s3 True)))))
       \<and> (wf_types s \<and> range_shape orig rangenums s2 pp p
            \<and> (rangenums \<noteq> typenums
                \<or> range_builtin (bfd64 s) True type_name (nr_value (parse_number s2 True)) 0 \<noteq> None)
          \<longrightarrow> (\<exists>t sf. parse_stab_range_type rec s type_name orig typenums = Some (Some t, p, sf)
                 \<and> Warn_stab ''numeric overflow'' orig \<in> set (stderr sf)
                 \<and> (case range_builtin (bfd64 s) (rangenums = typenums) type_name
                           (nr_value (parse_number s2 True)) 0 of
                       Some bt \<Rightarrow> bt = Some t
                     | None \<Rightarrow> \<exists>it. t = Range_type it (nr_value (parse_number s2 True)) 0)))"
proof (intro conjI impI)
  show "parse_number pp False
           = \<lparr>nr_value = 0, nr_rest = rest, nr_overflow = False,
              nr_errs = [Warn_stab ''numeric overflow'' pp]\<rparr>"
    using parse_number_erange[OF ov, of False] by simp
next
  show "parse_number pp True
           = \<lparr>nr_value = 0, nr_rest = rest, nr_overflow = True, nr_errs = []\<rparr>"
    using parse_number_erange[OF ov, of True] by simp
next
  assume "ISDIGIT (cur pp) \<and> cur rest \<noteq> CHR ''='' \<and> wf_types s"
  then show "\<exists>t sf. parse_stab_type dm s type_name pp slotp = Some (t, None, rest, sf)
                 \<and> Warn_stab ''numeric overflow'' pp \<in> set (stderr sf)
                 \<and> (0 < files s \<longrightarrow> t \<noteq> None)"
    unfolding parse_stab_type_def
    using type_number_overflow_reported[OF ov, of s "parse_stab_type_rec (length pp) dm" dm
        type_name slotp]
    by blast
next
  assume a: "wf_types s \<and> range_shape orig rangenums pp s3 p
            \<and> (rangenums \<noteq> typenums
                \<or> range_builtin (bfd64 s) True type_name 0 (nr_value (parse_number s3 True)) \<noteq> None)"
  have v: "nr_value (parse_number pp True) = 0" and o: "nr_overflow (parse_number pp True)"
    using parse_number_erange[OF ov, of True] by simp_all
  from a have wf: "wf_types s" and sh: "range_shape orig rangenums pp s3 p"
    and pr: "rangenums \<noteq> typenums
               \<or> range_builtin (bfd64 s) True type_name (nr_value (parse_number pp True))
                    (nr_value (parse_number s3 True)) \<noteq> None"
    by (simp_all add: v)
  have o': "nr_overflow (parse_number pp True) \<or> nr_overflow (parse_number s3 True)"
    using o by simp
  from range_overflow_decoded[OF wf sh o' pr, of rec, unfolded v]
  show "\<exists>t sf. parse_stab_range_type rec s type_name orig typenums = Some (Some t, p, sf)
                 \<and> Warn_stab ''numeric overflow'' orig \<in> set (stderr sf)
                 \<and> (case range_builtin (bfd64 s) (rangenums = typenums) type_name 0
                           (nr_value (parse_number s3 True)) of
                       Some bt \<Rightarrow> bt = Some t
                     | None \<Rightarrow> \<exists>it. t = Range_type it 0 (nr_value (parse_number s3 True)))" .
next
  assume a: "wf_types s \<and> range_shape orig rangenums s2 pp p
            \<and> (rangenums \<noteq> typenums
                \<or> range_builtin (bfd64 s) True type_name (nr_value (parse_number s2 True)) 0 \<noteq> None)"
  have v: "nr_value (parse_number pp True) = 0" and o: "nr_overflow (parse_number pp True)"
    using parse_number_erange[OF ov, of True] by simp_all
  from a have wf: "wf_types s" and sh: "range_shape orig rangenums s2 pp p"
    and pr: "rangenums \<noteq> typenums
               \<or> range_builtin (bfd64 s) True type_name (nr_value (parse_number s2 True))
                    (nr_value (parse_number pp True)) \<noteq> None"
    by (simp_all add: v)
  have o': "nr_overflow (parse_number s2 True) \<or> nr_overflow (parse_number pp True)"
    using o by simp
  from range_overflow_decoded[OF wf sh o' pr, of rec, unfolded v]
  show "\<exists>t sf. parse_stab_range_type rec s type_name orig typenums = Some (Some t, p, sf)
                 \<and> Warn_stab ''numeric overflow'' orig \<in> set (stderr sf)
                 \<and> (case range_builtin (bfd64 s) (rangenums = typenums) type_name
                           (nr_value (parse_number s2 True)) 0 of
                       Some bt \<Rightarrow> bt = Some t
                     | None \<Rightarrow> \<exists>it. t = Range_type it (nr_value (parse_number s2 True)) 0)" .
qed

lemma strtoul_huge: "strtoul huge = (- 1, '';'', True)"
  by (simp add: huge_def strtoul_def is_digit_of_def digit_val_def isspace_def NUL_def ULONG_MAX_def)

lemma strtoul_huge_lower: "strtoul huge_lower = (- 1, '';5;'', True)"
  by (simp add: huge_lower_def strtoul_def is_digit_of_def digit_val_def isspace_def NUL_def
      ULONG_MAX_def)

lemma small_literals:
  "parse_number (CHR ''1'' # CHR '';'' # r) f
     = \<lparr>nr_value = 1, nr_rest = CHR '';'' # r, nr_overflow = False, nr_errs = []\<rparr>"
  "parse_number (CHR ''0'' # CHR '';'' # r) f
     = \<lparr>nr_value = 0, nr_rest = CHR '';'' # r, nr_overflow = False, nr_errs = []\<rparr>"
  "parse_number (CHR ''5'' # CHR '';'' # r) f
     = \<lparr>nr_value = 5, nr_rest = CHR '';'' # r, nr_overflow = False, nr_errs = []\<rparr>"
  "parse_number (CHR ''2'' # CHR ''='' # r) f
     = \<lparr>nr_value = 2, nr_rest = CHR ''='' # r, nr_overflow = False, nr_errs = []\<rparr>"
  by (simp_all add: parse_number_def strtoul_def is_digit_of_def digit_val_def isspace_def
      NUL_def ULONG_MAX_def)

theorem numeric_overflow_nonfatal_witness:
  "strtoul huge = (- 1, '';'', True)
   \<and> parse_number huge False
       = \<lparr>nr_value = 0, nr_rest = '';'', nr_overflow = False,
          nr_errs = [Warn_stab ''numeric overflow'' huge]\<rparr>
   \<and> parse_number huge True = \<lparr>nr_value = 0, nr_rest = '';'', nr_overflow = True, nr_errs = []\<rparr>
   \<and> ISDIGIT (cur huge) \<and> cur '';'' \<noteq> CHR ''='' \<and> wf_types fresh \<and> 0 < files fresh
   \<and> (\<exists>t sf. parse_stab_type no_demangler fresh None huge False = Some (Some t, None, '';'', sf)
          \<and> Warn_stab ''numeric overflow'' huge \<in> set (stderr sf))
   \<and> range_shape (''1;0;'' @ huge) (0, 1) (''0;'' @ huge) huge [] \<and> (0, 1) \<noteq> (0 :: cint, 2 :: cint)
   \<and> (\<exists>it sf. parse_stab_range_type (\<lambda>s p. None) fresh None (''1;0;'' @ huge) (0, 2)
               = Some (Some (Range_type it 0 0), [], sf)
          \<and> Warn_stab ''numeric overflow'' (''1;0;'' @ huge) \<in> set (stderr sf))
   \<and> range_builtin (bfd64 fresh) True None 0 0 = Some (Some Void_type)
   \<and> (\<exists>sf. parse_stab_range_type (\<lambda>s p. None) fresh None (''1;0;'' @ huge) (0, 1)
               = Some (Some Void_type, [], sf)
          \<and> Warn_stab ''numeric overflow'' (''1;0;'' @ huge) \<in> set (stderr sf))
   \<and> strtoul huge_lower = (- 1, '';5;'', True)
   \<and> range_shape (''1;'' @ huge_lower) (0, 1) huge_lower ''5;'' []
   \<and> (\<exists>it sf. parse_stab_range_type (\<lambda>s p. None) fresh None (''1;'' @ huge_lower) (0, 2)
               = Some (Some (Range_type it 0 5), [], sf)
          \<and> Warn_stab ''numeric overflow'' (''1;'' @ huge_lower) \<in> set (stderr sf))"
proof -
  note t = numeric_overflow_nonfatal[OF strtoul_huge]
  note tl = numeric_overflow_nonfatal[OF strtoul_huge_lower]
  have pn: "parse_number huge True = \<lparr>nr_value = 0, nr_rest = '';'', nr_overflow = True, nr_errs = []\<rparr>"
    and pf: "parse_number huge False
       = \<lparr>nr_value = 0, nr_rest = '';'', nr_overflow = False,
          nr_errs = [Warn_stab ''numeric overflow'' huge]\<rparr>"
    using t by simp_all
  have pl: "parse_number huge_lower True
       = \<lparr>nr_value = 0, nr_rest = '';5;'', nr_overflow = True, nr_errs = []\<rparr>"
    using tl by simp
  have dig: "ISDIGIT (cur huge)" by (simp add: huge_def ISDIGIT_def)
  have wf: "wf_types fresh" by (rule wf_types_fresh)
  have fl: "0 < files fresh" and b64: "bfd64 fresh" by (simp_all add: fresh_def start_stab_def)
  have sh_up: "range_shape (''1;0;'' @ huge) (0, 1) (''0;'' @ huge) huge []"
    by (simp add: range_shape_def parse_stab_type_number_def Let_def small_literals pn)
  have sh_lo: "range_shape (''1;'' @ huge_lower) (0, 1) huge_lower ''5;'' []"
    by (simp add: range_shape_def parse_stab_type_number_def Let_def small_literals pl)
  have v0: "nr_value (parse_number (''0;'' @ huge) True) = 0"
    and v5: "nr_value (parse_number ''5;'' True) = 5"
    by (simp_all add: small_literals)
  have bv: "range_builtin (bfd64 fresh) True None 0 0 = Some (Some Void_type)"
    and bn: "range_builtin (bfd64 fresh) False None 0 0 = None"
    and b5: "range_builtin (bfd64 fresh) False None 0 5 = None"
    by (simp_all add: range_builtin_def debug_make_void_type_def word_sless_alt)
  have ne: "(0, 1) \<noteq> (0 :: cint, 2 :: cint)" by simp
  \<comment> \<open>the type number\<close>
  note t3 = t[where s = fresh and dm = no_demangler and type_name = None and slotp = False,
      THEN conjunct2, THEN conjunct2, THEN conjunct1, rule_format]
  have "\<exists>t sf. parse_stab_type no_demangler fresh None huge False = Some (t, None, '';'', sf)
          \<and> Warn_stab ''numeric overflow'' huge \<in> set (stderr sf)
          \<and> (0 < files fresh \<longrightarrow> t \<noteq> None)"
    by (rule t3) (simp add: dig wf)
  then obtain t0 sf0 where
    r0: "parse_stab_type no_demangler fresh None huge False = Some (t0, None, '';'', sf0)"
    and w0: "Warn_stab ''numeric overflow'' huge \<in> set (stderr sf0)"
    and n0: "t0 \<noteq> None"
    using fl by blast
  from n0 obtain y0 where "t0 = Some y0" by auto
  with r0 w0 have c3: "\<exists>t sf. parse_stab_type no_demangler fresh None huge False
                          = Some (Some t, None, '';'', sf)
          \<and> Warn_stab ''numeric overflow'' huge \<in> set (stderr sf)"
    by blast
  \<comment> \<open>the upper bound of a range over another type\<close>
  note t5 = t[where s = fresh and orig = "''1;0;'' @ huge" and rangenums = "(0, 1)"
      and ?s2.0 = "''0;'' @ huge" and p = "[]" and typenums = "(0, 2)" and type_name = None
      and rec = "\<lambda>s p. None",
      THEN conjunct2, THEN conjunct2, THEN conjunct2, THEN conjunct2, rule_format]
  have "\<exists>t sf. parse_stab_range_type (\<lambda>s p. None) fresh None (''1;0;'' @ huge) (0, 2)
               = Some (Some t, [], sf)
          \<and> Warn_stab ''numeric overflow'' (''1;0;'' @ huge) \<in> set (stderr sf)
          \<and> (case range_builtin (bfd64 fresh) ((0, 1) = (0 :: cint, 2 :: cint)) None
                     (nr_value (parse_number (''0;'' @ huge) True)) 0 of
                Some bt \<Rightarrow> bt = Some t
              | None \<Rightarrow> \<exists>it. t = Range_type it (nr_value (parse_number (''0;'' @ huge) True)) 0)"
    by (rule t5) (simp add: wf sh_up[simplified])
  then have c4: "\<exists>it sf. parse_stab_range_type (\<lambda>s p. None) fresh None (''1;0;'' @ huge) (0, 2)
               = Some (Some (Range_type it 0 0), [], sf)
          \<and> Warn_stab ''numeric overflow'' (''1;0;'' @ huge) \<in> set (stderr sf)"
    by (auto simp: v0 v0[simplified] bn)
  \<comment> \<open>the upper bound of a range over the type itself\<close>
  note t5' = t[where s = fresh and orig = "''1;0;'' @ huge" and rangenums = "(0, 1)"
      and ?s2.0 = "''0;'' @ huge" and p = "[]" and typenums = "(0, 1)" and type_name = None
      and rec = "\<lambda>s p. None",
      THEN conjunct2, THEN conjunct2, THEN conjunct2, THEN conjunct2, rule_format]
  have "\<exists>t sf. parse_stab_range_type (\<lambda>s p. None) fresh None (''1;0;'' @ huge) (0, 1)
               = Some (Some t, [], sf)
          \<and> Warn_stab ''numeric overflow'' (''1;0;'' @ huge) \<in> set (stderr sf)
          \<and> (case range_builtin (bfd64 fresh) ((0, 1) = (0 :: cint, 1 :: cint)) None
                     (nr_value (parse_number (''0;'' @ huge) True)) 0 of
                Some bt \<Rightarrow> bt = Some t
              | None \<Rightarrow> \<exists>it. t = Range_type it (nr_value (parse_number (''0;'' @ huge) True)) 0)"
    by (rule t5') (simp add: wf sh_up[simplified] v0[simplified] bv)
  then have c5: "\<exists>sf. parse_stab_range_type (\<lambda>s p. None) fresh None (''1;0;'' @ huge) (0, 1)
               = Some (Some Void_type, [], sf)
          \<and> Warn_stab ''numeric overflow'' (''1;0;'' @ huge) \<in> set (stderr sf)"
    by (auto simp: v0 v0[simplified] bv)
  \<comment> \<open>the lower bound\<close>
  note t4 = tl[where s = fresh and orig = "''1;'' @ huge_lower" and rangenums = "(0, 1)"
      and ?s3.0 = "''5;''" and p = "[]" and typenums = "(0, 2)" and type_name = None
      and rec = "\<lambda>s p. None",
      THEN conjunct2, THEN conjunct2, THEN conjunct2, THEN conjunct1, rule_format]
  have "\<exists>t sf. parse_stab_range_type (\<lambda>s p. None) fresh None (''1;'' @ huge_lower) (0, 2)
               = Some (Some t, [], sf)
          \<and> Warn_stab ''numeric overflow'' (''1;'' @ huge_lower) \<in> set (stderr sf)
          \<and> (case range_builtin (bfd64 fresh) ((0, 1) = (0 :: cint, 2 :: cint)) None 0
                     (nr_value (parse_number ''5;'' True)) of
                Some bt \<Rightarrow> bt = Some t
              | None \<Rightarrow> \<exists>it. t = Range_type it 0 (nr_value (parse_number ''5;'' True)))"
    by (rule t4) (simp add: wf sh_lo[simplified])
  then have c6: "\<exists>it sf. parse_stab_range_type (\<lambda>s p. None) fresh None (''1;'' @ huge_lower) (0, 2)
               = Some (Some (Range_type it 0 5), [], sf)
          \<and> Warn_stab ''numeric overflow'' (''1;'' @ huge_lower) \<in> set (stderr sf)"
    by (auto simp: v5 b5)
  show ?thesis
    using strtoul_huge strtoul_huge_lower pn pf dig wf fl c3 sh_up ne c4 bv c5 sh_lo c6
    by simp
qed

text \<open>
  An overflowing bound that is not followed by a semicolon: the overflow flag is set, the
  range is rejected as a bad stab before the flag is looked at, no overflow warning is
  printed, and the record fails.
\<close>

lemma strtoul_huge_unterminated: "strtoul huge_unterminated = (- 1, ''x'', True)"
  by (simp add: huge_unterminated_def strtoul_def is_digit_of_def digit_val_def isspace_def
      NUL_def ULONG_MAX_def)

lemma unterminated_range:
  "parse_stab_range_type rec s type_name (''1;'' @ huge_unterminated) typenums
     = Some (None, ''x'', report (Bad_stab (''1;'' @ huge_unterminated)) s)"
  by (simp add: parse_stab_range_type_def parse_stab_type_number_def Let_def small_literals
      parse_number_erange[OF strtoul_huge_unterminated] reports_def)

theorem numeric_overflow_counterexample:
  "nr_overflow (parse_number huge_unterminated True)
   \<and> parse_stab_range_type (\<lambda>s p. None) fresh None (''1;'' @ huge_unterminated) (0, 2)
       = Some (None, ''x'', fresh\<lparr>stderr := [Bad_stab (''1;'' @ huge_unterminated)]\<rparr>)
   \<and> parse_stab no_demangler in_unit (N_OTHER 128) 0 0 (''t:t2=r1;'' @ huge_unterminated)
       = Some (False, in_unit\<lparr>file_types := [Some 0], chunks := [new_chunk None 0],
                 stderr := [Bad_stab (''1;'' @ huge_unterminated)]\<rparr>)"
proof -
  have a: "nr_overflow (parse_number huge_unterminated True)"
    by (simp add: parse_number_erange[OF strtoul_huge_unterminated])
  have b: "parse_stab_range_type (\<lambda>s p. None) fresh None (''1;'' @ huge_unterminated) (0, 2)
       = Some (None, ''x'', fresh\<lparr>stderr := [Bad_stab (''1;'' @ huge_unterminated)]\<rparr>)"
    by (simp add: unterminated_range[simplified] report_def fresh_def start_stab_def)
  have ty: "parse_stab_type no_demangler in_unit (Some ''t'') (''2=r1;'' @ huge_unterminated) True
       = Some (None, Some (Type_slot 0 2), ''x'',
               in_unit\<lparr>file_types := [Some 0], chunks := [new_chunk None 0],
                 stderr := [Bad_stab (''1;'' @ huge_unterminated)]\<rparr>)"
    by (simp add: parse_stab_type_def parse_stab_type_body_def parse_stab_type_number_def
      small_literals ISDIGIT_def reports_def NUL_def
      stab_find_slot_def deref_def assign_def STAB_TYPES_SLOTS_def word_sle_eq
      type_descriptor_def unterminated_range[simplified] type_finish_def Let_def
      in_unit_def fresh_def start_stab_def report_def new_chunk_def
      del: parse_stab_type_rec.simps)
  have c: "parse_stab no_demangler in_unit (N_OTHER 128) 0 0 (''t:t2=r1;'' @ huge_unterminated)
       = Some (False, in_unit\<lparr>file_types := [Some 0], chunks := [new_chunk None 0],
                 stderr := [Bad_stab (''1;'' @ huge_unterminated)]\<rparr>)"
    using ty
    by (simp add: parse_stab_def begin_unit_def parse_stab_string_def define_typedef_def
        cstr_def huge_unterminated_def NUL_def ISDIGIT_def Let_def savestring_def
        in_unit_def fresh_def start_stab_def)
  show ?thesis using a b c by simp
qed

subsection \<open>The dispatcher\<close>

lemma strchr_None: "c \<notin> set str \<Longrightarrow> strchr str c = None"
  by (induction str) auto

lemma cstr_subset: "set (cstr str) \<subseteq> set str"
  by (auto simp: cstr_def dest: set_takeWhileD)

text \<open>
  C9.  A descriptor string without any \<open>:\<close> makes \<open>parse_stab_string\<close> return true with the
  handle, the sink and stderr as they were; so does \<open>parse_stab\<close> for a symbol record with
  such a string (once the compilation unit has been started).
\<close>

theorem no_colon_ignored:
  assumes "CHR '':'' \<notin> set string"
  shows "parse_stab_string dm s stabtype val string = Some (True, s)
       \<and> (so_string s = None \<longrightarrow> parse_stab dm s (N_OTHER n) desc val string = Some (True, s))"
proof -
  have a: "parse_stab_string dm s k val str = Some (True, s)" if "CHR '':'' \<notin> set str" for k str
    using that by (simp add: parse_stab_string_def strchr_None)
  have c: "CHR '':'' \<notin> set (cstr string)" using assms cstr_subset by blast
  have "so_string s = None \<longrightarrow> parse_stab dm s (N_OTHER n) desc val string = Some (True, s)"
    using a[OF c] c by (simp add: parse_stab_def begin_unit_def strchr_None)
  then show ?thesis using a[OF assms] by simp
qed

theorem no_colon_ignored_witness:
  "CHR '':'' \<notin> set ''main.c'' \<and> so_string fresh = None
   \<and> parse_stab_string no_demangler fresh (N_OTHER 128) 0 ''main.c'' = Some (True, fresh)
   \<and> parse_stab no_demangler fresh (N_OTHER 128) 0 0 ''main.c'' = Some (True, fresh)"
proof -
  have c: "CHR '':'' \<notin> set ''main.c''" by simp
  have so: "so_string fresh = None" by (simp add: fresh_def start_stab_def)
  show ?thesis
    using no_colon_ignored[OF c, of no_demangler fresh "N_OTHER 128" 0 128 0] c so by simp
qed

text \<open>
  C10.  With no N_BINCL frame open, \<open>pop_bincl\<close> answers the main file name and leaves the
  handle alone, and \<open>parse_stab\<close> on an N_EINCL record hands that name to
  \<open>debug_start_source\<close> and returns true when the sink takes it.
\<close>

theorem unbalanced_eincl_tolerated:
  assumes "bincl_stack s = []" and "so_string s = None"
    and "sink_accepts s (sink s) (Start_source (main_filename s))"
  shows "pop_bincl s = (main_filename s, s)
       \<and> parse_stab dm s N_EINCL desc val string
           = Some (True, s\<lparr>sink := sink s @ [Start_source (main_filename s)]\<rparr>)"
  using assms by (simp add: pop_bincl_def parse_stab_def begin_unit_def call_sink_def)

theorem unbalanced_eincl_tolerated_witness:
  "bincl_stack in_unit = [] \<and> so_string in_unit = None
   \<and> sink_accepts in_unit (sink in_unit) (Start_source (main_filename in_unit))
   \<and> pop_bincl in_unit = (Some ''main.c'', in_unit)
   \<and> parse_stab no_demangler in_unit N_EINCL 0 0 []
       = Some (True, in_unit\<lparr>sink := [Set_filename ''main.c'', Start_source (Some ''main.c'')]\<rparr>)"
proof -
  have a: "bincl_stack in_unit = []" and b: "so_string in_unit = None"
    and c: "sink_accepts in_unit (sink in_unit) (Start_source (main_filename in_unit))"
    by (simp_all add: in_unit_def fresh_def start_stab_def)
  show ?thesis
    using unbalanced_eincl_tolerated[OF a b c, of no_demangler 0 0 "[]"] a b c
    by (simp add: in_unit_def fresh_def start_stab_def)
qed

text \<open>An N_RBRAC record at block depth 0, by contrast, is rejected.\<close>

lemma unbalanced_rbrac_rejected:
  assumes "so_string s = None" and "\<not> (n_opt_found s \<and> desc = 1)" and "pending s = []"
    and "block_depth s = 0"
    and "sink_accepts s (sink s) (End_block (val + file_start_offset s + function_start_offset s))"
  shows "\<exists>s'. parse_stab dm s N_RBRAC desc val string = Some (False, s')"
  using assms
  by (simp add: parse_stab_def begin_unit_def stab_emit_pending_vars_def call_sink_def Let_def
      word_sless_alt report_def)

subsection \<open>Self-referential tags\<close>

lemma same_session_refl [simp]: "same_session s s"
  by (simp add: same_session_def)

lemma same_session_trans: "same_session a b \<Longrightarrow> same_session b c \<Longrightarrow> same_session a c"
  by (simp add: same_session_def)

lemma same_session_assign:
  "same_session s (assign ps v (s\<lparr>chunks := cs\<rparr>))"
  by (cases ps) (simp_all add: same_session_def assign_def)

lemma same_session_find_slot:
  assumes "stab_find_slot s n = Some (Some slot, s1)"
  shows "same_session s s1 \<and> (\<exists>c i. slot = Type_slot c i)"
  using find_slot_elim[OF assms] by (auto simp: same_session_assign)

lemma same_session_slot_set: "same_session s (slot_set (Type_slot c i) v s)"
  by (simp add: same_session_def slot_set_def)

lemma strchr_append_found:
  "c \<notin> set xs \<Longrightarrow> strchr (xs @ c # ys) c = Some (c # ys)"
  by (induction xs) auto

lemma strchr_suffix: "strchr xs c = Some q \<Longrightarrow> length q \<le> length xs"
  by (induction xs) (auto split: if_splits)

lemma strchr_append_other:
  "d \<notin> set xs \<Longrightarrow> strchr (xs @ ys) d = strchr ys d"
  by (induction xs) auto

lemma savestring_append: "savestring (xs @ ys) ys = xs"
  by (simp add: savestring_def)

lemma find_tag_Some:
  "find_tag cells ts name = Some st \<Longrightarrow> st \<in> set ts \<and> tag_name (cells ! st) = name"
  by (induction ts) (auto split: if_splits)

lemma find_tagged_pending:
  assumes unknown: "sink_tags s (sink s) name = None" and ok: "tags_ok s"
  shows "\<exists>st s'. stab_find_tagged_type s name kind
                    = (Some (Indirect_type (Tag_slot st) (Some name)), s')
           \<and> st \<in> set (tags s') \<and> tag_name (tag_cells s' ! st) = name
           \<and> tag_type (tag_cells s' ! st) = Some (Indirect_type (Tag_slot st) (Some name))
           \<and> tag_slot (tag_cells s' ! st)
               = (if st < length (tag_cells s) then tag_slot (tag_cells s ! st) else None)
           \<and> tags_ok s'
           \<and> chunks s' = chunks s \<and> file_types s' = file_types s \<and> files s' = files s
           \<and> sink s' = sink s \<and> sink_accepts s' = sink_accepts s
           \<and> self_crossref s' = self_crossref s"
proof (cases "find_tag (tag_cells s) (tags s) name")
  case None
  let ?st = "length (tag_cells s)"
  let ?ty = "Some (Indirect_type (Tag_slot ?st) (Some name))"
  let ?s' = "s\<lparr>tag_cells := tag_cells s @
                 [\<lparr>tag_name = name, tag_kind = kind, tag_slot = None, tag_type = ?ty\<rparr>],
               tags := ?st # tags s\<rparr>"
  have r: "stab_find_tagged_type s name kind = (?ty, ?s')"
    using unknown None
    by (simp add: stab_find_tagged_type_def debug_find_tagged_type_def Let_def
        debug_make_indirect_type_def)
  have ok': "tags_ok ?s'"
    using ok by (auto simp: tags_ok_def list_all_iff nth_append)
  show ?thesis
    apply (rule exI[of _ ?st], rule exI[of _ ?s'])
    using r ok' by simp
next
  case (Some st)
  from find_tag_Some[OF Some] have mem: "st \<in> set (tags s)"
    and nm: "tag_name (tag_cells s ! st) = name" by simp_all
  from ok mem have lt: "st < length (tag_cells s)"
    and ty: "tag_type (tag_cells s ! st) = Some (Indirect_type (Tag_slot st) (Some name))"
    using nm by (auto simp: tags_ok_def list_all_iff)
  let ?cell = "tag_cells s ! st"
  let ?s' = "if tag_kind ?cell = DEBUG_KIND_ILLEGAL
             then s\<lparr>tag_cells := (tag_cells s)[st := ?cell\<lparr>tag_kind := kind\<rparr>]\<rparr> else s"
  have r: "stab_find_tagged_type s name kind = (Some (Indirect_type (Tag_slot st) (Some name)), ?s')"
    using unknown Some ty
    by (simp add: stab_find_tagged_type_def debug_find_tagged_type_def Let_def)
  have ok': "tags_ok ?s'"
    using ok by (auto simp: tags_ok_def list_all_iff nth_update_any)
  show ?thesis
    apply (rule exI[of _ st], rule exI[of _ ?s'])
    using r ok' mem nm ty lt by (simp add: nth_update_any)
qed

lemma tags_ok_cong:
  "tags s' = tags s \<Longrightarrow> tag_cells s' = tag_cells s \<Longrightarrow> tags_ok s' = tags_ok s"
  by (simp add: tags_ok_def)

lemma pending_placeholder_cong:
  "tags s' = tags s \<Longrightarrow> tag_cells s' = tag_cells s
     \<Longrightarrow> pending_placeholder s' name t = pending_placeholder s name t"
  by (simp add: pending_placeholder_def)

lemma find_tagged_outcome:
  assumes ok: "tags_ok s"
  shows "\<exists>t s'. stab_find_tagged_type s name kind = (Some t, s')
           \<and> (case sink_tags s (sink s) name of
                 Some known \<Rightarrow> t = known \<and> s' = s
               | None \<Rightarrow> pending_placeholder s' name t)
           \<and> tags_ok s'
           \<and> chunks s' = chunks s \<and> file_types s' = file_types s \<and> files s' = files s
           \<and> sink s' = sink s \<and> sink_accepts s' = sink_accepts s
           \<and> self_crossref s' = self_crossref s"
proof (cases "sink_tags s (sink s) name")
  case (Some known)
  then show ?thesis using ok
    by (simp add: stab_find_tagged_type_def debug_find_tagged_type_def)
next
  case None
  from find_tagged_pending[OF None ok, of kind] obtain st s' where
    r: "stab_find_tagged_type s name kind = (Some (Indirect_type (Tag_slot st) (Some name)), s')"
    and m: "st \<in> set (tags s')" and n: "tag_name (tag_cells s' ! st) = name"
    and t: "tag_type (tag_cells s' ! st) = Some (Indirect_type (Tag_slot st) (Some name))"
    and ok': "tags_ok s'"
    and fr: "chunks s' = chunks s \<and> file_types s' = file_types s \<and> files s' = files s
           \<and> sink s' = sink s \<and> sink_accepts s' = sink_accepts s
           \<and> self_crossref s' = self_crossref s"
    by blast
  from ok' m have sl: "tag_slot (tag_cells s' ! st) = None"
    by (auto simp: tags_ok_def list_all_iff)
  have pp: "pending_placeholder s' name (Indirect_type (Tag_slot st) (Some name))"
    unfolding pending_placeholder_def list_ex_iff using m n t sl by blast
  show ?thesis
    apply (rule exI[of _ "Indirect_type (Tag_slot st) (Some name)"], rule exI[of _ s'])
    using r None pp ok' fr by simp
qed

lemma cross_reference_self:
  assumes nm: "CHR '':'' \<notin> set name" "CHR ''<'' \<notin> set name" and code: "code \<noteq> NUL"
  shows "\<exists>kind s1. (s1 = s \<or> s1 = report (Warn_stab ''unrecognized cross reference type'' orig) s)
           \<and> parse_cross_reference s (Some name) orig (code # name @ CHR '':'' # rest)
               = (case stab_find_tagged_type (s1\<lparr>self_crossref := True\<rparr>) name kind of
                    (t, s3) \<Rightarrow> (t, rest, s3))"
proof -
  have colon: "strchr (name @ CHR '':'' # rest) CHR '':'' = Some (CHR '':'' # rest)"
    using nm(1) by (rule strchr_append_found)
  have lt: "strchr (name @ CHR '':'' # rest) CHR ''<'' = strchr rest CHR ''<''"
    using nm(2) by (simp add: strchr_append_other)
  have nolt: "\<not> Suc (length rest) < length q1" if "strchr rest CHR ''<'' = Some q1" for q1
    using strchr_suffix[OF that] by simp
  let ?kind = "if code = CHR ''s'' then DEBUG_KIND_STRUCT
               else if code = CHR ''u'' then DEBUG_KIND_UNION
               else if code = CHR ''e'' then DEBUG_KIND_ENUM
               else DEBUG_KIND_STRUCT"
  let ?s1 = "if code = CHR ''s'' \<or> code = CHR ''u'' \<or> code = CHR ''e'' then s
             else report (Warn_stab ''unrecognized cross reference type'' orig) s"
  have "parse_cross_reference s (Some name) orig (code # name @ CHR '':'' # rest)
          = (case stab_find_tagged_type (?s1\<lparr>self_crossref := True\<rparr>) name ?kind of
               (t, s3) \<Rightarrow> (t, rest, s3))"
  proof (cases "strchr rest CHR ''<''")
    case None
    then show ?thesis
      unfolding parse_cross_reference_def using code
      by (simp add: Let_def colon lt savestring_append)
  next
    case (Some q1)
    then show ?thesis
      unfolding parse_cross_reference_def using code nolt[OF Some]
      by (simp add: Let_def colon lt savestring_append)
  qed
  moreover have "?s1 = s \<or> ?s1 = report (Warn_stab ''unrecognized cross reference type'' orig) s"
    by simp
  ultimately show ?thesis by blast
qed

lemma cur_start_nonempty:
  "ISDIGIT (cur p) \<or> cur p = CHR ''('' \<or> cur p = CHR ''-'' \<Longrightarrow> p \<noteq> [] \<and> cur p \<noteq> CHR ''t''"
  by (cases p) (auto simp: ISDIGIT_def NUL_def)

lemma record_type_succeeds:
  assumes wf: "wf_types s" and f: "unat (fst n) < files s"
  shows "\<exists>s1. stab_record_type s n v = Some (True, s1) \<and> same_session s s1"
proof -
  from find_slot_succeeds[OF wf f] obtain c s1 where
    r: "stab_find_slot s n = Some (Some (Type_slot c (slot_offset n)), s1)" by blast
  from same_session_find_slot[OF r] have a: "same_session s s1" by simp
  have b: "same_session s1 (slot_set (Type_slot c (slot_offset n)) v s1)"
    by (rule same_session_slot_set)
  show ?thesis
    using r same_session_trans[OF a b] by (simp add: stab_record_type_def)
qed

lemma self_reference_body:
  assumes wf: "wf_types s" and tg: "tags_ok s"
    and nm: "CHR '':'' \<notin> set name" "CHR ''<'' \<notin> set name" and code: "code \<noteq> NUL"
    and start: "ISDIGIT (cur p) \<or> cur p = CHR ''('' \<or> cur p = CHR ''-''"
    and ok: "tn_ok (parse_stab_type_number p)"
    and nums: "tn_nums (parse_stab_type_number p) = typenums"
    and body: "tn_rest (parse_stab_type_number p)
                 = CHR ''='' # CHR ''x'' # code # name @ CHR '':'' # rest"
    and infile: "unat (fst typenums) < files s"
  shows "\<exists>t slot s1.
           parse_stab_type_body rec dm s (Some name) p True = Some (Some t, slot, rest, s1)
         \<and> self_crossref s1
         \<and> (case slot of None \<Rightarrow> True | Some r \<Rightarrow> \<exists>c i. r = Type_slot c i)
         \<and> sink s1 = sink s \<and> sink_accepts s1 = sink_accepts s
         \<and> (case sink_tags s (sink s) name of
               Some known \<Rightarrow> t = known \<and> tags s1 = tags s \<and> tag_cells s1 = tag_cells s
             | None \<Rightarrow> pending_placeholder s1 name t)"
proof -
  let ?tn = "parse_stab_type_number p"
  let ?s0 = "reports (tn_errs ?tn) (s\<lparr>self_crossref := False\<rparr>)"
  have ne: "p \<noteq> []" using cur_start_nonempty[OF start] by simp
  have "wf_types ?s0 = wf_types s"
    by (rule wf_types_cong) (simp_all add: reports_def)
  with wf have wf0: "wf_types ?s0" by simp
  have f0: "unat (fst typenums) < files ?s0" using infile by (simp add: reports_def)
  have ss0: "tags ?s0 = tags s \<and> tag_cells ?s0 = tag_cells s \<and> sink ?s0 = sink s
      \<and> sink_tags ?s0 = sink_tags s \<and> sink_accepts ?s0 = sink_accepts s \<and> files ?s0 = files s"
    by (simp add: reports_def)
  \<comment> \<open>the slot\<close>
  have "\<exists>slot s2. (if True \<and> 0 \<le>s fst typenums \<and> 0 \<le>s snd typenums
                   then stab_find_slot ?s0 typenums else Some (None, ?s0)) = Some (slot, s2)
          \<and> same_session ?s0 s2 \<and> wf_types s2
          \<and> (case slot of None \<Rightarrow> True | Some r \<Rightarrow> \<exists>c i. r = Type_slot c i)"
  proof (cases "0 \<le>s fst typenums \<and> 0 \<le>s snd typenums")
    case True
    from find_slot_succeeds[OF wf0 f0] obtain c s2 where
      r: "stab_find_slot ?s0 typenums = Some (Some (Type_slot c (slot_offset typenums)), s2)"
      by blast
    from same_session_find_slot[OF r] have a: "same_session ?s0 s2" by simp
    from wf_types_find_slot[OF wf0 r] have b: "wf_types s2" .
    show ?thesis
      apply (rule exI[of _ "Some (Type_slot c (slot_offset typenums))"], rule exI[of _ s2])
      using True r a b by simp
  next
    case False
    show ?thesis
      apply (rule exI[of _ None], rule exI[of _ ?s0])
      using False wf0 by auto
  qed
  then obtain slot s2 where
    sl: "(if True \<and> 0 \<le>s fst typenums \<and> 0 \<le>s snd typenums
          then stab_find_slot ?s0 typenums else Some (None, ?s0)) = Some (slot, s2)"
    and ss2: "same_session ?s0 s2" and wf2: "wf_types s2"
    and shape: "case slot of None \<Rightarrow> True | Some r \<Rightarrow> \<exists>c i. r = Type_slot c i"
    by blast
  have tg2: "tags_ok s2"
    using tg ss2 ss0 by (simp add: same_session_def tags_ok_def)
  \<comment> \<open>the cross reference\<close>
  from cross_reference_self[OF nm code, of s2 p rest] obtain kind sw where
    sw: "sw = s2 \<or> sw = report (Warn_stab ''unrecognized cross reference type'' p) s2"
    and x: "parse_cross_reference s2 (Some name) p (code # name @ CHR '':'' # rest)
              = (case stab_find_tagged_type (sw\<lparr>self_crossref := True\<rparr>) name kind of
                   (t, s3) \<Rightarrow> (t, rest, s3))"
    by blast
  let ?sx = "sw\<lparr>self_crossref := True\<rparr>"
  have fx: "tags ?sx = tags s \<and> tag_cells ?sx = tag_cells s \<and> sink ?sx = sink s
      \<and> sink_tags ?sx = sink_tags s \<and> sink_accepts ?sx = sink_accepts s
      \<and> files ?sx = files s \<and> chunks ?sx = chunks s2 \<and> file_types ?sx = file_types s2
      \<and> files ?sx = files s2"
    using sw ss2 ss0 by (auto simp: same_session_def report_def)
  have tgx: "tags_ok ?sx" using tg fx by (simp add: tags_ok_def)
  have wfx: "wf_types ?sx" using wf2 fx by (simp add: wf_types_cong[of ?sx s2])
  from find_tagged_outcome[OF tgx, of name kind] obtain t s3 where
    ft: "stab_find_tagged_type ?sx name kind = (Some t, s3)"
    and out: "case sink_tags ?sx (sink ?sx) name of
                 Some known \<Rightarrow> t = known \<and> s3 = ?sx
               | None \<Rightarrow> pending_placeholder s3 name t"
    and f3: "chunks s3 = chunks ?sx \<and> file_types s3 = file_types ?sx \<and> files s3 = files ?sx
           \<and> sink s3 = sink ?sx \<and> sink_accepts s3 = sink_accepts ?sx
           \<and> self_crossref s3 = self_crossref ?sx"
    by blast
  have wf3: "wf_types s3" using wfx f3 by (simp add: wf_types_cong[of s3 ?sx])
  have file3: "unat (fst typenums) < files s3" using infile f3 fx by simp
  \<comment> \<open>the record under the type number\<close>
  have "\<exists>s4. type_finish s3 typenums (- 1) (Some t) = Some (Some t, s4) \<and> same_session s3 s4"
  proof (cases "fst typenums = - 1")
    case True
    then show ?thesis by (simp add: type_finish_def)
  next
    case False
    from record_type_succeeds[OF wf3 file3, of "Some t"] obtain s4 where
      "stab_record_type s3 typenums (Some t) = Some (True, s4)" "same_session s3 s4" by blast
    then show ?thesis using False by (simp add: type_finish_def)
  qed
  then obtain s4 where
    fin: "type_finish s3 typenums (- 1) (Some t) = Some (Some t, s4)"
    and ss4: "same_session s3 s4" by blast
  have res: "parse_stab_type_body rec dm s (Some name) p True = Some (Some t, slot, rest, s4)"
  proof -
    have g: "(\<not> ISDIGIT (cur p) \<and> cur p \<noteq> CHR ''('' \<and> cur p \<noteq> CHR ''-'') = False"
      using start by blast
    have td: "type_descriptor rec dm s2 (Some name) p typenums False
                (CHR ''x'' # code # name @ CHR '':'' # rest)
              = Some (parse_cross_reference s2 (Some name) p (code # name @ CHR '':'' # rest))"
      by (simp add: type_descriptor_def)
    have ta: "type_attributes (Suc (length p)) (CHR ''x'' # code # name @ CHR '':'' # rest) (- 1) False
              = Some (Some (- 1, False, CHR ''x'' # code # name @ CHR '':'' # rest))"
      by simp
    have ne': "(p = []) = False" using ne by simp
    have ok': "tn_ok (parse_stab_type_number p) = True" using ok by simp
    have eq: "(cur (tn_rest (parse_stab_type_number p)) \<noteq> CHR ''='') = False"
      by (simp add: body)
    have tlr: "tl (tn_rest (parse_stab_type_number p)) = CHR ''x'' # code # name @ CHR '':'' # rest"
      by (simp add: body)
    show ?thesis
      unfolding parse_stab_type_body_def Let_def
      by (simp only: ne' g ok' eq tlr nums if_False if_True not_True_eq_False sl ta td x ft fin
          option.case prod.case)
  qed
  have c1: "self_crossref s4" using ss4 f3 by (simp add: same_session_def)
  have c2: "sink s4 = sink s \<and> sink_accepts s4 = sink_accepts s"
    using ss4 f3 fx by (simp add: same_session_def)
  have c3: "case sink_tags s (sink s) name of
               Some known \<Rightarrow> t = known \<and> tags s4 = tags s \<and> tag_cells s4 = tag_cells s
             | None \<Rightarrow> pending_placeholder s4 name t"
  proof (cases "sink_tags s (sink s) name")
    case None
    then have "pending_placeholder s3 name t" using out fx by simp
    then show ?thesis using None ss4
      by (simp add: same_session_def pending_placeholder_def)
  next
    case (Some known)
    then have "t = known \<and> s3 = ?sx" using out fx by simp
    then show ?thesis using Some ss4 fx by (simp add: same_session_def)
  qed
  show ?thesis
    apply (rule exI[of _ t], rule exI[of _ slot], rule exI[of _ s4])
    using res c1 shape c2 c3 by simp
qed

lemma store_slot_tags:
  assumes "case slot of None \<Rightarrow> True | Some r \<Rightarrow> \<exists>c i. r = Type_slot c i"
  shows "tags (store_slot slot v s) = tags s \<and> tag_cells (store_slot slot v s) = tag_cells s
       \<and> sink (store_slot slot v s) = sink s
       \<and> sink_accepts (store_slot slot v s) = sink_accepts s"
  using assms by (auto simp: store_slot_def slot_set_def split: option.splits)

lemma debug_tag_type_outcome:
  assumes acc: "\<forall>h c. sink_accepts s h c"
  shows "\<exists>r s2. debug_tag_type name (Some t) s = (r, s2)
           \<and> tags s2 = tags s \<and> tag_cells s2 = tag_cells s \<and> sink_accepts s2 = sink_accepts s
           \<and> ((\<forall>n ty. t \<noteq> Tagged_type n ty) \<longrightarrow> r = Some (Tagged_type name t))"
proof (cases "\<exists>n ty. t = Tagged_type n ty")
  case True
  then obtain n ty where "t = Tagged_type n ty" by blast
  then show ?thesis by (simp add: debug_tag_type_def)
next
  case False
  then have "debug_tag_type name (Some t) s
               = (Some (Tagged_type name t), s\<lparr>sink := sink s @ [Tag_type name t]\<rparr>)"
    using acc by (cases t) (simp_all add: debug_tag_type_def call_sink_def)
  then show ?thesis by simp
qed

lemma debug_name_type_accepted:
  assumes acc: "\<forall>h c. sink_accepts s h c"
  shows "debug_name_type name (Some t) s
           = (Some (Named_type name t), s\<lparr>sink := sink s @ [Name_type name t]\<rparr>)"
  using acc by (simp add: debug_name_type_def call_sink_def)

lemma define_tag_self:
  assumes parse: "parse_stab_type dm s (Some name) p True = Some (Some t, slot, rest, s1)"
    and self: "self_crossref s1"
    and shape: "case slot of None \<Rightarrow> True | Some r \<Rightarrow> \<exists>c i. r = Type_slot c i"
    and acc: "\<forall>h c. sink_accepts s1 h c"
    and nt: "cur p \<noteq> CHR ''t''"
    and syn: "p0 = p \<or> p0 = CHR ''t'' # p"
  shows "\<exists>ok s'. define_tag dm s (Some name) p0 = Some (ok, s')
           \<and> tags s' = tags s1 \<and> tag_cells s' = tag_cells s1
           \<and> ((\<forall>n ty. t \<noteq> Tagged_type n ty) \<longrightarrow> ok)"
proof -
  have p': "(if cur p0 = CHR ''t'' then tl p0 else p0) = p"
    using syn nt by auto
  from debug_tag_type_outcome[OF acc, of name t] obtain r s2 where
    tag: "debug_tag_type name (Some t) s1 = (r, s2)"
    and f2: "tags s2 = tags s1 \<and> tag_cells s2 = tag_cells s1 \<and> sink_accepts s2 = sink_accepts s1"
    and r: "(\<forall>n ty. t \<noteq> Tagged_type n ty) \<longrightarrow> r = Some (Tagged_type name t)"
    by blast
  show ?thesis
  proof (cases r)
    case None
    have "define_tag dm s (Some name) p0 = Some (False, s2)"
      using syn nt None by (auto simp: define_tag_def Let_def parse tag)
    then show ?thesis using f2 r None by auto
  next
    case (Some t')
    let ?s3 = "store_slot slot (Some t') s2"
    note f3 = store_slot_tags[OF shape, of "Some t'" s2]
    have acc3: "\<forall>h c. sink_accepts ?s3 h c" using acc f2 f3 by simp
    show ?thesis
    proof (cases "cur p0 = CHR ''t''")
      case False
      then have "p0 = p" using syn by auto
      then have "define_tag dm s (Some name) p0 = Some (True, ?s3)"
        using self nt by (simp add: define_tag_def Let_def parse tag Some)
      then show ?thesis using f2 f3 by auto
    next
      case True
      let ?s5 = "?s3\<lparr>sink := sink ?s3 @ [Name_type name t']\<rparr>"
      from True have "p0 = CHR ''t'' # p" using syn nt by auto
      then have "define_tag dm s (Some name) p0
              = Some (True, store_slot slot (Some (Named_type name t')) ?s5)"
        using self
        by (simp add: define_tag_def Let_def parse tag Some debug_name_type_accepted[OF acc3])
      moreover have "tags (store_slot slot (Some (Named_type name t')) ?s5) = tags s1
          \<and> tag_cells (store_slot slot (Some (Named_type name t')) ?s5) = tag_cells s1"
        using store_slot_tags[OF shape, of "Some (Named_type name t')" ?s5] f2 f3 by simp
      ultimately show ?thesis by auto
    qed
  qed
qed

text \<open>
  C6, as the code has it.  Take a tag definition \<open>name:T\<close> or \<open>name:Tt\<close> whose type is a type
  number followed by \<open>=x\<close>, a kind letter and the very \<open>name\<close>, in a session with well-formed
  type tables, a well-formed list of undefined tags and a sink that accepts its calls.  Then
  \<open>parse_stab_type\<close> returns without any recursive call, having set \<open>self_crossref\<close>, and
  \<open>define_tag\<close> returns, leaving the list of undefined tags as \<open>parse_stab_type\<close> left it: no
  entry is filled in or unlinked.  The type read is what \<open>stab_find_tagged_type\<close> answers:
  the type the sink already holds under that tag name when it holds one (then no entry is
  made on the list of undefined tags), and otherwise the indirect placeholder of the entry
  for \<open>name\<close> on that list, whose slot stays \<open>NULL\<close>; in that case the record succeeds.
\<close>

theorem self_cross_reference:
  assumes wf: "wf_types s" and tg: "tags_ok s"
    and acc: "\<forall>h c. sink_accepts s h c"
    and nm: "CHR '':'' \<notin> set name" "CHR ''<'' \<notin> set name" and code: "code \<noteq> NUL"
    and start: "ISDIGIT (cur p) \<or> cur p = CHR ''('' \<or> cur p = CHR ''-''"
    and ok: "tn_ok (parse_stab_type_number p)"
    and nums: "tn_nums (parse_stab_type_number p) = typenums"
    and body: "tn_rest (parse_stab_type_number p)
                 = CHR ''='' # CHR ''x'' # code # name @ CHR '':'' # rest"
    and infile: "unat (fst typenums) < files s"
    and syn: "p0 = p \<or> p0 = CHR ''t'' # p"
  shows "\<exists>t slot s1 accepted s'.
           parse_stab_type dm s (Some name) p True = Some (Some t, slot, rest, s1)
         \<and> self_crossref s1
         \<and> define_tag dm s (Some name) p0 = Some (accepted, s')
         \<and> tags s' = tags s1 \<and> tag_cells s' = tag_cells s1
         \<and> (case sink_tags s (sink s) name of
               Some known \<Rightarrow> t = known \<and> tags s1 = tags s \<and> tag_cells s1 = tag_cells s
             | None \<Rightarrow> accepted \<and> pending_placeholder s' name t)"
proof -
  from self_reference_body[OF wf tg nm code start ok nums body infile,
      of "parse_stab_type_rec (length p) dm" dm]
  obtain t slot s1 where
    parse: "parse_stab_type dm s (Some name) p True = Some (Some t, slot, rest, s1)"
    and self: "self_crossref s1"
    and shape: "case slot of None \<Rightarrow> True | Some r \<Rightarrow> \<exists>c i. r = Type_slot c i"
    and fr: "sink s1 = sink s \<and> sink_accepts s1 = sink_accepts s"
    and out: "case sink_tags s (sink s) name of
               Some known \<Rightarrow> t = known \<and> tags s1 = tags s \<and> tag_cells s1 = tag_cells s
             | None \<Rightarrow> pending_placeholder s1 name t"
    unfolding parse_stab_type_def by blast
  have acc1: "\<forall>h c. sink_accepts s1 h c" using acc fr by simp
  have nt: "cur p \<noteq> CHR ''t''" using cur_start_nonempty[OF start] by simp
  from define_tag_self[OF parse self shape acc1 nt syn] obtain fin s' where
    dt: "define_tag dm s (Some name) p0 = Some (fin, s')"
    and f: "tags s' = tags s1 \<and> tag_cells s' = tag_cells s1"
    and okk: "(\<forall>n ty. t \<noteq> Tagged_type n ty) \<longrightarrow> fin"
    by blast
  have last: "case sink_tags s (sink s) name of
               Some known \<Rightarrow> t = known \<and> tags s1 = tags s \<and> tag_cells s1 = tag_cells s
             | None \<Rightarrow> fin \<and> pending_placeholder s' name t"
  proof (cases "sink_tags s (sink s) name")
    case None
    then have pp: "pending_placeholder s1 name t" using out by simp
    then have "\<forall>n ty. t \<noteq> Tagged_type n ty"
      by (auto simp: pending_placeholder_def list_ex_iff)
    with okk have fin by simp
    moreover have "pending_placeholder s' name t"
      using pp f by (simp add: pending_placeholder_def)
    ultimately show ?thesis using None by simp
  next
    case (Some known)
    then show ?thesis using out by simp
  qed
  show ?thesis
    apply (rule exI[of _ t], rule exI[of _ slot], rule exI[of _ s1], rule exI[of _ fin],
        rule exI[of _ s'])
    using parse self dt f last by simp
qed

lemma tag_literals:
  "parse_number (CHR ''1'' # CHR ''9'' # CHR ''='' # r) f
     = \<lparr>nr_value = 19, nr_rest = CHR ''='' # r, nr_overflow = False, nr_errs = []\<rparr>"
  "parse_number (CHR ''2'' # CHR ''0'' # CHR ''='' # r) f
     = \<lparr>nr_value = 20, nr_rest = CHR ''='' # r, nr_overflow = False, nr_errs = []\<rparr>"
  "parse_number (CHR ''0'' # CHR '','' # r) f
     = \<lparr>nr_value = 0, nr_rest = CHR '','' # r, nr_overflow = False, nr_errs = []\<rparr>"
  by (simp_all add: parse_number_def strtoul_def is_digit_of_def digit_val_def isspace_def
      NUL_def ULONG_MAX_def)

lemma enum_text: "parse_stab_enum_type s ''a:0,;'' = Some (Some (Enum_type [''a''] [0]), [], s)"
  by (simp add: parse_stab_enum_type_def Let_def tag_literals NUL_def savestring_def reports_def
      debug_make_enum_type_def)

lemmas type_eval = parse_stab_type_def parse_stab_type_body_def parse_stab_type_number_def
      tag_literals ISDIGIT_def reports_def NUL_def
      stab_find_slot_def deref_def assign_def STAB_TYPES_SLOTS_def word_sle_eq
      type_descriptor_def type_finish_def Let_def stab_record_type_def slot_set_def
      remembering_def in_unit_def fresh_def start_stab_def report_def new_chunk_def

lemmas record_eval = parse_stab_def begin_unit_def parse_stab_string_def define_tag_def
      cstr_def NUL_def ISDIGIT_def Let_def savestring_def debug_tag_type_def call_sink_def
      store_slot_def slot_set_def fill_tag_def
      remembering_def in_unit_def fresh_def start_stab_def

lemma first_type:
  "parse_stab_type no_demangler remembering (Some ''fleep'') ''19=ea:0,;'' True
     = Some (Some (Enum_type [''a''] [0]), Some (Type_slot 0 3), [],
             remembering\<lparr>file_types := [Some 0],
               chunks := [\<lparr>st_next = None, base_index = 16,
                   types = (replicate 16 None)[3 := Some (Enum_type [''a''] [0])]\<rparr>]\<rparr>)"
  by (simp add: type_eval enum_text[simplified] del: parse_stab_type_rec.simps)

lemma first_record:
  "parse_stab no_demangler remembering (N_OTHER 128) 0 0 ''fleep:T19=ea:0,;''
     = Some (True, fleep_defined)"
  using first_type by (simp add: record_eval fleep_defined_def)

lemma second_type:
  "parse_stab_type no_demangler fleep_defined (Some ''fleep'') ''20=xsfleep:'' True
     = Some (Some (Tagged_type ''fleep'' (Enum_type [''a''] [0])), Some (Type_slot 0 4), [],
             fleep_redefined)"
  by (simp add: type_eval fleep_defined_def fleep_redefined_def parse_cross_reference_def savestring_def
      stab_find_tagged_type_def debug_find_tagged_type_def
      del: parse_stab_type_rec.simps)

lemma second_record:
  "parse_stab no_demangler fleep_defined (N_OTHER 128) 0 0 ''fleep:T20=xsfleep:''
     = Some (True, fleep_redefined)"
  using second_type
  by (simp add: record_eval fleep_defined_def fleep_redefined_def)

lemma pending_record:
  "parse_stab no_demangler in_unit (N_OTHER 128) 0 0 ''fleep:T20=xsfleep:''
     = Some (True, fleep_pending)"
proof -
  have "parse_stab_type no_demangler in_unit (Some ''fleep'') ''20=xsfleep:'' True
     = Some (Some (Indirect_type (Tag_slot 0) (Some ''fleep'')), Some (Type_slot 0 4), [],
             in_unit\<lparr>file_types := [Some 0],
               chunks := [\<lparr>st_next = None, base_index = 16,
                   types = (replicate 16 None)
                     [4 := Some (Indirect_type (Tag_slot 0) (Some ''fleep''))]\<rparr>],
               tags := [0],
               tag_cells := [\<lparr>tag_name = ''fleep'', tag_kind = DEBUG_KIND_STRUCT, tag_slot = None,
                      tag_type = Some (Indirect_type (Tag_slot 0) (Some ''fleep''))\<rparr>],
               self_crossref := True\<rparr>)"
    by (simp add: type_eval parse_cross_reference_def savestring_def
        stab_find_tagged_type_def debug_find_tagged_type_def debug_make_indirect_type_def
        del: parse_stab_type_rec.simps)
  then show ?thesis
    by (simp add: record_eval fleep_pending_def)
qed

theorem self_cross_reference_witness:
  "wf_types in_unit \<and> tags_ok in_unit \<and> (\<forall>h c. sink_accepts in_unit h c)
   \<and> CHR '':'' \<notin> set ''fleep'' \<and> CHR ''<'' \<notin> set ''fleep'' \<and> CHR ''s'' \<noteq> NUL
   \<and> ISDIGIT (cur ''20=xsfleep:'')
   \<and> parse_stab_type_number ''20=xsfleep:''
       = \<lparr>tn_ok = True, tn_nums = (0, 20), tn_rest = ''=xsfleep:'', tn_errs = []\<rparr>
   \<and> unat (fst (0 :: cint, 20 :: cint)) < files in_unit
   \<and> sink_tags in_unit (sink in_unit) ''fleep'' = None
   \<and> (\<exists>t slot s1 s'.
         parse_stab_type no_demangler in_unit (Some ''fleep'') ''20=xsfleep:'' True
           = Some (Some t, slot, [], s1)
       \<and> self_crossref s1
       \<and> define_tag no_demangler in_unit (Some ''fleep'') ''20=xsfleep:'' = Some (True, s')
       \<and> tags s' = tags s1 \<and> tag_cells s' = tag_cells s1
       \<and> pending_placeholder s' ''fleep'' t)
   \<and> parse_stab no_demangler in_unit (N_OTHER 128) 0 0 ''fleep:T20=xsfleep:''
       = Some (True, fleep_pending)
   \<and> tags fleep_pending = [0] \<and> tag_slot (tag_cells fleep_pending ! 0) = None"
proof -
  have "wf_types in_unit = wf_types fresh"
    by (rule wf_types_cong) (simp_all add: in_unit_def)
  then have wf: "wf_types in_unit" using wf_types_fresh by simp
  have tg: "tags_ok in_unit" by (simp add: tags_ok_def in_unit_def fresh_def start_stab_def)
  have acc: "\<forall>h c. sink_accepts in_unit h c"
    by (simp add: in_unit_def fresh_def start_stab_def)
  have n1: "CHR '':'' \<notin> set ''fleep''" and n2: "CHR ''<'' \<notin> set ''fleep''"
    and cd: "CHR ''s'' \<noteq> NUL" by (simp_all add: NUL_def)
  have dg: "ISDIGIT (cur ''20=xsfleep:'')" by (simp add: ISDIGIT_def)
  have st: "ISDIGIT (cur ''20=xsfleep:'') \<or> cur ''20=xsfleep:'' = CHR ''(''
              \<or> cur ''20=xsfleep:'' = CHR ''-''"
    using dg by simp
  have tn: "parse_stab_type_number ''20=xsfleep:''
       = \<lparr>tn_ok = True, tn_nums = (0, 20), tn_rest = ''=xsfleep:'', tn_errs = []\<rparr>"
    by (simp add: parse_stab_type_number_def tag_literals)
  have ok: "tn_ok (parse_stab_type_number ''20=xsfleep:'')"
    and nums: "tn_nums (parse_stab_type_number ''20=xsfleep:'') = (0, 20)"
    and body: "tn_rest (parse_stab_type_number ''20=xsfleep:'')
                 = CHR ''='' # CHR ''x'' # CHR ''s'' # ''fleep'' @ CHR '':'' # []"
    by (simp_all add: tn)
  have fl: "unat (fst (0 :: cint, 20 :: cint)) < files in_unit"
    by (simp add: in_unit_def fresh_def start_stab_def)
  have unknown: "sink_tags in_unit (sink in_unit) ''fleep'' = None"
    by (simp add: in_unit_def fresh_def start_stab_def)
  have syn: "''20=xsfleep:'' = ''20=xsfleep:'' \<or> ''20=xsfleep:'' = CHR ''t'' # ''20=xsfleep:''"
    by simp
  from self_cross_reference[OF wf tg acc n1 n2 cd st ok nums body fl syn, of no_demangler]
  obtain t slot s1 accepted s' where
    "parse_stab_type no_demangler in_unit (Some ''fleep'') ''20=xsfleep:'' True
           = Some (Some t, slot, [], s1)"
    "self_crossref s1"
    "define_tag no_demangler in_unit (Some ''fleep'') ''20=xsfleep:'' = Some (accepted, s')"
    "tags s' = tags s1 \<and> tag_cells s' = tag_cells s1"
    "accepted \<and> pending_placeholder s' ''fleep'' t"
    unfolding unknown option.case by blast
  then have main: "\<exists>t slot s1 s'.
         parse_stab_type no_demangler in_unit (Some ''fleep'') ''20=xsfleep:'' True
           = Some (Some t, slot, [], s1)
       \<and> self_crossref s1
       \<and> define_tag no_demangler in_unit (Some ''fleep'') ''20=xsfleep:'' = Some (True, s')
       \<and> tags s' = tags s1 \<and> tag_cells s' = tag_cells s1
       \<and> pending_placeholder s' ''fleep'' t"
    by auto
  have fp: "tags fleep_pending = [0] \<and> tag_slot (tag_cells fleep_pending ! 0) = None"
    by (simp add: fleep_pending_def)
  show ?thesis
    using wf tg acc n1 n2 cd dg tn fl unknown main pending_record fp by simp
qed

text \<open>
  When the sink already holds the tag, the cross reference is not the placeholder: after
  \<open>fleep:T19=ea:0,;\<close> the record \<open>fleep:T20=xsfleep:\<close> reads the enumeration defined before,
  and the list of undefined tags stays empty.
\<close>

theorem self_cross_reference_counterexample:
  "parse_stab no_demangler remembering (N_OTHER 128) 0 0 ''fleep:T19=ea:0,;''
     = Some (True, fleep_defined)
   \<and> tags fleep_defined = []
   \<and> parse_stab_type no_demangler fleep_defined (Some ''fleep'') ''20=xsfleep:'' True
       = Some (Some (Tagged_type ''fleep'' (Enum_type [''a''] [0])), Some (Type_slot 0 4), [],
               fleep_redefined)
   \<and> parse_stab no_demangler fleep_defined (N_OTHER 128) 0 0 ''fleep:T20=xsfleep:''
       = Some (True, fleep_redefined)
   \<and> tags fleep_redefined = [] \<and> tag_cells fleep_redefined = []"
  using first_record second_type second_record
  by (simp add: fleep_defined_def fleep_redefined_def remembering_def in_unit_def fresh_def
      start_stab_def)

subsection \<open>Method stubs\<close>






















end
